theory Spec2Isabelle
  imports Complex_Main "HOL-Library.Log_Nat"
begin

section \<open>JavaScript numbers\<close>

text \<open>
  A JavaScript number is an IEEE-754 binary64 value: a finite value, given by the rational
  it denotes, one of the two infinities, or \<^verbatim>\<open>NaN\<close>. The two zeros are one value: the
  program never divides by a zero (its divisors are the constants 3, 100 and 10000, the
  length of a non-empty array, and a total tested against zero beforehand) and compares
  with \<^verbatim>\<open>===\<close>, which takes the two zeros as equal. On values that
  binary64 has, the operations below return such values again; what is proved of them
  holds for every rational argument.
\<close>

datatype number = Num rat | PosInf | NegInf | NaN

text \<open>The binary exponent of a rational other than zero: \<open>2 powi expo x \<le> \<bar>x\<bar> < 2 powi (expo x + 1)\<close>.\<close>

definition expo :: "rat \<Rightarrow> int" where
  "expo x =
     (let (n, d) = quotient_of \<bar>x\<bar>; e = bitlen n - bitlen d
      in if 2 powi e \<le> \<bar>x\<bar> then e else e - 1)"

text \<open>The nearest integer, a tie going to the even one.\<close>

definition rne :: "rat \<Rightarrow> int" where
  "rne x =
     (let f = \<lfloor>x\<rfloor>; d = x - of_int f
      in if d < 1 / 2 then f else if 1 / 2 < d then f + 1 else if even f then f else f + 1)"

text \<open>
  The distance of two neighbouring binary64 values around \<open>x\<close>: 53 significant bits, and
  the fixed spacing of the subnormal values below \<open>2 powi (- 1022)\<close>.
\<close>

definition quantum :: "rat \<Rightarrow> rat" where
  "quantum x = 2 powi (max (expo x) (- 1022) - 52)"

definition round64 :: "rat \<Rightarrow> rat" where
  "round64 x = (if x = 0 then 0 else of_int (rne (x / quantum x)) * quantum x)"

text \<open>
  The binary64 value of an exact result (round to nearest, ties to even): what rounds to
  \<open>2 powi 1024\<close> or beyond is an infinity.
\<close>

definition fl :: "rat \<Rightarrow> number" where
  "fl x =
     (let y = round64 x
      in if 2 powi 1024 \<le> y then PosInf else if y \<le> - (2 powi 1024) then NegInf else Num y)"

definition sign :: "number \<Rightarrow> int" where
  "sign a =
     (case a of
        Num x \<Rightarrow> (if x < 0 then - 1 else if x = 0 then 0 else 1)
      | PosInf \<Rightarrow> 1
      | NegInf \<Rightarrow> - 1
      | NaN \<Rightarrow> 0)"

definition infinity :: "int \<Rightarrow> number" where
  "infinity s = (if s < 0 then NegInf else if s = 0 then NaN else PosInf)"

text \<open>The operators \<^verbatim>\<open>+\<close>, \<^verbatim>\<open>-\<close>, \<^verbatim>\<open>*\<close> and \<^verbatim>\<open>/\<close> on numbers.\<close>

instantiation number :: "{plus, uminus, minus, times, inverse}"
begin

definition plus_number :: "number \<Rightarrow> number \<Rightarrow> number" where
  "a + b =
     (case (a, b) of
        (NaN, _) \<Rightarrow> NaN
      | (_, NaN) \<Rightarrow> NaN
      | (Num x, Num y) \<Rightarrow> fl (x + y)
      | (PosInf, NegInf) \<Rightarrow> NaN
      | (NegInf, PosInf) \<Rightarrow> NaN
      | (PosInf, _) \<Rightarrow> PosInf
      | (_, PosInf) \<Rightarrow> PosInf
      | (NegInf, _) \<Rightarrow> NegInf
      | (_, NegInf) \<Rightarrow> NegInf)"

definition uminus_number :: "number \<Rightarrow> number" where
  "- a = (case a of Num x \<Rightarrow> Num (- x) | PosInf \<Rightarrow> NegInf | NegInf \<Rightarrow> PosInf | NaN \<Rightarrow> NaN)"

definition minus_number :: "number \<Rightarrow> number \<Rightarrow> number" where
  "a - b = a + (- b :: number)"

definition times_number :: "number \<Rightarrow> number \<Rightarrow> number" where
  "a * b =
     (case (a, b) of
        (NaN, _) \<Rightarrow> NaN
      | (_, NaN) \<Rightarrow> NaN
      | (Num x, Num y) \<Rightarrow> fl (x * y)
      | _ \<Rightarrow> infinity (sign a * sign b))"

definition divide_number :: "number \<Rightarrow> number \<Rightarrow> number" where
  "divide_number a b =
     (case (a, b) of
        (NaN, _) \<Rightarrow> NaN
      | (_, NaN) \<Rightarrow> NaN
      | (Num x, Num y) \<Rightarrow> (if y = 0 then infinity (sign a) else fl (x / y))
      | (Num x, _) \<Rightarrow> Num 0
      | (_, Num y) \<Rightarrow> (if y < 0 then - a else a)
      | _ \<Rightarrow> NaN)"

definition inverse_number :: "number \<Rightarrow> number" where
  "inverse_number a =
     (case a of
        NaN \<Rightarrow> NaN
      | Num y \<Rightarrow> (if y = 0 then PosInf else fl (1 / y))
      | _ \<Rightarrow> Num 0)"

instance ..

end

text \<open>\<^verbatim>\<open>a <= b\<close>: false as soon as one side is \<^verbatim>\<open>NaN\<close>.\<close>

definition js_le :: "number \<Rightarrow> number \<Rightarrow> bool" where
  "js_le a b =
     (case (a, b) of
        (NaN, _) \<Rightarrow> False
      | (_, NaN) \<Rightarrow> False
      | (NegInf, _) \<Rightarrow> True
      | (_, PosInf) \<Rightarrow> True
      | (Num x, Num y) \<Rightarrow> x \<le> y
      | _ \<Rightarrow> False)"

definition Math_min :: "number \<Rightarrow> number \<Rightarrow> number" where
  "Math_min a b =
     (case (a, b) of
        (NaN, _) \<Rightarrow> NaN
      | (_, NaN) \<Rightarrow> NaN
      | (NegInf, _) \<Rightarrow> NegInf
      | (_, NegInf) \<Rightarrow> NegInf
      | (PosInf, _) \<Rightarrow> b
      | (_, PosInf) \<Rightarrow> a
      | (Num x, Num y) \<Rightarrow> Num (min x y))"

definition Math_max :: "number \<Rightarrow> number \<Rightarrow> number" where
  "Math_max a b =
     (case (a, b) of
        (NaN, _) \<Rightarrow> NaN
      | (_, NaN) \<Rightarrow> NaN
      | (PosInf, _) \<Rightarrow> PosInf
      | (_, PosInf) \<Rightarrow> PosInf
      | (NegInf, _) \<Rightarrow> b
      | (_, NegInf) \<Rightarrow> a
      | (Num x, Num y) \<Rightarrow> Num (max x y))"

text \<open>
  \<^verbatim>\<open>Math.round\<close>: the nearest integer, a tie going to the larger one; the result of a
  binary64 value is one again.
\<close>

definition Math_round :: "number \<Rightarrow> number" where
  "Math_round a = (case a of Num x \<Rightarrow> Num (of_int \<lfloor>x + 1 / 2\<rfloor>) | _ \<Rightarrow> a)"

text \<open>
  \<^verbatim>\<open>Math.pow(10, decimals)\<close> for a count of decimals; every caller passes 2, where the
  power is exactly 100.
\<close>

definition Math_pow10 :: "nat \<Rightarrow> number" where
  "Math_pow10 n = fl (10 ^ n)"

text \<open>The numbers that JavaScript takes as false: zero and \<^verbatim>\<open>NaN\<close>.\<close>

definition falsy :: "number \<Rightarrow> bool" where
  "falsy a = (a = Num 0 \<or> a = NaN)"

text \<open>
  A field that may be absent on a document (\<^verbatim>\<open>undefined\<close>) is an \<open>option\<close>; the idiom
  \<^verbatim>\<open>x || 0\<close> on such a field is \<open>or0\<close>, and \<open>num_or0\<close> on a number.
\<close>

definition or0 :: "number option \<Rightarrow> number" where
  "or0 v = (case v of None \<Rightarrow> Num 0 | Some x \<Rightarrow> if falsy x then Num 0 else x)"

definition num_or0 :: "number \<Rightarrow> number" where
  "num_or0 x = (if falsy x then Num 0 else x)"

section \<open>Rounding helpers (utils/helpers.js)\<close>

definition roundToDecimal :: "number \<Rightarrow> nat \<Rightarrow> number" where
  "roundToDecimal number decimals =
     Math_round (number * Math_pow10 decimals) / Math_pow10 decimals"

definition calculatePercentage :: "number \<Rightarrow> number \<Rightarrow> nat \<Rightarrow> number" where
  "calculatePercentage part whole decimals =
     (if whole = Num 0 then Num 0 else roundToDecimal ((part / whole) * Num 100) decimals)"

section \<open>Report, user and audit-log documents (models/Report.js, User.js, AuditLog.js)\<close>

text \<open>
  Document identifiers (\<^verbatim>\<open>_id\<close>, references) are strings; instants (\<^verbatim>\<open>Date\<close>) are
  integers that are compared as the dates are. The four summary sub-documents of a report
  are the shapes the calculation service returns.
\<close>

record environmentalSummary =
  totalScope1Emissions :: number
  totalScope2Emissions :: number
  totalScope3Emissions :: number
  totalCarbonEmissions :: number
  averageRenewableEnergyPercentage :: number
  totalEnergyConsumption :: number
  totalWaterUsage :: number
  wasteRecyclingRate :: number

record socialSummary =
  averageDiversityRatio :: number
  totalHealthAndSafetyIncidents :: number
  averageTrainingHours :: number
  averageTurnoverRate :: number
  totalCommunityInvestment :: number
  averageFemaleEmployeesPercentage :: number

record governanceSummary =
  averageBoardIndependence :: number
  complianceRate :: number
  totalWhistleblowerCases :: number
  totalDataBreaches :: number
  averageFemaleDirectorsPercentage :: number

record overallScore =
  environmentalScore :: number
  socialScore :: number
  governanceScore :: number
  totalScore :: number

record report_period =
  startDate :: int
  endDate :: int
  year :: int

record report =
  report_id :: string
  reportTitle :: string
  organization :: string
  reportType :: string
  reportingPeriod :: report_period
  environmentalSummary :: environmentalSummary
  socialSummary :: socialSummary
  governanceSummary :: governanceSummary
  overallScore :: overallScore
  includedRecords :: "string list"
  generatedBy :: string
  status :: string
  report_notes :: "string option"
  publishedAt :: "int option"

record user =
  user_id :: string
  name :: string
  email :: string
  password :: "string option"
  role :: string
  organization :: string
  isActive :: bool
  lastLogin :: "int option"
  createdBy :: "string option"

text \<open>
  An audit entry. The free-form \<^verbatim>\<open>details\<close>, the client address and the user agent
  are left out: no operation reads them back.
\<close>

record audit_log =
  action :: string
  performedBy :: "string option"
  resourceType :: string
  resourceId :: "string option"
  log_success :: bool
  errorMessage :: "string option"

section \<open>ESG record documents (models/ESGRecord.js)\<close>

record environmental =
  scope1Emissions :: "number option"
  scope2Emissions :: "number option"
  scope3Emissions :: "number option"
  totalCarbonEmissions :: "number option"
  energyConsumption :: "number option"
  renewableEnergyPercentage :: "number option"
  waterUsage :: "number option"
  wasteGenerated :: "number option"
  wasteRecycled :: "number option"

record social =
  totalEmployees :: "number option"
  diversityRatio :: "number option"
  femaleEmployeesPercentage :: "number option"
  healthAndSafetyIncidents :: "number option"
  trainingHoursPerEmployee :: "number option"
  employeeTurnoverRate :: "number option"
  communityInvestment :: "number option"

record governance =
  boardIndependence :: "number option"
  femaleDirectorsPercentage :: "number option"
  complianceStatus :: "string option"
  ethicsPolicyConfirmed :: "bool option"
  whistleblowerCases :: "number option"
  dataBreaches :: "number option"
  auditFrequency :: "string option"

record reportingPeriod =
  year :: int
  quarter :: "int option"
  month :: "int option"

record esg_record =
  rec_id :: string
  organization :: string
  reportingPeriod :: reportingPeriod
  environmental :: "environmental option"
  social :: "social option"
  governance :: "governance option"
  status :: string
  submittedBy :: string
  reviewedBy :: "string option"
  reviewNotes :: "string option"
  submittedAt :: "int option"
  approvedAt :: "int option"
  createdAt :: int

text \<open>The empty object \<^verbatim>\<open>{}\<close> that stands in for an absent sub-document.\<close>

definition empty_environmental :: environmental where
  "empty_environmental =
     \<lparr>scope1Emissions = None, scope2Emissions = None, scope3Emissions = None,
      environmental.totalCarbonEmissions = None, energyConsumption = None,
      renewableEnergyPercentage = None, waterUsage = None, wasteGenerated = None,
      wasteRecycled = None\<rparr>"

definition empty_social :: social where
  "empty_social =
     \<lparr>totalEmployees = None, diversityRatio = None, femaleEmployeesPercentage = None,
      healthAndSafetyIncidents = None, trainingHoursPerEmployee = None,
      employeeTurnoverRate = None, communityInvestment = None\<rparr>"

definition empty_governance :: governance where
  "empty_governance =
     \<lparr>boardIndependence = None, femaleDirectorsPercentage = None, complianceStatus = None,
      ethicsPolicyConfirmed = None, whistleblowerCases = None, dataBreaches = None,
      auditFrequency = None\<rparr>"

text \<open>\<^verbatim>\<open>record.environmental || {}\<close> and its two siblings.\<close>

definition env_of :: "esg_record \<Rightarrow> environmental" where
  "env_of r = (case environmental r of None \<Rightarrow> empty_environmental | Some e \<Rightarrow> e)"

definition social_of :: "esg_record \<Rightarrow> social" where
  "social_of r = (case social r of None \<Rightarrow> empty_social | Some s \<Rightarrow> s)"

definition gov_of :: "esg_record \<Rightarrow> governance" where
  "gov_of r = (case governance r of None \<Rightarrow> empty_governance | Some g \<Rightarrow> g)"

section \<open>The calculation service (services/esgCalculationService.js)\<close>

definition calculateTotalEmissions :: "number \<Rightarrow> number \<Rightarrow> number \<Rightarrow> number" where
  "calculateTotalEmissions scope1 scope2 scope3 =
     roundToDecimal (num_or0 scope1 + num_or0 scope2 + num_or0 scope3) 2"

definition calculateWasteRecyclingRate :: "number \<Rightarrow> number \<Rightarrow> number" where
  "calculateWasteRecyclingRate generated recycled =
     (if falsy generated \<or> generated = Num 0 then Num 0
      else calculatePercentage (num_or0 recycled) generated 2)"

text \<open>The accumulator of the \<^verbatim>\<open>reduce\<close> in \<^verbatim>\<open>aggregateEnvironmentalMetrics\<close>.\<close>

record env_totals =
  scope1 :: number
  scope2 :: number
  scope3 :: number
  renewableEnergy :: number
  energyConsumptionT :: number
  waterUsageT :: number
  wasteGeneratedT :: number
  wasteRecycledT :: number

definition env_step :: "env_totals \<Rightarrow> esg_record \<Rightarrow> env_totals" where
  "env_step acc record =
     (let env = env_of record in
      \<lparr>scope1 = scope1 acc + or0 (scope1Emissions env),
       scope2 = scope2 acc + or0 (scope2Emissions env),
       scope3 = scope3 acc + or0 (scope3Emissions env),
       renewableEnergy = renewableEnergy acc + or0 (renewableEnergyPercentage env),
       energyConsumptionT = energyConsumptionT acc + or0 (energyConsumption env),
       waterUsageT = waterUsageT acc + or0 (waterUsage env),
       wasteGeneratedT = wasteGeneratedT acc + or0 (wasteGenerated env),
       wasteRecycledT = wasteRecycledT acc + or0 (wasteRecycled env)\<rparr>)"

definition env_totals0 :: env_totals where
  "env_totals0 =
     \<lparr>scope1 = Num 0, scope2 = Num 0, scope3 = Num 0, renewableEnergy = Num 0,
      energyConsumptionT = Num 0, waterUsageT = Num 0, wasteGeneratedT = Num 0,
      wasteRecycledT = Num 0\<rparr>"

definition aggregateEnvironmentalMetrics :: "esg_record list \<Rightarrow> environmentalSummary" where
  "aggregateEnvironmentalMetrics records =
     (if length records = 0 then
        \<lparr>totalScope1Emissions = Num 0, totalScope2Emissions = Num 0,
         totalScope3Emissions = Num 0, environmentalSummary.totalCarbonEmissions = Num 0,
         averageRenewableEnergyPercentage = Num 0, totalEnergyConsumption = Num 0,
         totalWaterUsage = Num 0, wasteRecyclingRate = Num 0\<rparr>
      else
        (let totals = foldl env_step env_totals0 records;
             totalCarbon = calculateTotalEmissions (scope1 totals) (scope2 totals) (scope3 totals);
             avgRenewable = roundToDecimal (renewableEnergy totals / Num (of_nat (length records))) 2;
             recyclingRate =
               calculateWasteRecyclingRate (wasteGeneratedT totals) (wasteRecycledT totals)
         in \<lparr>totalScope1Emissions = roundToDecimal (scope1 totals) 2,
             totalScope2Emissions = roundToDecimal (scope2 totals) 2,
             totalScope3Emissions = roundToDecimal (scope3 totals) 2,
             environmentalSummary.totalCarbonEmissions = totalCarbon,
             averageRenewableEnergyPercentage = avgRenewable,
             totalEnergyConsumption = roundToDecimal (energyConsumptionT totals) 2,
             totalWaterUsage = roundToDecimal (waterUsageT totals) 2,
             wasteRecyclingRate = recyclingRate\<rparr>))"

text \<open>The accumulator of the \<^verbatim>\<open>reduce\<close> in \<^verbatim>\<open>aggregateSocialMetrics\<close>.\<close>

record social_totals =
  diversityRatioT :: number
  healthIncidents :: number
  trainingHours :: number
  turnoverRate :: number
  communityInvestmentT :: number
  femalePercentage :: number

definition social_step :: "social_totals \<Rightarrow> esg_record \<Rightarrow> social_totals" where
  "social_step acc record =
     (let soc = social_of record in
      \<lparr>diversityRatioT = diversityRatioT acc + or0 (diversityRatio soc),
       healthIncidents = healthIncidents acc + or0 (healthAndSafetyIncidents soc),
       trainingHours = trainingHours acc + or0 (trainingHoursPerEmployee soc),
       turnoverRate = turnoverRate acc + or0 (employeeTurnoverRate soc),
       communityInvestmentT = communityInvestmentT acc + or0 (communityInvestment soc),
       femalePercentage = femalePercentage acc + or0 (femaleEmployeesPercentage soc)\<rparr>)"

definition social_totals0 :: social_totals where
  "social_totals0 =
     \<lparr>diversityRatioT = Num 0, healthIncidents = Num 0, trainingHours = Num 0,
      turnoverRate = Num 0, communityInvestmentT = Num 0, femalePercentage = Num 0\<rparr>"

definition aggregateSocialMetrics :: "esg_record list \<Rightarrow> socialSummary" where
  "aggregateSocialMetrics records =
     (if length records = 0 then
        \<lparr>averageDiversityRatio = Num 0, totalHealthAndSafetyIncidents = Num 0,
         averageTrainingHours = Num 0, averageTurnoverRate = Num 0,
         totalCommunityInvestment = Num 0, averageFemaleEmployeesPercentage = Num 0\<rparr>
      else
        (let totals = foldl social_step social_totals0 records in
         \<lparr>averageDiversityRatio =
            roundToDecimal (diversityRatioT totals / Num (of_nat (length records))) 2,
          totalHealthAndSafetyIncidents = healthIncidents totals,
          averageTrainingHours =
            roundToDecimal (trainingHours totals / Num (of_nat (length records))) 2,
          averageTurnoverRate =
            roundToDecimal (turnoverRate totals / Num (of_nat (length records))) 2,
          totalCommunityInvestment = roundToDecimal (communityInvestmentT totals) 2,
          averageFemaleEmployeesPercentage =
            roundToDecimal (femalePercentage totals / Num (of_nat (length records))) 2\<rparr>))"

text \<open>The accumulator of the \<^verbatim>\<open>reduce\<close> in \<^verbatim>\<open>aggregateGovernanceMetrics\<close>.\<close>

record gov_totals =
  boardIndependenceT :: number
  compliant :: number
  whistleblower :: number
  dataBreachesT :: number
  femaleDirectors :: number

definition gov_step :: "gov_totals \<Rightarrow> esg_record \<Rightarrow> gov_totals" where
  "gov_step acc record =
     (let gov = gov_of record in
      \<lparr>boardIndependenceT = boardIndependenceT acc + or0 (boardIndependence gov),
       compliant =
         compliant acc + (if complianceStatus gov = Some ''compliant'' then Num 1 else Num 0),
       whistleblower = whistleblower acc + or0 (whistleblowerCases gov),
       dataBreachesT = dataBreachesT acc + or0 (dataBreaches gov),
       femaleDirectors = femaleDirectors acc + or0 (femaleDirectorsPercentage gov)\<rparr>)"

definition gov_totals0 :: gov_totals where
  "gov_totals0 =
     \<lparr>boardIndependenceT = Num 0, compliant = Num 0, whistleblower = Num 0,
      dataBreachesT = Num 0, femaleDirectors = Num 0\<rparr>"

definition aggregateGovernanceMetrics :: "esg_record list \<Rightarrow> governanceSummary" where
  "aggregateGovernanceMetrics records =
     (if length records = 0 then
        \<lparr>averageBoardIndependence = Num 0, complianceRate = Num 0,
         totalWhistleblowerCases = Num 0, totalDataBreaches = Num 0,
         averageFemaleDirectorsPercentage = Num 0\<rparr>
      else
        (let totals = foldl gov_step gov_totals0 records;
             rate = calculatePercentage (compliant totals) (Num (of_nat (length records))) 2
         in \<lparr>averageBoardIndependence =
               roundToDecimal (boardIndependenceT totals / Num (of_nat (length records))) 2,
             complianceRate = rate,
             totalWhistleblowerCases = whistleblower totals,
             totalDataBreaches = dataBreachesT totals,
             averageFemaleDirectorsPercentage =
               roundToDecimal (femaleDirectors totals / Num (of_nat (length records))) 2\<rparr>))"

definition calculateOverallScores ::
  "environmentalSummary \<Rightarrow> socialSummary \<Rightarrow> governanceSummary \<Rightarrow> overallScore" where
  "calculateOverallScores envSummary socSummary govSummary =
     (let envScore =
            Math_min (Num 100) (Math_max (Num 0)
              (Num 100
               - (environmentalSummary.totalCarbonEmissions envSummary / Num 10000) * Num 100));
          socScore =
            Math_min (Num 100) (Math_max (Num 0)
              ((averageDiversityRatio socSummary
                + (Num 100 - totalHealthAndSafetyIncidents socSummary)
                + averageTrainingHours socSummary) / Num 3));
          govScore =
            Math_min (Num 100) (Math_max (Num 0)
              ((averageBoardIndependence govSummary
                + complianceRate govSummary
                + (Num 100 - totalDataBreaches govSummary * Num 10)) / Num 3));
          totalS = (envScore + socScore + govScore) / Num 3
      in \<lparr>environmentalScore = roundToDecimal envScore 2,
          socialScore = roundToDecimal socScore 2,
          governanceScore = roundToDecimal govScore 2,
          totalScore = roundToDecimal totalS 2\<rparr>)"

section \<open>Constants (utils/constants.js)\<close>

abbreviation ADMINISTRATOR :: string where "ADMINISTRATOR \<equiv> ''administrator''"
abbreviation ESG_ANALYST :: string where "ESG_ANALYST \<equiv> ''esg_analyst''"
abbreviation AUDITOR :: string where "AUDITOR \<equiv> ''auditor''"

abbreviation HTTP_OK :: nat where "HTTP_OK \<equiv> 200"
abbreviation HTTP_CREATED :: nat where "HTTP_CREATED \<equiv> 201"
abbreviation HTTP_BAD_REQUEST :: nat where "HTTP_BAD_REQUEST \<equiv> 400"
abbreviation HTTP_UNAUTHORIZED :: nat where "HTTP_UNAUTHORIZED \<equiv> 401"
abbreviation HTTP_FORBIDDEN :: nat where "HTTP_FORBIDDEN \<equiv> 403"
abbreviation HTTP_NOT_FOUND :: nat where "HTTP_NOT_FOUND \<equiv> 404"
abbreviation HTTP_CONFLICT :: nat where "HTTP_CONFLICT \<equiv> 409"
abbreviation HTTP_INTERNAL_SERVER_ERROR :: nat where "HTTP_INTERNAL_SERVER_ERROR \<equiv> 500"

abbreviation INVALID_CREDENTIALS :: string where
  "INVALID_CREDENTIALS \<equiv> ''Invalid email or password''"
abbreviation UNAUTHORIZED :: string where
  "UNAUTHORIZED \<equiv> ''You are not authorized to perform this action''"
abbreviation TOKEN_INVALID :: string where "TOKEN_INVALID \<equiv> ''Invalid or expired token''"
abbreviation TOKEN_MISSING :: string where
  "TOKEN_MISSING \<equiv> ''No authentication token provided''"
abbreviation USER_NOT_FOUND :: string where "USER_NOT_FOUND \<equiv> ''User not found''"
abbreviation USER_ALREADY_EXISTS :: string where
  "USER_ALREADY_EXISTS \<equiv> ''User with this email already exists''"
abbreviation RESOURCE_NOT_FOUND :: string where "RESOURCE_NOT_FOUND \<equiv> ''Resource not found''"
abbreviation INTERNAL_ERROR :: string where
  "INTERNAL_ERROR \<equiv> ''An internal server error occurred''"
abbreviation INSUFFICIENT_PERMISSIONS :: string where
  "INSUFFICIENT_PERMISSIONS \<equiv> ''You do not have permission to perform this action''"

abbreviation LOGIN_SUCCESS :: string where "LOGIN_SUCCESS \<equiv> ''Login successful''"
abbreviation LOGOUT_SUCCESS :: string where "LOGOUT_SUCCESS \<equiv> ''Logout successful''"
abbreviation USER_CREATED :: string where "USER_CREATED \<equiv> ''User created successfully''"
abbreviation USER_UPDATED :: string where "USER_UPDATED \<equiv> ''User updated successfully''"
abbreviation USER_DELETED :: string where "USER_DELETED \<equiv> ''User deleted successfully''"
abbreviation ESG_RECORD_CREATED :: string where
  "ESG_RECORD_CREATED \<equiv> ''ESG record created successfully''"
abbreviation ESG_RECORD_UPDATED :: string where
  "ESG_RECORD_UPDATED \<equiv> ''ESG record updated successfully''"
abbreviation ESG_RECORD_DELETED :: string where
  "ESG_RECORD_DELETED \<equiv> ''ESG record deleted successfully''"
abbreviation ESG_RECORD_SUBMITTED :: string where
  "ESG_RECORD_SUBMITTED \<equiv> ''ESG record submitted successfully''"
abbreviation ESG_RECORD_APPROVED :: string where
  "ESG_RECORD_APPROVED \<equiv> ''ESG record approved successfully''"
abbreviation REPORT_GENERATED :: string where
  "REPORT_GENERATED \<equiv> ''Report generated successfully''"

section \<open>Responses, the stores and the outside world\<close>

datatype payload =
    NoData
  | RecordData esg_record
  | ReportData report
  | UserData user
  | AuthData user string

text \<open>A response: the status given to \<^verbatim>\<open>res.status\<close> and the JSON body.\<close>

record response =
  code :: nat
  success :: bool
  message :: string
  data :: payload

definition successResponse :: "nat \<Rightarrow> payload \<Rightarrow> string \<Rightarrow> response" where
  "successResponse c d m = \<lparr>code = c, success = True, message = m, data = d\<rparr>"

definition errorResponse :: "nat \<Rightarrow> string \<Rightarrow> response" where
  "errorResponse c m = \<lparr>code = c, success = False, message = m, data = NoData\<rparr>"

text \<open>The four collections of the database.\<close>

record state =
  users :: "user list"
  esg_records :: "esg_record list"
  reports :: "report list"
  audit_logs :: "audit_log list"

text \<open>
  What a request meets outside the repository's own code: the clock, the identifier the
  driver gives a new document, the local-time \<^verbatim>\<open>Date\<close> constructor, whether the database
  rejects reads, writes or audit writes (and with which message), the schema validation of
  Mongoose, the token and password libraries, and whether Joi accepts a request body. A
  rejected promise is the value \<open>Inl message\<close>.
\<close>

record world =
  now :: int
  new_id :: string
  Date_local :: "int \<Rightarrow> int \<Rightarrow> int \<Rightarrow> int \<Rightarrow> int \<Rightarrow> int \<Rightarrow> int"
  db_reads_fail :: bool
  db_writes_fail :: bool
  audit_writes_fail :: bool
  failure_message :: string
  esg_valid :: "esg_record \<Rightarrow> bool"
  report_valid :: "report \<Rightarrow> bool"
  user_valid :: "user \<Rightarrow> bool"
  jwt_verify :: "string \<Rightarrow> string option"
  jwt_sign :: "string \<Rightarrow> string"
  bcrypt_hash :: "string \<Rightarrow> string"
  bcrypt_compare :: "string \<Rightarrow> string \<Rightarrow> bool"
  joi_accepts :: bool

text \<open>A string that JavaScript takes as true: present and not empty.\<close>

definition truthy :: "string option \<Rightarrow> bool" where
  "truthy v = (case v of None \<Rightarrow> False | Some x \<Rightarrow> x \<noteq> [])"

section \<open>The ESG record model: defaults, the save hook, the queries\<close>

definition default0 :: "number option \<Rightarrow> number option" where
  "default0 v = (case v of None \<Rightarrow> Some (Num 0) | Some x \<Rightarrow> Some x)"

definition environmental_defaults :: "environmental option \<Rightarrow> environmental" where
  "environmental_defaults b =
     (let e = (case b of None \<Rightarrow> empty_environmental | Some x \<Rightarrow> x) in
      \<lparr>scope1Emissions = default0 (scope1Emissions e),
       scope2Emissions = default0 (scope2Emissions e),
       scope3Emissions = default0 (scope3Emissions e),
       totalCarbonEmissions = totalCarbonEmissions e,
       energyConsumption = default0 (energyConsumption e),
       renewableEnergyPercentage = default0 (renewableEnergyPercentage e),
       waterUsage = default0 (waterUsage e),
       wasteGenerated = default0 (wasteGenerated e),
       wasteRecycled = default0 (wasteRecycled e)\<rparr>)"

definition social_defaults :: "social option \<Rightarrow> social" where
  "social_defaults b =
     (let x = (case b of None \<Rightarrow> empty_social | Some y \<Rightarrow> y) in
      \<lparr>totalEmployees = default0 (totalEmployees x),
       diversityRatio = default0 (diversityRatio x),
       femaleEmployeesPercentage = default0 (femaleEmployeesPercentage x),
       healthAndSafetyIncidents = default0 (healthAndSafetyIncidents x),
       trainingHoursPerEmployee = default0 (trainingHoursPerEmployee x),
       employeeTurnoverRate = default0 (employeeTurnoverRate x),
       communityInvestment = default0 (communityInvestment x)\<rparr>)"

definition governance_defaults :: "governance option \<Rightarrow> governance" where
  "governance_defaults b =
     (let g = (case b of None \<Rightarrow> empty_governance | Some y \<Rightarrow> y) in
      \<lparr>boardIndependence = default0 (boardIndependence g),
       femaleDirectorsPercentage = default0 (femaleDirectorsPercentage g),
       complianceStatus =
         (case complianceStatus g of None \<Rightarrow> Some ''under_review'' | Some c \<Rightarrow> Some c),
       ethicsPolicyConfirmed =
         (case ethicsPolicyConfirmed g of None \<Rightarrow> Some False | Some c \<Rightarrow> Some c),
       whistleblowerCases = default0 (whistleblowerCases g),
       dataBreaches = default0 (dataBreaches g),
       auditFrequency =
         (case auditFrequency g of None \<Rightarrow> Some ''annual'' | Some c \<Rightarrow> Some c)\<rparr>)"

text \<open>The \<^verbatim>\<open>pre('save')\<close> hook of the ESG record schema.\<close>

definition pre_save :: "esg_record \<Rightarrow> esg_record" where
  "pre_save this =
     (case environmental this of
        None \<Rightarrow> this
      | Some e \<Rightarrow>
          this\<lparr>environmental :=
            Some (e\<lparr>totalCarbonEmissions :=
              Some (or0 (scope1Emissions e) + or0 (scope2Emissions e)
                    + or0 (scope3Emissions e))\<rparr>)\<rparr>)"

definition ESGRecord_findById :: "world \<Rightarrow> state \<Rightarrow> string \<Rightarrow> string + esg_record option" where
  "ESGRecord_findById w s i =
     (if db_reads_fail w then Inl (failure_message w)
      else Inr (find (\<lambda>r. rec_id r = i) (esg_records s)))"

text \<open>
  \<^verbatim>\<open>document.save()\<close>: validation, then the hook, then the write that replaces the stored
  document of the same identifier.
\<close>

definition ESGRecord_save :: "world \<Rightarrow> esg_record \<Rightarrow> state \<Rightarrow> string + (esg_record \<times> state)" where
  "ESGRecord_save w doc s =
     (if \<not> esg_valid w doc \<or> db_writes_fail w then Inl (failure_message w)
      else
        (let saved = pre_save doc in
         Inr (saved,
              s\<lparr>esg_records :=
                  map (\<lambda>r. if rec_id r = rec_id doc then saved else r) (esg_records s)\<rparr>)))"

text \<open>
  \<^verbatim>\<open>ESGRecord.create\<close>: the schema defaults fill what the body leaves out, the document is
  validated, passes the hook and is inserted; an identifier already in the collection is
  a duplicate-key rejection.
\<close>

definition ESGRecord_create ::
  "world \<Rightarrow> string \<Rightarrow> reportingPeriod \<Rightarrow> environmental option \<Rightarrow> social option
     \<Rightarrow> governance option \<Rightarrow> string \<Rightarrow> state \<Rightarrow> string + (esg_record \<times> state)" where
  "ESGRecord_create w org period env soc gov submitter s =
     (let doc =
        \<lparr>rec_id = new_id w, organization = org, reportingPeriod = period,
         environmental = Some (environmental_defaults env),
         social = Some (social_defaults soc),
         governance = Some (governance_defaults gov),
         status = ''draft'', submittedBy = submitter, reviewedBy = None,
         reviewNotes = None, submittedAt = None, approvedAt = None, createdAt = now w\<rparr>
      in if \<not> esg_valid w doc \<or> db_writes_fail w
            \<or> new_id w \<in> set (map rec_id (esg_records s))
         then Inl (failure_message w)
         else (let saved = pre_save doc in
               Inr (saved, s\<lparr>esg_records := esg_records s @ [saved]\<rparr>)))"

definition ESGRecord_findByIdAndDelete ::
  "world \<Rightarrow> state \<Rightarrow> string \<Rightarrow> string + (esg_record option \<times> state)" where
  "ESGRecord_findByIdAndDelete w s i =
     (if db_reads_fail w \<or> db_writes_fail w then Inl (failure_message w)
      else
        (case find (\<lambda>r. rec_id r = i) (esg_records s) of
           None \<Rightarrow> Inr (None, s)
         | Some r \<Rightarrow> Inr (Some r, s\<lparr>esg_records := remove1 r (esg_records s)\<rparr>)))"

section \<open>The audit service (services/auditService.js)\<close>

text \<open>\<^verbatim>\<open>AuditLog.create\<close>: the schema requires \<^verbatim>\<open>performedBy\<close>.\<close>

definition AuditLog_create :: "world \<Rightarrow> audit_log \<Rightarrow> state \<Rightarrow> string + (audit_log \<times> state)" where
  "AuditLog_create w entry s =
     (if performedBy entry = None \<or> audit_writes_fail w then Inl (failure_message w)
      else Inr (entry, s\<lparr>audit_logs := audit_logs s @ [entry]\<rparr>))"

text \<open>\<^verbatim>\<open>createLog\<close>: the \<^verbatim>\<open>catch\<close> turns a rejected write into the result \<^verbatim>\<open>null\<close>.\<close>

definition createLog :: "world \<Rightarrow> audit_log \<Rightarrow> state \<Rightarrow> audit_log option \<times> state" where
  "createLog w entry s =
     (case AuditLog_create w entry s of
        Inr (auditLog, s') \<Rightarrow> (Some auditLog, s')
      | Inl error \<Rightarrow> (None, s))"

definition logLogin ::
  "world \<Rightarrow> string option \<Rightarrow> bool \<Rightarrow> string option \<Rightarrow> state \<Rightarrow> audit_log option \<times> state" where
  "logLogin w userId ok errMsg s =
     createLog w
       \<lparr>action = ''USER_LOGIN'', performedBy = userId, resourceType = ''User'',
        resourceId = userId, log_success = ok, errorMessage = errMsg\<rparr> s"

definition logLogout :: "world \<Rightarrow> string \<Rightarrow> state \<Rightarrow> audit_log option \<times> state" where
  "logLogout w userId s =
     createLog w
       \<lparr>action = ''USER_LOGOUT'', performedBy = Some userId, resourceType = ''User'',
        resourceId = Some userId, log_success = True, errorMessage = None\<rparr> s"

definition logUserCreated ::
  "world \<Rightarrow> string \<Rightarrow> string \<Rightarrow> state \<Rightarrow> audit_log option \<times> state" where
  "logUserCreated w actor newUserId s =
     createLog w
       \<lparr>action = ''USER_CREATED'', performedBy = Some actor, resourceType = ''User'',
        resourceId = Some newUserId, log_success = True, errorMessage = None\<rparr> s"

definition logUserUpdated ::
  "world \<Rightarrow> string \<Rightarrow> string \<Rightarrow> state \<Rightarrow> audit_log option \<times> state" where
  "logUserUpdated w actor userId s =
     createLog w
       \<lparr>action = ''USER_UPDATED'', performedBy = Some actor, resourceType = ''User'',
        resourceId = Some userId, log_success = True, errorMessage = None\<rparr> s"

definition logESGRecordCreated ::
  "world \<Rightarrow> string \<Rightarrow> string \<Rightarrow> state \<Rightarrow> audit_log option \<times> state" where
  "logESGRecordCreated w actor recordId s =
     createLog w
       \<lparr>action = ''ESG_RECORD_CREATED'', performedBy = Some actor, resourceType = ''ESGRecord'',
        resourceId = Some recordId, log_success = True, errorMessage = None\<rparr> s"

definition logESGRecordUpdated ::
  "world \<Rightarrow> string \<Rightarrow> string \<Rightarrow> state \<Rightarrow> audit_log option \<times> state" where
  "logESGRecordUpdated w actor recordId s =
     createLog w
       \<lparr>action = ''ESG_RECORD_UPDATED'', performedBy = Some actor, resourceType = ''ESGRecord'',
        resourceId = Some recordId, log_success = True, errorMessage = None\<rparr> s"

definition logESGRecordSubmitted ::
  "world \<Rightarrow> string \<Rightarrow> string \<Rightarrow> state \<Rightarrow> audit_log option \<times> state" where
  "logESGRecordSubmitted w actor recordId s =
     createLog w
       \<lparr>action = ''ESG_RECORD_SUBMITTED'', performedBy = Some actor,
        resourceType = ''ESGRecord'', resourceId = Some recordId, log_success = True,
        errorMessage = None\<rparr> s"

definition logESGRecordApproved ::
  "world \<Rightarrow> string \<Rightarrow> string \<Rightarrow> state \<Rightarrow> audit_log option \<times> state" where
  "logESGRecordApproved w actor recordId s =
     createLog w
       \<lparr>action = ''ESG_RECORD_APPROVED'', performedBy = Some actor,
        resourceType = ''ESGRecord'', resourceId = Some recordId, log_success = True,
        errorMessage = None\<rparr> s"

definition logReportGenerated ::
  "world \<Rightarrow> string \<Rightarrow> string \<Rightarrow> state \<Rightarrow> audit_log option \<times> state" where
  "logReportGenerated w actor reportId s =
     createLog w
       \<lparr>action = ''REPORT_GENERATED'', performedBy = Some actor, resourceType = ''Report'',
        resourceId = Some reportId, log_success = True, errorMessage = None\<rparr> s"

definition logUnauthorizedAccess :: "world \<Rightarrow> string \<Rightarrow> state \<Rightarrow> audit_log option \<times> state" where
  "logUnauthorizedAccess w userId s =
     createLog w
       \<lparr>action = ''UNAUTHORIZED_ACCESS_ATTEMPT'', performedBy = Some userId,
        resourceType = ''System'', resourceId = None, log_success = False,
        errorMessage = None\<rparr> s"

section \<open>The ESG record controller (controllers/esgController.js)\<close>

text \<open>
  A handler takes the authenticated user (\<^verbatim>\<open>req.user\<close>), the route parameter and the
  fields it reads from the body, and returns the response and the new database. The
  \<^verbatim>\<open>catch\<close> of each handler is the \<open>Inl\<close> branch of the operation that rejected.
\<close>

definition createESGRecord ::
  "world \<Rightarrow> user \<Rightarrow> string \<Rightarrow> reportingPeriod \<Rightarrow> environmental option \<Rightarrow> social option
     \<Rightarrow> governance option \<Rightarrow> state \<Rightarrow> response \<times> state" where
  "createESGRecord w req_user org period env soc gov s =
     (case ESGRecord_create w org period env soc gov (user_id req_user) s of
        Inl error \<Rightarrow> (errorResponse HTTP_INTERNAL_SERVER_ERROR INTERNAL_ERROR, s)
      | Inr (esgRecord, s1) \<Rightarrow>
          (successResponse HTTP_CREATED (RecordData esgRecord) ESG_RECORD_CREATED,
           snd (logESGRecordCreated w (user_id req_user) (rec_id esgRecord) s1)))"

text \<open>
  The loop over \<^verbatim>\<open>allowedUpdates\<close>: a body field that is defined is assigned to the
  document, a sub-document as a whole. The body is not validated on this route, so the
  environmental object may carry a total of the client's own.
\<close>

definition apply_updates ::
  "esg_record \<Rightarrow> environmental option \<Rightarrow> social option \<Rightarrow> governance option
     \<Rightarrow> string option \<Rightarrow> string option \<Rightarrow> esg_record" where
  "apply_updates record env soc gov st notes =
     (let r1 = (case env of None \<Rightarrow> record | Some e \<Rightarrow> record\<lparr>environmental := Some e\<rparr>);
          r2 = (case soc of None \<Rightarrow> r1 | Some x \<Rightarrow> r1\<lparr>social := Some x\<rparr>);
          r3 = (case gov of None \<Rightarrow> r2 | Some g \<Rightarrow> r2\<lparr>governance := Some g\<rparr>);
          r4 = (case st of None \<Rightarrow> r3 | Some x \<Rightarrow> r3\<lparr>status := x\<rparr>);
          r5 = (case notes of None \<Rightarrow> r4 | Some n \<Rightarrow> r4\<lparr>reviewNotes := Some n\<rparr>)
      in r5)"

definition updateESGRecord ::
  "world \<Rightarrow> user \<Rightarrow> string \<Rightarrow> environmental option \<Rightarrow> social option \<Rightarrow> governance option
     \<Rightarrow> string option \<Rightarrow> string option \<Rightarrow> state \<Rightarrow> response \<times> state" where
  "updateESGRecord w req_user i env soc gov st notes s =
     (case ESGRecord_findById w s i of
        Inl error \<Rightarrow> (errorResponse HTTP_INTERNAL_SERVER_ERROR INTERNAL_ERROR, s)
      | Inr None \<Rightarrow> (errorResponse HTTP_NOT_FOUND RESOURCE_NOT_FOUND, s)
      | Inr (Some record) \<Rightarrow>
          if role req_user = AUDITOR then
            (errorResponse HTTP_FORBIDDEN ''Auditors cannot modify ESG records'', s)
          else if role req_user \<noteq> ADMINISTRATOR
                  \<and> organization record \<noteq> user.organization req_user then
            (errorResponse HTTP_FORBIDDEN INSUFFICIENT_PERMISSIONS, s)
          else if status record = ''approved'' \<and> role req_user \<noteq> ADMINISTRATOR then
            (errorResponse HTTP_FORBIDDEN ''Cannot update approved records'', s)
          else
            (case ESGRecord_save w (apply_updates record env soc gov st notes) s of
               Inl error \<Rightarrow> (errorResponse HTTP_INTERNAL_SERVER_ERROR INTERNAL_ERROR, s)
             | Inr (saved, s1) \<Rightarrow>
                 (successResponse HTTP_OK (RecordData saved) ESG_RECORD_UPDATED,
                  snd (logESGRecordUpdated w (user_id req_user) (rec_id saved) s1))))"

text \<open>The assignments of \<^verbatim>\<open>submitESGRecord\<close> before it saves.\<close>

definition submitted_doc :: "world \<Rightarrow> esg_record \<Rightarrow> esg_record" where
  "submitted_doc w record = record\<lparr>status := ''submitted'', submittedAt := Some (now w)\<rparr>"

definition submitESGRecord :: "world \<Rightarrow> user \<Rightarrow> string \<Rightarrow> state \<Rightarrow> response \<times> state" where
  "submitESGRecord w req_user i s =
     (case ESGRecord_findById w s i of
        Inl error \<Rightarrow> (errorResponse HTTP_INTERNAL_SERVER_ERROR INTERNAL_ERROR, s)
      | Inr None \<Rightarrow> (errorResponse HTTP_NOT_FOUND RESOURCE_NOT_FOUND, s)
      | Inr (Some record) \<Rightarrow>
          if role req_user \<noteq> ADMINISTRATOR
             \<and> organization record \<noteq> user.organization req_user then
            (errorResponse HTTP_FORBIDDEN INSUFFICIENT_PERMISSIONS, s)
          else if status record \<noteq> ''draft'' then
            (errorResponse HTTP_BAD_REQUEST ''Only draft records can be submitted'', s)
          else
            (case ESGRecord_save w (submitted_doc w record) s of
               Inl error \<Rightarrow> (errorResponse HTTP_INTERNAL_SERVER_ERROR INTERNAL_ERROR, s)
             | Inr (saved, s1) \<Rightarrow>
                 (successResponse HTTP_OK (RecordData saved) ESG_RECORD_SUBMITTED,
                  snd (logESGRecordSubmitted w (user_id req_user) (rec_id saved) s1))))"

text \<open>The assignments of \<^verbatim>\<open>approveESGRecord\<close> before it saves.\<close>

definition approved_doc :: "world \<Rightarrow> user \<Rightarrow> string option \<Rightarrow> esg_record \<Rightarrow> esg_record" where
  "approved_doc w req_user notes record =
     (let r1 = record\<lparr>status := ''approved'', reviewedBy := Some (user_id req_user),
                       approvedAt := Some (now w)\<rparr>
      in if truthy notes then r1\<lparr>reviewNotes := notes\<rparr> else r1)"

definition approveESGRecord ::
  "world \<Rightarrow> user \<Rightarrow> string \<Rightarrow> string option \<Rightarrow> state \<Rightarrow> response \<times> state" where
  "approveESGRecord w req_user i notes s =
     (case ESGRecord_findById w s i of
        Inl error \<Rightarrow> (errorResponse HTTP_INTERNAL_SERVER_ERROR INTERNAL_ERROR, s)
      | Inr None \<Rightarrow> (errorResponse HTTP_NOT_FOUND RESOURCE_NOT_FOUND, s)
      | Inr (Some record) \<Rightarrow>
          if status record \<notin> set [''submitted'', ''under_review''] then
            (errorResponse HTTP_BAD_REQUEST
               ''Only submitted or under review records can be approved'', s)
          else
            (case ESGRecord_save w (approved_doc w req_user notes record) s of
               Inl error \<Rightarrow> (errorResponse HTTP_INTERNAL_SERVER_ERROR INTERNAL_ERROR, s)
             | Inr (saved, s1) \<Rightarrow>
                 (successResponse HTTP_OK (RecordData saved) ESG_RECORD_APPROVED,
                  snd (logESGRecordApproved w (user_id req_user) (rec_id saved) s1))))"

definition deleteESGRecord :: "world \<Rightarrow> string \<Rightarrow> state \<Rightarrow> response \<times> state" where
  "deleteESGRecord w i s =
     (case ESGRecord_findByIdAndDelete w s i of
        Inl error \<Rightarrow> (errorResponse HTTP_INTERNAL_SERVER_ERROR INTERNAL_ERROR, s)
      | Inr (None, s1) \<Rightarrow> (errorResponse HTTP_NOT_FOUND RESOURCE_NOT_FOUND, s1)
      | Inr (Some record, s1) \<Rightarrow> (successResponse HTTP_OK NoData ESG_RECORD_DELETED, s1))"

section \<open>The report controller (controllers/reportController.js)\<close>

text \<open>\<^verbatim>\<open>getDateRange\<close> of utils/helpers.js; a thrown \<^verbatim>\<open>Error\<close> is its message.\<close>

definition getDateRange ::
  "world \<Rightarrow> string \<Rightarrow> int \<Rightarrow> int option \<Rightarrow> int option \<Rightarrow> string + (int \<times> int)" where
  "getDateRange w rtype yr qtr mon =
     (if rtype = ''annual'' then
        Inr (Date_local w yr 0 1 0 0 0, Date_local w yr 11 31 23 59 59)
      else if rtype = ''quarterly'' then
        (case qtr of
           None \<Rightarrow> Inl ''Valid quarter (1-4) is required for quarterly reports''
         | Some q \<Rightarrow>
             if q = 0 \<or> q < 1 \<or> q > 4 then
               Inl ''Valid quarter (1-4) is required for quarterly reports''
             else
               (let quarterStartMonth = (q - 1) * 3 in
                Inr (Date_local w yr quarterStartMonth 1 0 0 0,
                     Date_local w yr (quarterStartMonth + 3) 0 23 59 59)))
      else if rtype = ''monthly'' then
        (case mon of
           None \<Rightarrow> Inl ''Valid month (1-12) is required for monthly reports''
         | Some m \<Rightarrow>
             if m = 0 \<or> m < 1 \<or> m > 12 then
               Inl ''Valid month (1-12) is required for monthly reports''
             else
               Inr (Date_local w yr (m - 1) 1 0 0 0, Date_local w yr m 0 23 59 59))
      else Inl ''Invalid report type'')"

text \<open>The first step of \<^verbatim>\<open>generateReport\<close>: the window of the report.\<close>

definition reportDates ::
  "world \<Rightarrow> string \<Rightarrow> int \<Rightarrow> int option \<Rightarrow> int option \<Rightarrow> int option \<Rightarrow> int option
     \<Rightarrow> string + (int \<times> int)" where
  "reportDates w rtype yr qtr mon startD endD =
     (case (startD, endD) of
        (Some a, Some b) \<Rightarrow>
          if rtype = ''custom'' then Inr (a, b) else getDateRange w rtype yr qtr mon
      | _ \<Rightarrow> getDateRange w rtype yr qtr mon)"

text \<open>\<^verbatim>\<open>getRecordsForPeriod\<close> of the calculation service: the eligible-record query.\<close>

definition getRecordsForPeriod ::
  "world \<Rightarrow> string \<Rightarrow> int \<Rightarrow> int \<Rightarrow> state \<Rightarrow> string + esg_record list" where
  "getRecordsForPeriod w org startD endD s =
     (if db_reads_fail w then Inl (failure_message w)
      else Inr (filter (\<lambda>r. organization r = org \<and> status r = ''approved''
                          \<and> startD \<le> createdAt r \<and> createdAt r \<le> endD)
                  (esg_records s)))"

definition Report_create :: "world \<Rightarrow> report \<Rightarrow> state \<Rightarrow> string + (report \<times> state)" where
  "Report_create w doc s =
     (if \<not> report_valid w doc \<or> db_writes_fail w
         \<or> report_id doc \<in> set (map report_id (reports s))
      then Inl (failure_message w)
      else Inr (doc, s\<lparr>reports := reports s @ [doc]\<rparr>))"

definition Report_findById :: "world \<Rightarrow> state \<Rightarrow> string \<Rightarrow> string + report option" where
  "Report_findById w s i =
     (if db_reads_fail w then Inl (failure_message w)
      else Inr (find (\<lambda>r. report_id r = i) (reports s)))"

definition Report_save :: "world \<Rightarrow> report \<Rightarrow> state \<Rightarrow> string + (report \<times> state)" where
  "Report_save w doc s =
     (if \<not> report_valid w doc \<or> db_writes_fail w then Inl (failure_message w)
      else Inr (doc,
                s\<lparr>reports :=
                    map (\<lambda>r. if report_id r = report_id doc then doc else r) (reports s)\<rparr>))"

definition Report_findByIdAndDelete ::
  "world \<Rightarrow> state \<Rightarrow> string \<Rightarrow> string + (report option \<times> state)" where
  "Report_findByIdAndDelete w s i =
     (if db_reads_fail w \<or> db_writes_fail w then Inl (failure_message w)
      else
        (case find (\<lambda>r. report_id r = i) (reports s) of
           None \<Rightarrow> Inr (None, s)
         | Some r \<Rightarrow> Inr (Some r, s\<lparr>reports := remove1 r (reports s)\<rparr>)))"

text \<open>\<^verbatim>\<open>error.message || ERROR_MESSAGES.INTERNAL_ERROR\<close>.\<close>

definition message_or_internal :: "string \<Rightarrow> string" where
  "message_or_internal m = (if m = [] then INTERNAL_ERROR else m)"

definition generateReport ::
  "world \<Rightarrow> user \<Rightarrow> string \<Rightarrow> string \<Rightarrow> string \<Rightarrow> int \<Rightarrow> int option \<Rightarrow> int option
     \<Rightarrow> int option \<Rightarrow> int option \<Rightarrow> state \<Rightarrow> response \<times> state" where
  "generateReport w req_user title org rtype yr qtr mon startD endD s =
     (case reportDates w rtype yr qtr mon startD endD of
        Inl error \<Rightarrow> (errorResponse HTTP_INTERNAL_SERVER_ERROR (message_or_internal error), s)
      | Inr (reportStartDate, reportEndDate) \<Rightarrow>
          (case getRecordsForPeriod w org reportStartDate reportEndDate s of
             Inl error \<Rightarrow>
               (errorResponse HTTP_INTERNAL_SERVER_ERROR (message_or_internal error), s)
           | Inr records \<Rightarrow>
               if length records = 0 then
                 (errorResponse HTTP_BAD_REQUEST
                    ''No approved ESG records found for this period'', s)
               else
                 (let envSummary = aggregateEnvironmentalMetrics records;
                      socSummary = aggregateSocialMetrics records;
                      govSummary = aggregateGovernanceMetrics records;
                      score = calculateOverallScores envSummary socSummary govSummary
                  in case Report_create w
                       \<lparr>report_id = new_id w, reportTitle = title,
                        report.organization = org, reportType = rtype,
                        report.reportingPeriod =
                          \<lparr>startDate = reportStartDate, endDate = reportEndDate,
                           report_period.year = yr\<rparr>,
                        environmentalSummary = envSummary, socialSummary = socSummary,
                        governanceSummary = govSummary, overallScore = score,
                        includedRecords = map rec_id records,
                        generatedBy = user_id req_user, report.status = ''draft'',
                        report_notes = None, publishedAt = None\<rparr> s of
                       Inl error \<Rightarrow>
                         (errorResponse HTTP_INTERNAL_SERVER_ERROR
                            (message_or_internal error), s)
                     | Inr (rep, s1) \<Rightarrow>
                         (successResponse HTTP_CREATED (ReportData rep) REPORT_GENERATED,
                          snd (logReportGenerated w (user_id req_user) (report_id rep) s1)))))"

text \<open>
  The assignments of \<^verbatim>\<open>updateReportStatus\<close> before it saves: a status that is given and
  not empty is written as it is, with the publication time when it is \<^verbatim>\<open>published\<close>.
\<close>

definition restatused :: "world \<Rightarrow> string option \<Rightarrow> string option \<Rightarrow> report \<Rightarrow> report" where
  "restatused w st notes rep =
     (let r1 = (case st of
                  None \<Rightarrow> rep
                | Some x \<Rightarrow>
                    if x = [] then rep
                    else if x = ''published''
                    then rep\<lparr>report.status := x, publishedAt := Some (now w)\<rparr>
                    else rep\<lparr>report.status := x\<rparr>);
          r2 = (if truthy notes then r1\<lparr>report_notes := notes\<rparr> else r1)
      in r2)"

definition updateReportStatus ::
  "world \<Rightarrow> user \<Rightarrow> string \<Rightarrow> string option \<Rightarrow> string option \<Rightarrow> state \<Rightarrow> response \<times> state" where
  "updateReportStatus w req_user i st notes s =
     (case Report_findById w s i of
        Inl error \<Rightarrow> (errorResponse HTTP_INTERNAL_SERVER_ERROR INTERNAL_ERROR, s)
      | Inr None \<Rightarrow> (errorResponse HTTP_NOT_FOUND RESOURCE_NOT_FOUND, s)
      | Inr (Some rep) \<Rightarrow>
          if role req_user \<noteq> ADMINISTRATOR
             \<and> report.organization rep \<noteq> user.organization req_user then
            (errorResponse HTTP_FORBIDDEN INSUFFICIENT_PERMISSIONS, s)
          else
            (case Report_save w (restatused w st notes rep) s of
               Inl error \<Rightarrow> (errorResponse HTTP_INTERNAL_SERVER_ERROR INTERNAL_ERROR, s)
             | Inr (saved, s1) \<Rightarrow>
                 (successResponse HTTP_OK (ReportData saved) ''Report updated successfully'',
                  s1)))"

definition deleteReport :: "world \<Rightarrow> string \<Rightarrow> state \<Rightarrow> response \<times> state" where
  "deleteReport w i s =
     (case Report_findByIdAndDelete w s i of
        Inl error \<Rightarrow> (errorResponse HTTP_INTERNAL_SERVER_ERROR INTERNAL_ERROR, s)
      | Inr (None, s1) \<Rightarrow> (errorResponse HTTP_NOT_FOUND RESOURCE_NOT_FOUND, s1)
      | Inr (Some rep, s1) \<Rightarrow> (successResponse HTTP_OK NoData ''Report deleted successfully'', s1))"

section \<open>The user model and the account controllers (authController.js, userController.js)\<close>

definition sanitizeUser :: "user \<Rightarrow> user" where
  "sanitizeUser u = u\<lparr>password := None\<rparr>"

definition User_findById :: "world \<Rightarrow> state \<Rightarrow> string \<Rightarrow> string + user option" where
  "User_findById w s i =
     (if db_reads_fail w then Inl (failure_message w)
      else Inr (find (\<lambda>u. user_id u = i) (users s)))"

definition User_findOne_email :: "world \<Rightarrow> state \<Rightarrow> string \<Rightarrow> string + user option" where
  "User_findOne_email w s e =
     (if db_reads_fail w then Inl (failure_message w)
      else Inr (find (\<lambda>u. email u = e) (users s)))"

text \<open>
  \<^verbatim>\<open>User.create\<close>: the role and the active flag take their schema defaults, the save hook
  stores the hash of the password.
\<close>

definition User_create ::
  "world \<Rightarrow> string \<Rightarrow> string \<Rightarrow> string \<Rightarrow> string option \<Rightarrow> string \<Rightarrow> string option \<Rightarrow> state
     \<Rightarrow> string + (user \<times> state)" where
  "User_create w nm em pw rl org creator s =
     (let doc =
        \<lparr>user_id = new_id w, name = nm, email = em, password = Some pw,
         role = (case rl of None \<Rightarrow> ESG_ANALYST | Some r \<Rightarrow> r),
         user.organization = org, isActive = True, lastLogin = None, createdBy = creator\<rparr>
      in if \<not> user_valid w doc \<or> db_writes_fail w
            \<or> new_id w \<in> set (map user_id (users s))
         then Inl (failure_message w)
         else (let saved = doc\<lparr>password := Some (bcrypt_hash w pw)\<rparr> in
               Inr (saved, s\<lparr>users := users s @ [saved]\<rparr>)))"

text \<open>Saving a user whose password was not modified: the hook leaves the hash alone.\<close>

definition User_save :: "world \<Rightarrow> user \<Rightarrow> state \<Rightarrow> string + (user \<times> state)" where
  "User_save w doc s =
     (if \<not> user_valid w doc \<or> db_writes_fail w then Inl (failure_message w)
      else Inr (doc,
                s\<lparr>users := map (\<lambda>u. if user_id u = user_id doc then doc else u) (users s)\<rparr>))"

definition User_findByIdAndDelete ::
  "world \<Rightarrow> state \<Rightarrow> string \<Rightarrow> string + (user option \<times> state)" where
  "User_findByIdAndDelete w s i =
     (if db_reads_fail w \<or> db_writes_fail w then Inl (failure_message w)
      else
        (case find (\<lambda>u. user_id u = i) (users s) of
           None \<Rightarrow> Inr (None, s)
         | Some u \<Rightarrow> Inr (Some u, s\<lparr>users := remove1 u (users s)\<rparr>)))"

definition register ::
  "world \<Rightarrow> string \<Rightarrow> string \<Rightarrow> string \<Rightarrow> string option \<Rightarrow> string \<Rightarrow> state
     \<Rightarrow> response \<times> state" where
  "register w nm em pw rl org s =
     (case User_findOne_email w s em of
        Inl error \<Rightarrow> (errorResponse HTTP_INTERNAL_SERVER_ERROR INTERNAL_ERROR, s)
      | Inr (Some existingUser) \<Rightarrow> (errorResponse HTTP_CONFLICT USER_ALREADY_EXISTS, s)
      | Inr None \<Rightarrow>
          (case User_create w nm em pw rl org None s of
             Inl error \<Rightarrow> (errorResponse HTTP_INTERNAL_SERVER_ERROR INTERNAL_ERROR, s)
           | Inr (u, s1) \<Rightarrow>
               (let token = jwt_sign w (user_id u) in
                (successResponse HTTP_CREATED (AuthData (sanitizeUser u) token) USER_CREATED,
                 snd (logUserCreated w (user_id u) (user_id u) s1)))))"

definition login :: "world \<Rightarrow> string \<Rightarrow> string \<Rightarrow> state \<Rightarrow> response \<times> state" where
  "login w em pw s =
     (case User_findOne_email w s em of
        Inl error \<Rightarrow> (errorResponse HTTP_INTERNAL_SERVER_ERROR INTERNAL_ERROR, s)
      | Inr None \<Rightarrow>
          (errorResponse HTTP_UNAUTHORIZED INVALID_CREDENTIALS,
           snd (logLogin w None False (Some ''Invalid credentials'') s))
      | Inr (Some u) \<Rightarrow>
          if \<not> isActive u then
            (errorResponse HTTP_FORBIDDEN ''Your account has been deactivated'',
             snd (logLogin w (Some (user_id u)) False (Some ''Account deactivated'') s))
          else
            (case password u of
               None \<Rightarrow> (errorResponse HTTP_INTERNAL_SERVER_ERROR INTERNAL_ERROR, s)
             | Some hash \<Rightarrow>
                 if \<not> bcrypt_compare w pw hash then
                   (errorResponse HTTP_UNAUTHORIZED INVALID_CREDENTIALS,
                    snd (logLogin w (Some (user_id u)) False (Some ''Invalid password'') s))
                 else
                   (case User_save w (u\<lparr>lastLogin := Some (now w)\<rparr>) s of
                      Inl error \<Rightarrow>
                        (errorResponse HTTP_INTERNAL_SERVER_ERROR INTERNAL_ERROR, s)
                    | Inr (saved, s1) \<Rightarrow>
                        (let token = jwt_sign w (user_id saved) in
                         (successResponse HTTP_OK (AuthData (sanitizeUser saved) token)
                            LOGIN_SUCCESS,
                          snd (logLogin w (Some (user_id saved)) True None s1))))))"

definition updateProfile ::
  "world \<Rightarrow> user \<Rightarrow> string option \<Rightarrow> string option \<Rightarrow> state \<Rightarrow> response \<times> state" where
  "updateProfile w req_user nm org s =
     (case User_findById w s (user_id req_user) of
        Inl error \<Rightarrow> (errorResponse HTTP_INTERNAL_SERVER_ERROR INTERNAL_ERROR, s)
      | Inr None \<Rightarrow> (errorResponse HTTP_NOT_FOUND USER_NOT_FOUND, s)
      | Inr (Some u) \<Rightarrow>
          (let u1 = (case nm of None \<Rightarrow> u | Some n \<Rightarrow> if n = [] then u else u\<lparr>name := n\<rparr>);
               u2 = (case org of
                       None \<Rightarrow> u1
                     | Some n \<Rightarrow> if n = [] then u1 else u1\<lparr>user.organization := n\<rparr>)
           in case User_save w u2 s of
                Inl error \<Rightarrow> (errorResponse HTTP_INTERNAL_SERVER_ERROR INTERNAL_ERROR, s)
              | Inr (saved, s1) \<Rightarrow>
                  (successResponse HTTP_OK (UserData (sanitizeUser saved)) USER_UPDATED,
                   snd (logUserUpdated w (user_id req_user) (user_id saved) s1))))"

definition logout :: "world \<Rightarrow> user \<Rightarrow> state \<Rightarrow> response \<times> state" where
  "logout w req_user s =
     (successResponse HTTP_OK NoData LOGOUT_SUCCESS, snd (logLogout w (user_id req_user) s))"

definition createUser ::
  "world \<Rightarrow> user \<Rightarrow> string \<Rightarrow> string \<Rightarrow> string \<Rightarrow> string option \<Rightarrow> string \<Rightarrow> state
     \<Rightarrow> response \<times> state" where
  "createUser w req_user nm em pw rl org s =
     (case User_findOne_email w s em of
        Inl error \<Rightarrow> (errorResponse HTTP_INTERNAL_SERVER_ERROR INTERNAL_ERROR, s)
      | Inr (Some existingUser) \<Rightarrow> (errorResponse HTTP_CONFLICT USER_ALREADY_EXISTS, s)
      | Inr None \<Rightarrow>
          (case User_create w nm em pw rl org (Some (user_id req_user)) s of
             Inl error \<Rightarrow> (errorResponse HTTP_INTERNAL_SERVER_ERROR INTERNAL_ERROR, s)
           | Inr (u, s1) \<Rightarrow>
               (successResponse HTTP_CREATED (UserData (sanitizeUser u)) USER_CREATED,
                snd (logUserCreated w (user_id req_user) (user_id u) s1))))"

definition set_if_given :: "string option \<Rightarrow> string \<Rightarrow> string" where
  "set_if_given v old = (case v of None \<Rightarrow> old | Some x \<Rightarrow> if x = [] then old else x)"

definition updateUser ::
  "world \<Rightarrow> user \<Rightarrow> string \<Rightarrow> string option \<Rightarrow> string option \<Rightarrow> string option
     \<Rightarrow> string option \<Rightarrow> bool option \<Rightarrow> state \<Rightarrow> response \<times> state" where
  "updateUser w req_user i nm em rl org active s =
     (case User_findById w s i of
        Inl error \<Rightarrow> (errorResponse HTTP_INTERNAL_SERVER_ERROR INTERNAL_ERROR, s)
      | Inr None \<Rightarrow> (errorResponse HTTP_NOT_FOUND USER_NOT_FOUND, s)
      | Inr (Some u) \<Rightarrow>
          (let u1 = u\<lparr>name := set_if_given nm (name u), email := set_if_given em (email u),
                      role := set_if_given rl (role u),
                      user.organization := set_if_given org (user.organization u),
                      isActive := (case active of None \<Rightarrow> isActive u | Some b \<Rightarrow> b)\<rparr>
           in case User_save w u1 s of
                Inl error \<Rightarrow> (errorResponse HTTP_INTERNAL_SERVER_ERROR INTERNAL_ERROR, s)
              | Inr (saved, s1) \<Rightarrow>
                  (successResponse HTTP_OK (UserData (sanitizeUser saved)) USER_UPDATED,
                   snd (logUserUpdated w (user_id req_user) (user_id saved) s1))))"

definition deleteUser :: "world \<Rightarrow> user \<Rightarrow> string \<Rightarrow> state \<Rightarrow> response \<times> state" where
  "deleteUser w req_user i s =
     (if i = user_id req_user then
        (errorResponse HTTP_BAD_REQUEST ''You cannot delete your own account'', s)
      else
        (case User_findByIdAndDelete w s i of
           Inl error \<Rightarrow> (errorResponse HTTP_INTERNAL_SERVER_ERROR INTERNAL_ERROR, s)
         | Inr (None, s1) \<Rightarrow> (errorResponse HTTP_NOT_FOUND USER_NOT_FOUND, s1)
         | Inr (Some u, s1) \<Rightarrow> (successResponse HTTP_OK NoData USER_DELETED, s1)))"

section \<open>Middleware (middleware/auth.js, roleCheck.js, validator.js)\<close>

text \<open>
  \<^verbatim>\<open>authenticate\<close>: the bearer token is verified, the user it names is loaded without the
  password and must be active. The result is the response that ends the request, or the
  user attached to it.
\<close>

definition authenticate :: "world \<Rightarrow> string option \<Rightarrow> state \<Rightarrow> response + user" where
  "authenticate w authHeader s =
     (case authHeader of
        None \<Rightarrow> Inl (errorResponse HTTP_UNAUTHORIZED TOKEN_MISSING)
      | Some h \<Rightarrow>
          if take 7 h \<noteq> ''Bearer '' then Inl (errorResponse HTTP_UNAUTHORIZED TOKEN_MISSING)
          else
            (let token = drop 7 h in
             if token = [] then Inl (errorResponse HTTP_UNAUTHORIZED TOKEN_MISSING)
             else
               (case jwt_verify w token of
                  None \<Rightarrow> Inl (errorResponse HTTP_UNAUTHORIZED TOKEN_INVALID)
                | Some userId \<Rightarrow>
                    (case User_findById w s userId of
                       Inl error \<Rightarrow>
                         Inl (errorResponse HTTP_INTERNAL_SERVER_ERROR INTERNAL_ERROR)
                     | Inr None \<Rightarrow> Inl (errorResponse HTTP_UNAUTHORIZED USER_NOT_FOUND)
                     | Inr (Some u) \<Rightarrow>
                         if \<not> isActive u then
                           Inl (errorResponse HTTP_FORBIDDEN
                                  ''Your account has been deactivated'')
                         else Inr (u\<lparr>password := None\<rparr>)))))"

text \<open>
  \<^verbatim>\<open>checkRole\<close>: \<open>None\<close> is the call of \<^verbatim>\<open>next()\<close>; a refusal is written to the audit
  trail before the response.
\<close>

definition checkRole ::
  "string list \<Rightarrow> world \<Rightarrow> user option \<Rightarrow> state \<Rightarrow> response option \<times> state" where
  "checkRole allowedRoles w req_user s =
     (case req_user of
        None \<Rightarrow> (Some (errorResponse HTTP_UNAUTHORIZED UNAUTHORIZED), s)
      | Some u \<Rightarrow>
          if role u \<in> set allowedRoles then (None, s)
          else (Some (errorResponse HTTP_FORBIDDEN INSUFFICIENT_PERMISSIONS),
                snd (logUnauthorizedAccess w (user_id u) s)))"

definition adminOnly :: "world \<Rightarrow> user option \<Rightarrow> state \<Rightarrow> response option \<times> state" where
  "adminOnly = checkRole [ADMINISTRATOR]"

definition adminOrAnalyst :: "world \<Rightarrow> user option \<Rightarrow> state \<Rightarrow> response option \<times> state" where
  "adminOrAnalyst = checkRole [ADMINISTRATOR, ESG_ANALYST]"

definition anyRole :: "world \<Rightarrow> user option \<Rightarrow> state \<Rightarrow> response option \<times> state" where
  "anyRole = checkRole [ADMINISTRATOR, ESG_ANALYST, AUDITOR]"

definition is_hex :: "char \<Rightarrow> bool" where
  "is_hex c = (c \<in> set ''0123456789abcdefABCDEF'')"

definition validateObjectId :: "string \<Rightarrow> response option" where
  "validateObjectId i =
     (if length i = 24 \<and> list_all is_hex i then None
      else Some (errorResponse HTTP_BAD_REQUEST ''Invalid id format''))"

text \<open>\<^verbatim>\<open>validate(schemaName)\<close>: the body is given as Joi returns it when it accepts.\<close>

definition validate :: "world \<Rightarrow> response option" where
  "validate w =
     (if joi_accepts w then None
      else Some (errorResponse HTTP_BAD_REQUEST ''Validation failed''))"

section \<open>The routes (routes/*.js)\<close>

text \<open>
  The requests that write to the database, each with its route parameter and the body
  fields its handler reads. The read-only \<^verbatim>\<open>GET\<close> routes are left out.
\<close>

datatype endpoint =
    POST_auth_register string string string "string option" string
  | POST_auth_login string string
  | PUT_auth_profile "string option" "string option"
  | POST_auth_logout
  | POST_users string string string "string option" string
  | PUT_users_id string "string option" "string option" "string option" "string option"
      "bool option"
  | DELETE_users_id string
  | POST_esg string reportingPeriod "environmental option" "social option"
      "governance option"
  | PUT_esg_id string "environmental option" "social option" "governance option"
      "string option" "string option"
  | POST_esg_id_submit string
  | POST_esg_id_approve string "string option"
  | DELETE_esg_id string
  | POST_reports_generate string string string int "int option" "int option" "int option"
      "int option"
  | PUT_reports_id_status string "string option" "string option"
  | DELETE_reports_id string

text \<open>The chain of a route: each middleware either answers or hands on.\<close>

definition with_auth ::
  "world \<Rightarrow> string option \<Rightarrow> state \<Rightarrow> (user \<Rightarrow> response \<times> state) \<Rightarrow> response \<times> state" where
  "with_auth w authHeader s k =
     (case authenticate w authHeader s of Inl resp \<Rightarrow> (resp, s) | Inr u \<Rightarrow> k u)"

definition with_role ::
  "(world \<Rightarrow> user option \<Rightarrow> state \<Rightarrow> response option \<times> state) \<Rightarrow> world \<Rightarrow> user \<Rightarrow> state
     \<Rightarrow> (state \<Rightarrow> response \<times> state) \<Rightarrow> response \<times> state" where
  "with_role guard w u s k =
     (case guard w (Some u) s of (Some resp, s1) \<Rightarrow> (resp, s1) | (None, s1) \<Rightarrow> k s1)"

definition with_check :: "response option \<Rightarrow> state \<Rightarrow> response \<times> state \<Rightarrow> response \<times> state" where
  "with_check c s k = (case c of Some resp \<Rightarrow> (resp, s) | None \<Rightarrow> k)"

definition handle_request ::
  "world \<Rightarrow> string option \<Rightarrow> endpoint \<Rightarrow> state \<Rightarrow> response \<times> state" where
  "handle_request w authHeader ep s =
     (case ep of
        POST_auth_register nm em pw rl org \<Rightarrow>
          with_check (validate w) s (register w nm em pw rl org s)
      | POST_auth_login em pw \<Rightarrow>
          with_check (validate w) s (login w em pw s)
      | PUT_auth_profile nm org \<Rightarrow>
          with_auth w authHeader s (\<lambda>u. updateProfile w u nm org s)
      | POST_auth_logout \<Rightarrow>
          with_auth w authHeader s (\<lambda>u. logout w u s)
      | POST_users nm em pw rl org \<Rightarrow>
          with_auth w authHeader s (\<lambda>u. with_role adminOnly w u s (\<lambda>s1.
            with_check (validate w) s1 (createUser w u nm em pw rl org s1)))
      | PUT_users_id i nm em rl org active \<Rightarrow>
          with_auth w authHeader s (\<lambda>u. with_role adminOnly w u s (\<lambda>s1.
            with_check (validateObjectId i) s1 (updateUser w u i nm em rl org active s1)))
      | DELETE_users_id i \<Rightarrow>
          with_auth w authHeader s (\<lambda>u. with_role adminOnly w u s (\<lambda>s1.
            with_check (validateObjectId i) s1 (deleteUser w u i s1)))
      | POST_esg org period env soc gov \<Rightarrow>
          with_auth w authHeader s (\<lambda>u. with_role adminOrAnalyst w u s (\<lambda>s1.
            with_check (validate w) s1 (createESGRecord w u org period env soc gov s1)))
      | PUT_esg_id i env soc gov st notes \<Rightarrow>
          with_auth w authHeader s (\<lambda>u. with_role adminOrAnalyst w u s (\<lambda>s1.
            with_check (validateObjectId i) s1
              (updateESGRecord w u i env soc gov st notes s1)))
      | POST_esg_id_submit i \<Rightarrow>
          with_auth w authHeader s (\<lambda>u. with_role adminOrAnalyst w u s (\<lambda>s1.
            with_check (validateObjectId i) s1 (submitESGRecord w u i s1)))
      | POST_esg_id_approve i notes \<Rightarrow>
          with_auth w authHeader s (\<lambda>u. with_role anyRole w u s (\<lambda>s1.
            with_check (validateObjectId i) s1 (approveESGRecord w u i notes s1)))
      | DELETE_esg_id i \<Rightarrow>
          with_auth w authHeader s (\<lambda>u. with_role adminOnly w u s (\<lambda>s1.
            with_check (validateObjectId i) s1 (deleteESGRecord w i s1)))
      | POST_reports_generate title org rtype yr qtr mon startD endD \<Rightarrow>
          with_auth w authHeader s (\<lambda>u. with_role adminOrAnalyst w u s (\<lambda>s1.
            with_check (validate w) s1
              (generateReport w u title org rtype yr qtr mon startD endD s1)))
      | PUT_reports_id_status i st notes \<Rightarrow>
          with_auth w authHeader s (\<lambda>u. with_role adminOrAnalyst w u s (\<lambda>s1.
            with_check (validateObjectId i) s1 (updateReportStatus w u i st notes s1)))
      | DELETE_reports_id i \<Rightarrow>
          with_auth w authHeader s (\<lambda>u. with_role adminOnly w u s (\<lambda>s1.
            with_check (validateObjectId i) s1 (deleteReport w i s1))))"



section \<open>Schema validation, as the model files declare it\<close>

text \<open>
  The validators of the two schemas that the sample world below uses for Mongoose's
  validation: required fields, ranges, enumerations and maximal lengths.
\<close>

definition in_range :: "number \<Rightarrow> number \<Rightarrow> number option \<Rightarrow> bool" where
  "in_range lo hi v = (case v of None \<Rightarrow> True | Some x \<Rightarrow> js_le lo x \<and> js_le x hi)"

definition at_least0 :: "number option \<Rightarrow> bool" where
  "at_least0 v = (case v of None \<Rightarrow> True | Some x \<Rightarrow> js_le (Num 0) x)"

definition esgRecordSchema_valid :: "esg_record \<Rightarrow> bool" where
  "esgRecordSchema_valid r =
     (organization r \<noteq> []
      \<and> 2000 \<le> year (reportingPeriod r) \<and> year (reportingPeriod r) \<le> 2100
      \<and> (case quarter (reportingPeriod r) of None \<Rightarrow> True | Some q \<Rightarrow> q \<in> set [1, 2, 3, 4])
      \<and> (case month (reportingPeriod r) of None \<Rightarrow> True | Some m \<Rightarrow> 1 \<le> m \<and> m \<le> 12)
      \<and> (let e = env_of r in
           scope1Emissions e \<noteq> None \<and> scope2Emissions e \<noteq> None \<and> scope3Emissions e \<noteq> None
           \<and> at_least0 (scope1Emissions e) \<and> at_least0 (scope2Emissions e)
           \<and> at_least0 (scope3Emissions e) \<and> at_least0 (totalCarbonEmissions e)
           \<and> at_least0 (energyConsumption e) \<and> in_range (Num 0) (Num 100) (renewableEnergyPercentage e)
           \<and> at_least0 (waterUsage e) \<and> at_least0 (wasteGenerated e)
           \<and> at_least0 (wasteRecycled e))
      \<and> (let x = social_of r in
           totalEmployees x \<noteq> None \<and> at_least0 (totalEmployees x)
           \<and> in_range (Num 0) (Num 100) (diversityRatio x) \<and> in_range (Num 0) (Num 100) (femaleEmployeesPercentage x)
           \<and> at_least0 (healthAndSafetyIncidents x) \<and> at_least0 (trainingHoursPerEmployee x)
           \<and> in_range (Num 0) (Num 100) (employeeTurnoverRate x) \<and> at_least0 (communityInvestment x))
      \<and> (let g = gov_of r in
           in_range (Num 0) (Num 100) (boardIndependence g) \<and> in_range (Num 0) (Num 100) (femaleDirectorsPercentage g)
           \<and> (case complianceStatus g of
                 None \<Rightarrow> True
               | Some c \<Rightarrow> c \<in> set [''compliant'', ''partially_compliant'', ''non_compliant'',
                                   ''under_review''])
           \<and> at_least0 (whistleblowerCases g) \<and> at_least0 (dataBreaches g)
           \<and> (case auditFrequency g of
                 None \<Rightarrow> True
               | Some c \<Rightarrow> c \<in> set [''monthly'', ''quarterly'', ''semi_annual'', ''annual'']))
      \<and> status r \<in> set [''draft'', ''submitted'', ''under_review'', ''approved'', ''rejected'']
      \<and> submittedBy r \<noteq> []
      \<and> (case reviewNotes r of None \<Rightarrow> True | Some n \<Rightarrow> length n \<le> 1000))"

definition score_in_range :: "number \<Rightarrow> bool" where
  "score_in_range x = (js_le (Num 0) x \<and> js_le x (Num 100))"

definition reportSchema_valid :: "report \<Rightarrow> bool" where
  "reportSchema_valid r =
     (reportTitle r \<noteq> [] \<and> length (reportTitle r) \<le> 200
      \<and> report.organization r \<noteq> []
      \<and> reportType r \<in> set [''annual'', ''quarterly'', ''monthly'', ''custom'']
      \<and> score_in_range (environmentalScore (overallScore r))
      \<and> score_in_range (socialScore (overallScore r))
      \<and> score_in_range (governanceScore (overallScore r))
      \<and> score_in_range (totalScore (overallScore r))
      \<and> generatedBy r \<noteq> []
      \<and> report.status r \<in> set [''draft'', ''finalized'', ''published'', ''archived'']
      \<and> (case report_notes r of None \<Rightarrow> True | Some n \<Rightarrow> length n \<le> 2000))"

section \<open>The properties of the specification, as predicates\<close>





text \<open>
  The database without the audit trail, and what a caller can observe of a request: the
  response and that database.
\<close>

definition data_of :: "state \<Rightarrow> user list \<times> esg_record list \<times> report list" where
  "data_of s = (users s, esg_records s, reports s)"

definition observable ::
  "response \<times> state \<Rightarrow> response \<times> user list \<times> esg_record list \<times> report list" where
  "observable p = (fst p, data_of (snd p))"

text \<open>The position of a report status on the chain draft, finalized, published, archived.\<close>

definition report_status_rank :: "string \<Rightarrow> nat" where
  "report_status_rank st =
     (if st = ''draft'' then 0 else if st = ''finalized'' then 1
      else if st = ''published'' then 2 else 3)"

text \<open>
  A number with two decimals, as a binary64 value: the value nearest to some
  \<open>k / 100\<close>, which is then the \<open>k\<close> that \<open>Math_round\<close> recovers from it.
\<close>

definition two_decimals :: "number \<Rightarrow> bool" where
  "two_decimals x =
     (case x of Num r \<Rightarrow> fl (of_int \<lfloor>r * 100 + 1 / 2\<rfloor> / 100) = Num r | _ \<Rightarrow> False)"

text \<open>
  The sum of a list of numbers as a loop computes it: from 0, left to right, every
  addition rounded to the nearest binary64 value.
\<close>

definition running_sum :: "number list \<Rightarrow> number" where
  "running_sum xs = foldl (+) (Num 0) xs"

text \<open>The values of a field over the records, an absent or falsy one counting 0.\<close>

definition env_values ::
  "(environmental \<Rightarrow> number option) \<Rightarrow> esg_record list \<Rightarrow> number list" where
  "env_values f records = map (\<lambda>r. or0 (f (env_of r))) records"

definition gov_values ::
  "(governance \<Rightarrow> number option) \<Rightarrow> esg_record list \<Rightarrow> number list" where
  "gov_values f records = map (\<lambda>r. or0 (f (gov_of r))) records"

definition compliant_records :: "esg_record list \<Rightarrow> esg_record list" where
  "compliant_records records =
     filter (\<lambda>r. complianceStatus (gov_of r) = Some ''compliant'') records"

text \<open>
  Rounding to two decimals, as far as binary64 allows it: the result of rounding a finite
  \<open>v\<close> of magnitude up to \<open>2 ^ 40\<close> is a number with two decimals that lies within a half
  of a hundredth of \<open>v\<close>, up to the error of three roundings; an infinity and \<^verbatim>\<open>NaN\<close> stay.
\<close>

definition rounded_2dp :: "number \<Rightarrow> number \<Rightarrow> bool" where
  "rounded_2dp v out =
     (case v of
        Num q \<Rightarrow>
          \<bar>q\<bar> \<le> 2 ^ 40 \<longrightarrow>
            (case out of
               Num r \<Rightarrow> two_decimals out \<and> \<bar>r - q\<bar> \<le> 1 / 200 + (\<bar>q\<bar> + 1) / 2 ^ 51
             | _ \<Rightarrow> False)
      | _ \<Rightarrow> out = v)"

text \<open>The clamp of the score composer: into the interval from 0 to 100.\<close>

definition clamp :: "number \<Rightarrow> number" where
  "clamp x =
     (case x of
        Num q \<Rightarrow> Num (min 100 (max 0 q))
      | PosInf \<Rightarrow> Num 100
      | NegInf \<Rightarrow> Num 0
      | NaN \<Rightarrow> NaN)"

section \<open>Sample documents\<close>

text \<open>Concrete documents and summaries on which the theorems below are instantiated.\<close>

definition sample_record ::
  "environmental option \<Rightarrow> social option \<Rightarrow> governance option \<Rightarrow> esg_record" where
  "sample_record e s g =
     \<lparr>rec_id = ''65f000000000000000000001'', organization = ''Acme'',
      reportingPeriod = \<lparr>year = 2024, quarter = Some 1, month = None\<rparr>,
      environmental = e, social = s, governance = g, status = ''approved'',
      submittedBy = ''65f0000000000000000000aa'', reviewedBy = None, reviewNotes = None,
      submittedAt = None, approvedAt = None, createdAt = 0\<rparr>"

definition env_summary_of_carbon :: "number \<Rightarrow> environmentalSummary" where
  "env_summary_of_carbon c =
     \<lparr>totalScope1Emissions = c, totalScope2Emissions = Num 0, totalScope3Emissions = Num 0,
      totalCarbonEmissions = c, averageRenewableEnergyPercentage = Num 0,
      totalEnergyConsumption = Num 0, totalWaterUsage = Num 0, wasteRecyclingRate = Num 0\<rparr>"

definition social_summary_of :: "number \<Rightarrow> number \<Rightarrow> number \<Rightarrow> socialSummary" where
  "social_summary_of d i t =
     \<lparr>averageDiversityRatio = d, totalHealthAndSafetyIncidents = i, averageTrainingHours = t,
      averageTurnoverRate = Num 0, totalCommunityInvestment = Num 0,
      averageFemaleEmployeesPercentage = Num 0\<rparr>"

definition gov_summary_of :: "number \<Rightarrow> number \<Rightarrow> number \<Rightarrow> governanceSummary" where
  "gov_summary_of b c d =
     \<lparr>averageBoardIndependence = b, complianceRate = c, totalWhistleblowerCases = Num 0,
      totalDataBreaches = d, averageFemaleDirectorsPercentage = Num 0\<rparr>"

text \<open>
  A world in which nothing fails: validation is the schemas', a token is the identifier
  of its user, and the calendar is a monotone stand-in for the local-time constructor.
\<close>

definition sample_world :: world where
  "sample_world =
     \<lparr>now = 1000, new_id = ''65f000000000000000000009'',
      Date_local = (\<lambda>y m d h mi sec. ((((y * 12 + m) * 31 + d) * 24 + h) * 60 + mi) * 60 + sec),
      db_reads_fail = False, db_writes_fail = False, audit_writes_fail = False,
      failure_message = ''database unavailable'',
      esg_valid = esgRecordSchema_valid, report_valid = reportSchema_valid,
      user_valid = (\<lambda>u. True),
      jwt_verify = (\<lambda>t. Some t), jwt_sign = (\<lambda>i. i),
      bcrypt_hash = (\<lambda>p. p), bcrypt_compare = (\<lambda>p h. p = h),
      joi_accepts = True\<rparr>"

definition sample_user :: "string \<Rightarrow> string \<Rightarrow> string \<Rightarrow> user" where
  "sample_user i r org =
     \<lparr>user_id = i, name = ''Sam'', email = ''sam@example.org'', password = Some ''secret'',
      role = r, user.organization = org, isActive = True, lastLogin = None,
      createdBy = None\<rparr>"

text \<open>A complete record of Acme with the given status, submitted by the given user.\<close>

definition acme_record :: "string \<Rightarrow> string \<Rightarrow> esg_record" where
  "acme_record st submitter =
     \<lparr>rec_id = ''65f000000000000000000001'', organization = ''Acme'',
      reportingPeriod = \<lparr>year = 2024, quarter = Some 1, month = None\<rparr>,
      environmental = Some (environmental_defaults None),
      social = Some (social_defaults None),
      governance = Some (governance_defaults None),
      status = st, submittedBy = submitter, reviewedBy = None, reviewNotes = None,
      submittedAt = None, approvedAt = None, createdAt = 500\<rparr>"

definition sample_report :: "string \<Rightarrow> report" where
  "sample_report st =
     \<lparr>report_id = ''65f000000000000000000002'', reportTitle = ''Q1'',
      report.organization = ''Acme'', reportType = ''quarterly'',
      report.reportingPeriod = \<lparr>startDate = 0, endDate = 900, report_period.year = 2024\<rparr>,
      environmentalSummary = aggregateEnvironmentalMetrics [],
      socialSummary = aggregateSocialMetrics [],
      governanceSummary = aggregateGovernanceMetrics [],
      overallScore =
        \<lparr>environmentalScore = Num 100, socialScore = Num 50, governanceScore = Num 60,
         totalScore = Num 70\<rparr>,
      includedRecords = [''65f000000000000000000001''],
      generatedBy = ''65f0000000000000000000aa'', report.status = st,
      report_notes = None, publishedAt = (if st = ''published'' then Some 700 else None)\<rparr>"

definition database_of :: "user list \<Rightarrow> esg_record list \<Rightarrow> report list \<Rightarrow> state" where
  "database_of us rs reps = \<lparr>users = us, esg_records = rs, reports = reps, audit_logs = []\<rparr>"


text \<open>A record with the given scope 1 emissions and waste figures and nothing else.\<close>

definition emitting :: "number \<Rightarrow> number \<Rightarrow> number \<Rightarrow> esg_record" where
  "emitting s generated recycled =
     sample_record
       (Some (empty_environmental\<lparr>scope1Emissions := Some s, wasteGenerated := Some generated,
          wasteRecycled := Some recycled\<rparr>))
       None None"

text \<open>Two records: scope 1 emissions 0.255 and 0.31, waste 160 of which 23 recycled.\<close>

definition emission_samples :: "esg_record list" where
  "emission_samples =
     [emitting (fl (255 / 1000)) (Num 160) (Num 23), emitting (fl (31 / 100)) (Num 0) (Num 0)]"

text \<open>Two records that emit and recycle but have generated no waste.\<close>

definition wasteless_samples :: "esg_record list" where
  "wasteless_samples = [emitting (Num 5) (Num 0) (Num 7), emitting (Num 1) (Num 0) (Num 0)]"

text \<open>A record whose incidents and training hours are both \<^verbatim>\<open>Infinity\<close>.\<close>

definition unbounded_record :: esg_record where
  "unbounded_record =
     sample_record None
       (Some (empty_social\<lparr>healthAndSafetyIncidents := Some PosInf,
          trainingHoursPerEmployee := Some PosInf\<rparr>))
       None"

text \<open>A record with the given board independence, compliance status and breaches.\<close>

definition governed :: "number \<Rightarrow> string \<Rightarrow> number \<Rightarrow> esg_record" where
  "governed b c d =
     sample_record None None
       (Some (empty_governance\<lparr>boardIndependence := Some b, complianceStatus := Some c,
          whistleblowerCases := Some (Num 1), dataBreaches := Some d\<rparr>))"

text \<open>
  Four records of which two are compliant, with board independence 1, 1.01, 0 and 0, one
  whistleblower case each, and 2, 0, 0 and 1 breaches.
\<close>

definition governance_samples :: "esg_record list" where
  "governance_samples =
     [governed (Num 1) ''compliant'' (Num 2), governed (fl (101 / 100)) ''compliant'' (Num 0),
      governed (Num 0) ''non_compliant'' (Num 0), governed (Num 0) ''under_review'' (Num 1)]"

text \<open>Two records with board independence 1 and 1.01.\<close>

definition independence_samples :: "esg_record list" where
  "independence_samples =
     [governed (Num 1) ''compliant'' (Num 0), governed (fl (101 / 100)) ''compliant'' (Num 0)]"

text \<open>160 records of which 23 are compliant.\<close>

definition compliance_samples :: "esg_record list" where
  "compliance_samples =
     replicate 23 (governed (Num 0) ''compliant'' (Num 0))
     @ replicate 137 (governed (Num 0) ''non_compliant'' (Num 0))"

section \<open>Binary64 arithmetic\<close>

text \<open>
  The facts about rounding that the properties below rest on: the error of one rounding,
  the values that are exact, rounding never crossing a value that is exact, and a
  criterion that evaluates \<open>fl\<close> on a given rational.
\<close>

lemma bitlen_powi:
  assumes "0 < n"
  shows "(2::rat) powi (bitlen n - 1) \<le> of_int n" and "of_int n < (2::rat) powi (bitlen n)"
proof -
  from bitlen_bounds[OF assms]
  have a: "2 ^ nat (bitlen n - 1) \<le> n" and b: "n < 2 ^ nat (bitlen n)" by auto
  have bn: "1 \<le> bitlen n"
    using assms bitlen_eq_zero_iff[of n] bitlen_nonneg[of n] by linarith
  have "(2::rat) powi (bitlen n - 1) = of_int (2 ^ nat (bitlen n - 1))"
    using bn by (simp add: power_int_def)
  also have "\<dots> \<le> of_int n" using a by (simp only: of_int_le_iff)
  finally show "(2::rat) powi (bitlen n - 1) \<le> of_int n" .
  have "(of_int n :: rat) < of_int (2 ^ nat (bitlen n))" using b by (simp only: of_int_less_iff)
  also have "\<dots> = 2 powi (bitlen n)" using bn by (simp add: power_int_def)
  finally show "of_int n < (2::rat) powi (bitlen n)" .
qed

lemma expo_bounds:
  assumes "x \<noteq> 0"
  shows "2 powi (expo x) \<le> \<bar>x\<bar>" and "\<bar>x\<bar> < 2 powi (expo x + 1)"
proof -
  obtain n d where q: "quotient_of \<bar>x\<bar> = (n, d)" by (cases "quotient_of \<bar>x\<bar>")
  have d: "0 < d" using quotient_of_denom_pos[OF q] .
  have x: "\<bar>x\<bar> = of_int n / of_int d" using quotient_of_div[OF q] .
  have pos: "0 < \<bar>x\<bar>" using assms by simp
  have n: "0 < n"
  proof (rule ccontr)
    assume "\<not> 0 < n"
    then have "(of_int n :: rat) \<le> 0" by simp
    then have "of_int n / of_int d \<le> (0::rat)" using d by (simp add: divide_le_0_iff)
    then show False using pos x by simp
  qed
  let ?e = "bitlen n - bitlen d"
  have dr: "(0::rat) < of_int d" using d by simp
  have up: "\<bar>x\<bar> < 2 powi (?e + 1)"
  proof -
    have "of_int n < (2::rat) powi (bitlen n)" using bitlen_powi(2)[OF n] .
    also have "\<dots> = 2 powi (?e + 1) * 2 powi (bitlen d - 1)"
      by (simp add: power_int_add [symmetric])
    also have "\<dots> \<le> 2 powi (?e + 1) * of_int d"
      using bitlen_powi(1)[OF d] by (intro mult_left_mono) simp_all
    finally have "of_int n < 2 powi (?e + 1) * (of_int d :: rat)" .
    then show ?thesis unfolding x using dr by (simp add: pos_divide_less_eq)
  qed
  have lo: "2 powi (?e - 1) \<le> \<bar>x\<bar>"
  proof -
    have "2 powi (?e - 1) * (of_int d :: rat) \<le> 2 powi (?e - 1) * 2 powi (bitlen d)"
      using bitlen_powi(2)[OF d] by (intro mult_left_mono) simp_all
    also have "\<dots> = 2 powi (bitlen n - 1)" by (simp add: power_int_add [symmetric])
    also have "\<dots> \<le> of_int n" using bitlen_powi(1)[OF n] .
    finally show ?thesis unfolding x using dr by (simp add: pos_le_divide_eq)
  qed
  have e: "expo x = (if 2 powi ?e \<le> \<bar>x\<bar> then ?e else ?e - 1)"
    by (simp add: expo_def q Let_def)
  show "2 powi (expo x) \<le> \<bar>x\<bar>" using lo by (simp add: e)
  show "\<bar>x\<bar> < 2 powi (expo x + 1)" using up by (auto simp add: e not_le)
qed

lemma powi_less_imp: "(2::rat) powi a < 2 powi b \<Longrightarrow> a < b"
proof (rule ccontr)
  assume l: "(2::rat) powi a < 2 powi b" and "\<not> a < b"
  then have "b \<le> a" by simp
  then have "(2::rat) powi b \<le> 2 powi a" by (rule power_int_increasing) simp
  then show False using l by simp
qed

lemma expo_mono:
  assumes "x \<noteq> 0" and "\<bar>x\<bar> \<le> \<bar>y\<bar>"
  shows "expo x \<le> expo y"
proof -
  have y: "y \<noteq> 0" using assms by auto
  have "(2::rat) powi (expo x) < 2 powi (expo y + 1)"
    using expo_bounds(1)[OF assms(1)] assms(2) expo_bounds(2)[OF y] by linarith
  then have "expo x < expo y + 1" by (rule powi_less_imp)
  then show ?thesis by simp
qed

lemma rne_err: "\<bar>of_int (rne x) - x\<bar> \<le> 1 / 2"
proof -
  have a: "of_int \<lfloor>x\<rfloor> \<le> x" and b: "x < of_int \<lfloor>x\<rfloor> + 1" by linarith+
  show ?thesis
  proof (cases "x - of_int \<lfloor>x\<rfloor> < 1 / 2")
    case True
    then show ?thesis using a by (simp add: rne_def Let_def abs_le_iff)
  next
    case False
    note nl = this
    show ?thesis
    proof (cases "1 / 2 < x - of_int \<lfloor>x\<rfloor>")
      case True
      then show ?thesis using nl b by (simp add: rne_def Let_def abs_le_iff)
    next
      case False
      then have "x - of_int \<lfloor>x\<rfloor> = 1 / 2" using nl by simp
      then show ?thesis by (simp add: rne_def Let_def abs_le_iff)
    qed
  qed
qed

lemma rne_of_int [simp]: "rne (of_int k) = k"
  by (simp add: rne_def)

lemma rne_mono: "x \<le> y \<Longrightarrow> rne x \<le> rne y"
proof -
  assume xy: "x \<le> y"
  have f: "\<lfloor>x\<rfloor> \<le> \<lfloor>y\<rfloor>" using xy by (rule floor_mono)
  have lo: "\<lfloor>y\<rfloor> \<le> rne y" and hi: "rne x \<le> \<lfloor>x\<rfloor> + 1"
    by (simp_all add: rne_def Let_def)
  show ?thesis
  proof (cases "\<lfloor>x\<rfloor> < \<lfloor>y\<rfloor>")
    case True
    then show ?thesis using lo hi by linarith
  next
    case False
    then have eq: "\<lfloor>x\<rfloor> = \<lfloor>y\<rfloor>" using f by simp
    then have "x - of_int \<lfloor>y\<rfloor> \<le> y - of_int \<lfloor>y\<rfloor>" using xy by simp
    then show ?thesis unfolding rne_def Let_def eq by (auto split: if_splits)
  qed
qed

lemma quantum_pos: "0 < quantum x"
  by (simp add: quantum_def zero_less_power_int)

lemma round64_err: "\<bar>round64 x - x\<bar> \<le> \<bar>x\<bar> / 2 ^ 53 + 2 powi (- 1075)"
proof (cases "x = 0")
  case True
  then show ?thesis by (simp add: round64_def)
next
  case False
  let ?q = "quantum x"
  have q: "0 < ?q" by (rule quantum_pos)
  have "round64 x - x = (of_int (rne (x / ?q)) - x / ?q) * ?q"
    using q False by (simp add: round64_def field_simps)
  then have "\<bar>round64 x - x\<bar> = \<bar>of_int (rne (x / ?q)) - x / ?q\<bar> * ?q"
    using q by (simp add: abs_mult)
  also have "\<dots> \<le> (1 / 2) * ?q" using rne_err q by (intro mult_right_mono) simp_all
  also have "\<dots> \<le> \<bar>x\<bar> / 2 ^ 53 + 2 powi (- 1075)"
  proof (cases "- 1022 \<le> expo x")
    case True
    then have "?q = 2 powi (expo x) / 2 ^ 52"
      by (simp add: quantum_def max_def power_int_diff)
    also have "\<dots> \<le> \<bar>x\<bar> / 2 ^ 52" using expo_bounds(1)[OF False] by (simp add: divide_right_mono)
    finally have "(1 / 2) * ?q \<le> \<bar>x\<bar> / 2 ^ 53" by simp
    moreover have "(0::rat) \<le> 2 powi (- 1075)" by simp
    ultimately show ?thesis by linarith
  next
    case False
    then have "?q = 2 powi (- 1074)" by (simp add: quantum_def max_def)
    then have "(1 / 2) * ?q = 2 powi (- 1075)" by (simp add: power_int_minus)
    then show ?thesis by simp
  qed
  finally show ?thesis .
qed

lemma round64_nonneg: "0 \<le> x \<Longrightarrow> 0 \<le> round64 x"
proof -
  assume x: "0 \<le> x"
  have "0 \<le> x / quantum x" using x quantum_pos[of x] by simp
  then have "rne (of_int 0) \<le> rne (x / quantum x)" by (intro rne_mono) simp
  then have "0 \<le> rne (x / quantum x)" by (simp only: rne_of_int)
  then show ?thesis using quantum_pos[of x] by (simp add: round64_def)
qed


lemma round64_le:
  assumes x: "0 < x" and xb: "x \<le> b" and b: "round64 b = b"
  shows "round64 x \<le> b"
proof -
  have bpos: "0 < b" using x xb by simp
  have e: "expo x \<le> expo b" using x xb by (intro expo_mono) simp_all
  let ?kx = "max (expo x) (- 1022) - 52" and ?kb = "max (expo b) (- 1022) - 52"
  have k: "?kx \<le> ?kb" using e by simp
  have qb: "quantum b = quantum x * of_int (2 ^ nat (?kb - ?kx))"
  proof -
    have "quantum b = 2 powi (?kx + (?kb - ?kx))" by (simp add: quantum_def)
    also have "\<dots> = 2 powi ?kx * 2 powi (?kb - ?kx)" by (rule power_int_add) simp
    also have "2 powi (?kb - ?kx) = (of_int (2 ^ nat (?kb - ?kx)) :: rat)"
      using k by (simp add: power_int_def)
    finally show ?thesis by (simp add: quantum_def)
  qed
  define N where "N = rne (b / quantum b) * 2 ^ nat (?kb - ?kx)"
  have "b = of_int (rne (b / quantum b)) * quantum b"
    using b bpos by (simp add: round64_def)
  also have "\<dots> = of_int (rne (b / quantum b)) * (quantum x * of_int (2 ^ nat (?kb - ?kx)))"
    by (simp only: qb [symmetric])
  also have "\<dots> = of_int N * quantum x" unfolding N_def by (simp only: of_int_mult mult_ac)
  finally have bN: "b = of_int N * quantum x" .
  have "x / quantum x \<le> b / quantum x"
    using xb quantum_pos[of x] by (simp add: divide_right_mono)
  also have "b / quantum x = of_int N" using bN quantum_pos[of x] by simp
  finally have "rne (x / quantum x) \<le> rne (of_int N)" by (rule rne_mono)
  then have "rne (x / quantum x) \<le> N" by (simp only: rne_of_int)
  then have "(of_int (rne (x / quantum x)) :: rat) \<le> of_int N" by (simp only: of_int_le_iff)
  then have "of_int (rne (x / quantum x)) * quantum x \<le> of_int N * quantum x"
    using quantum_pos[of x] by (intro mult_right_mono) simp_all
  then show ?thesis using x bN by (simp add: round64_def)
qed

lemma round64_of_int:
  assumes "\<bar>k\<bar> < 2 ^ 53"
  shows "round64 (of_int k) = of_int k"
proof (cases "k = 0")
  case True
  then show ?thesis by (simp add: round64_def)
next
  case False
  let ?x = "of_int k :: rat"
  have x: "?x \<noteq> 0" using False by simp
  have one: "1 \<le> \<bar>?x\<bar>"
  proof -
    have "1 \<le> \<bar>k\<bar>" using False by simp
    then have "(of_int 1 :: rat) \<le> of_int \<bar>k\<bar>" by (simp only: of_int_le_iff)
    then show ?thesis by simp
  qed
  have lt: "\<bar>?x\<bar> < 2 powi 53"
  proof -
    have "(of_int \<bar>k\<bar> :: rat) < of_int (2 ^ 53)" using assms by (simp only: of_int_less_iff)
    then show ?thesis by simp
  qed
  have "(2::rat) powi 0 < 2 powi (expo ?x + 1)" using one expo_bounds(2)[OF x] by simp
  then have "0 < expo ?x + 1" by (rule powi_less_imp)
  then have lo: "0 \<le> expo ?x" by simp
  have "(2::rat) powi (expo ?x) < 2 powi 53" using lt expo_bounds(1)[OF x] by linarith
  then have "expo ?x < 53" by (rule powi_less_imp)
  then have hi: "expo ?x \<le> 52" by simp
  define m where "m = nat (52 - expo ?x)"
  have q: "quantum ?x * of_int (2 ^ m) = 1"
  proof -
    have "quantum ?x = 2 powi (- int m)" using lo hi by (simp add: quantum_def m_def max_def)
    then show ?thesis by (simp add: power_int_minus)
  qed
  have qpos: "0 < quantum ?x" by (rule quantum_pos)
  have "?x / quantum ?x = of_int (k * 2 ^ m)"
  proof -
    have "?x = ?x * (quantum ?x * of_int (2 ^ m))" by (simp only: q mult_1_right)
    then have "?x = of_int (k * 2 ^ m) * quantum ?x" by (simp add: mult_ac)
    then show ?thesis using qpos by (simp add: field_simps)
  qed
  then have "rne (?x / quantum ?x) = k * 2 ^ m" by (simp only: rne_of_int)
  then have "round64 ?x = of_int (k * 2 ^ m) * quantum ?x" using x by (simp add: round64_def)
  also have "\<dots> = ?x * (quantum ?x * of_int (2 ^ m))" by (simp add: mult_ac)
  also have "\<dots> = ?x" by (simp only: q mult_1_right)
  finally show ?thesis .
qed

lemma expo_unique:
  assumes "2 powi e \<le> \<bar>x\<bar>" and "\<bar>x\<bar> < 2 powi (e + 1)"
  shows "expo x = e"
proof -
  have "(0::rat) < 2 powi e" by (simp add: zero_less_power_int)
  then have "0 < \<bar>x\<bar>" using assms(1) by linarith
  then have x: "x \<noteq> 0" by simp
  have "(2::rat) powi e < 2 powi (expo x + 1)"
    using assms(1) expo_bounds(2)[OF x] by linarith
  then have a: "e < expo x + 1" by (rule powi_less_imp)
  have "(2::rat) powi (expo x) < 2 powi (e + 1)"
    using assms(2) expo_bounds(1)[OF x] by linarith
  then have "expo x < e + 1" by (rule powi_less_imp)
  then show ?thesis using a by simp
qed

lemma rne_eqI:
  assumes "\<bar>x - of_int m\<bar> < 1 / 2"
  shows "rne x = m"
proof -
  have "\<bar>of_int (rne x) - x\<bar> \<le> 1 / 2" by (rule rne_err)
  then have "\<bar>(of_int (rne x) :: rat) - of_int m\<bar> < 1" using assms by linarith
  then have "\<bar>(of_int (rne x - m) :: rat)\<bar> < of_int 1" by simp
  then have "\<bar>rne x - m\<bar> < 1" by (simp only: of_int_abs [symmetric] of_int_less_iff)
  then show ?thesis by simp
qed

lemma tiny_le: "(2::rat) powi (- 1075) \<le> 1 / 2 ^ 60"
proof -
  have "(2::rat) powi (- 1075) \<le> 2 powi (- 60)" by (rule power_int_increasing) simp_all
  then show ?thesis by (simp add: power_int_minus field_simps)
qed

lemma fl_Num:
  assumes "\<bar>round64 x\<bar> \<le> 2 ^ 1000"
  shows "fl x = Num (round64 x)"
proof -
  have "(2::rat) ^ 1000 = 2 powi 1000" by simp
  also have "\<dots> < 2 powi 1024" by (rule power_int_strict_increasing) simp_all
  finally have "\<bar>round64 x\<bar> < 2 powi 1024" using assms by linarith
  then show ?thesis by (simp add: fl_def Let_def abs_less_iff not_le)
qed

lemma fl_of_int:
  assumes "\<bar>k\<bar> < 2 ^ 53"
  shows "fl (of_int k) = Num (of_int k)"
proof -
  have r: "round64 (of_int k) = of_int k" using assms by (rule round64_of_int)
  have "(of_int \<bar>k\<bar> :: rat) < of_int (2 ^ 53)" using assms by (simp only: of_int_less_iff)
  then have "\<bar>of_int k :: rat\<bar> < 2 ^ 53" by simp
  also have "(2::rat) ^ 53 \<le> 2 ^ 1000" by (rule power_increasing) simp_all
  finally show ?thesis using fl_Num[of "of_int k"] by (simp add: r)
qed

lemma fl_0 [simp]: "fl 0 = Num 0"
  using fl_of_int[of 0] by simp

lemma fl_1 [simp]: "fl 1 = Num 1"
  using fl_of_int[of 1] by simp

lemma fl_numeral: "numeral k < (2::int) ^ 53 \<Longrightarrow> fl (numeral k) = Num (numeral k)"
  using fl_of_int[of "numeral k"] by simp

lemma fl_range:
  assumes x: "0 \<le> x" and xb: "x \<le> b" and b: "round64 b = b" and small: "b \<le> 2 ^ 1000"
  shows "\<exists>y. fl x = Num y \<and> 0 \<le> y \<and> y \<le> b"
proof -
  have lo: "0 \<le> round64 x" using x by (rule round64_nonneg)
  have hi: "round64 x \<le> b"
  proof (cases "x = 0")
    case True
    then show ?thesis using xb by (simp add: round64_def)
  next
    case False
    then have "0 < x" using x by simp
    then show ?thesis using xb b by (rule round64_le)
  qed
  have "fl x = Num (round64 x)" using lo hi small by (intro fl_Num) simp
  then show ?thesis using lo hi by blast
qed

lemma Math_pow10_2 [simp]: "Math_pow10 2 = Num 100"
  using fl_numeral[of "Num.Bit0 (Num.Bit0 (Num.Bit1 (Num.Bit0 (Num.Bit0 (Num.Bit1 Num.One)))))"]
  by (simp add: Math_pow10_def)

lemma roundToDecimal_Num:
  "roundToDecimal (Num q) 2
     = (case fl (q * 100) of Num p \<Rightarrow> fl (of_int \<lfloor>p + 1 / 2\<rfloor> / 100) | z \<Rightarrow> z)"
  by (simp add: roundToDecimal_def times_number_def divide_number_def Math_round_def
      split: number.splits)

lemma roundToDecimal_near:
  assumes q: "\<bar>q\<bar> \<le> 2 ^ 40"
  shows "\<exists>r. roundToDecimal (Num q) 2 = Num r \<and> two_decimals (Num r)
           \<and> \<bar>r - q\<bar> \<le> 1 / 200 + (\<bar>q\<bar> + 1) / 2 ^ 51"
proof -
  define p where "p = round64 (q * 100)"
  define k where "k = \<lfloor>p + 1 / 2\<rfloor>"
  define c where "c = (of_int k :: rat)"
  define r where "r = round64 (c / 100)"
  note tiny = tiny_le
  have q': "\<bar>q\<bar> \<le> 1099511627776" using q by simp
  have "\<bar>p - q * 100\<bar> \<le> \<bar>q * 100\<bar> / 2 ^ 53 + 2 powi (- 1075)"
    unfolding p_def by (rule round64_err)
  then have p: "\<bar>p - q * 100\<bar> \<le> \<bar>q\<bar> * 100 / 9007199254740992 + 1 / 1152921504606846976"
    using tiny by (simp add: abs_mult)
  have pk: "c \<le> p + 1 / 2" "p + 1 / 2 < c + 1"
    unfolding k_def c_def by linarith+
  have "\<bar>r - c / 100\<bar> \<le> \<bar>c / 100\<bar> / 2 ^ 53 + 2 powi (- 1075)"
    unfolding r_def by (rule round64_err)
  then have r: "\<bar>r - c / 100\<bar> \<le> \<bar>c\<bar> / 900719925474099200 + 1 / 1152921504606846976"
    using tiny by simp
  have k1: "\<bar>c - q * 100\<bar>
      \<le> 1 / 2 + \<bar>q\<bar> * 100 / 9007199254740992 + 1 / 1152921504606846976"
    using p pk by linarith
  have k2: "\<bar>c\<bar> \<le> \<bar>q\<bar> * 100 + 1" using k1 q' by linarith
  have r1: "\<bar>r - c / 100\<bar>
      \<le> \<bar>q\<bar> / 9007199254740992 + 1 / 900719925474099200 + 1 / 1152921504606846976"
    using r k2 by linarith
  have d: "\<bar>c / 100 - q\<bar>
      \<le> 1 / 200 + \<bar>q\<bar> / 9007199254740992 + 1 / 115292150460684697600"
    using k1 by linarith
  have pb: "\<bar>p\<bar> \<le> 2 ^ 1000"
  proof -
    have "\<bar>p\<bar> \<le> 140737488355328" using p q' by linarith
    also have "\<dots> = (2::rat) ^ 47" by simp
    also have "(2::rat) ^ 47 \<le> 2 ^ 1000" by (rule power_increasing) simp_all
    finally show ?thesis .
  qed
  have rb: "\<bar>r\<bar> \<le> 2 ^ 1000"
  proof -
    have "\<bar>r\<bar> \<le> 140737488355328" using r1 d q' by linarith
    also have "\<dots> = (2::rat) ^ 47" by simp
    also have "(2::rat) ^ 47 \<le> 2 ^ 1000" by (rule power_increasing) simp_all
    finally show ?thesis .
  qed
  have f1: "fl (q * 100) = Num p" unfolding p_def using pb by (intro fl_Num) (simp add: p_def)
  have f2: "fl (of_int k / 100) = Num r"
    unfolding r_def c_def using rb by (intro fl_Num) (simp add: r_def c_def)
  have out: "roundToDecimal (Num q) 2 = Num r"
    by (simp add: roundToDecimal_Num f1 k_def [symmetric] f2)
  have "\<bar>r * 100 - c\<bar> < 1 / 2" using r1 q' by linarith
  then have "\<lfloor>r * 100 + 1 / 2\<rfloor> = k" unfolding c_def by (intro floor_unique) linarith+
  then have two: "two_decimals (Num r)" by (simp add: two_decimals_def f2)
  have "\<bar>r - q\<bar> \<le> 1 / 200 + (\<bar>q\<bar> / 2251799813685248 + 1 / 2251799813685248)"
    using r1 d by linarith
  then have "\<bar>r - q\<bar> \<le> 1 / 200 + (\<bar>q\<bar> + 1) / 2 ^ 51" by (simp add: add_divide_distrib)
  then show ?thesis using out two by blast
qed

lemma rne_tie:
  assumes "\<bar>x - of_int m\<bar> = 1 / 2" and "even m"
  shows "rne x = m"
proof -
  consider "x = of_int m + 1 / 2" | "x = of_int m - 1 / 2" using assms(1) by (auto simp: abs_if split: if_splits)
  then show ?thesis
  proof cases
    case 1
    have "\<lfloor>x\<rfloor> = m" unfolding 1 by (intro floor_unique) simp_all
    then show ?thesis using assms(2) by (simp add: rne_def Let_def 1)
  next
    case 2
    have f: "\<lfloor>x\<rfloor> = m - 1" unfolding 2 by (intro floor_unique) simp_all
    then show ?thesis using assms(2) by (simp add: rne_def Let_def 2)
  qed
qed

lemma fl_eqI:
  assumes lo: "2 ^ 52 \<le> \<bar>x\<bar> * 2 ^ n" and hi: "\<bar>x\<bar> * 2 ^ n < 2 ^ 53" and n: "n \<le> 1074"
    and m: "\<bar>x * 2 ^ n - of_int m\<bar> < 1 / 2
            \<or> \<bar>x * 2 ^ n - of_int m\<bar> = 1 / 2 \<and> even m"
  shows "fl x = Num (of_int m / 2 ^ n)"
proof -
  let ?e = "52 - int n"
  have p: "(2::rat) powi ?e = 2 ^ 52 / 2 ^ n" by (simp add: power_int_diff)
  have p1: "(2::rat) powi (?e + 1) = 2 ^ 53 / 2 ^ n"
  proof -
    have "(2::rat) powi (?e + 1) = 2 powi (53 - int n)" by (simp add: algebra_simps)
    then show ?thesis by (simp add: power_int_diff)
  qed
  have "2 powi ?e \<le> \<bar>x\<bar>" unfolding p using lo by (simp add: pos_divide_le_eq)
  moreover have "\<bar>x\<bar> < 2 powi (?e + 1)" unfolding p1 using hi by (simp add: pos_less_divide_eq)
  ultimately have e: "expo x = ?e" by (rule expo_unique)
  have qu: "quantum x = 1 / 2 ^ n" using n by (simp add: quantum_def e max_def power_int_minus_divide)
  have x: "x \<noteq> 0" using lo by auto
  have "rne (x * 2 ^ n) = m" using m rne_eqI[of "x * 2 ^ n" m] rne_tie[of "x * 2 ^ n" m] by blast
  then have "rne (x / quantum x) = m" by (simp add: qu)
  then have r: "round64 x = of_int m / 2 ^ n" using x by (simp add: round64_def qu)
  have "\<bar>x * 2 ^ n\<bar> < 2 ^ 53" using hi by (simp add: abs_mult)
  moreover have "\<bar>x * 2 ^ n - of_int m\<bar> \<le> 1 / 2" using m by linarith
  ultimately have mb: "\<bar>of_int m :: rat\<bar> \<le> 2 ^ 53 + 1 / 2" by linarith
  have "\<bar>of_int m / 2 ^ n :: rat\<bar> = \<bar>of_int m\<bar> / 2 ^ n" by simp
  also have "\<dots> \<le> \<bar>of_int m\<bar> / 1" by (intro divide_left_mono) simp_all
  also have "\<dots> \<le> 2 ^ 53 + 1 / 2" using mb by simp
  also have "\<dots> \<le> (2::rat) ^ 54" by simp
  also have "(2::rat) ^ 54 \<le> 2 ^ 1000" by (rule power_increasing) simp_all
  finally show ?thesis using fl_Num[of x] by (simp add: r)
qed

lemma div_Num: "y \<noteq> 0 \<Longrightarrow> Num x / Num y = fl (x / y)"
  by (simp add: divide_number_def)

lemma mul_Num: "Num x * Num y = fl (x * y)"
  by (simp add: times_number_def)

lemma add_Num: "Num x + Num y = fl (x + y)"
  by (simp add: plus_number_def)

lemma sub_Num: "Num x - Num y = fl (x - y)"
  by (simp add: minus_number_def uminus_number_def plus_number_def)

lemma Math_min_Num [simp]: "Math_min (Num x) (Num y) = Num (min x y)"
  by (simp add: Math_min_def)

lemma Math_max_Num [simp]: "Math_max (Num x) (Num y) = Num (max x y)"
  by (simp add: Math_max_def)

lemma js_le_Num [simp]: "js_le (Num x) (Num y) = (x \<le> y)"
  by (simp add: js_le_def)

lemma or0_simps [simp]:
  "or0 None = Num 0"
  "or0 (Some (Num x)) = Num x"
  "or0 (Some NaN) = Num 0"
  "or0 (Some PosInf) = PosInf"
  "or0 (Some NegInf) = NegInf"
  by (simp_all add: or0_def falsy_def)

section \<open>The score composer\<close>

lemma sample_scores:
  "calculateOverallScores (env_summary_of_carbon (Num 5000)) (social_summary_of (Num 40) (Num 0) (Num 12))
     (gov_summary_of (Num 50) (Num 75) (Num 1))
   = \<lparr>environmentalScore = Num 50, socialScore = fl (5067 / 100),
      governanceScore = fl (7167 / 100), totalScore = fl (5744 / 100)\<rparr>"
proof -
  have s1: "Num 5000 / Num 10000 = Num (1 / 2)"
    using fl_eqI[of "1 / 2" 53 "4503599627370496"] by (simp add: div_Num)
  have s2: "Num (1 / 2) * Num 100 = Num 50"
    using fl_eqI[of "50" 47 "7036874417766400"] by (simp add: mul_Num)
  have s3: "Num 100 - Num 50 = Num 50"
    using fl_eqI[of "50" 47 "7036874417766400"] by (simp add: sub_Num)
  have s4: "Num 100 - Num 0 = Num 100"
    using fl_eqI[of "100" 46 "7036874417766400"] by (simp add: sub_Num)
  have s5: "Num 40 + Num 100 = Num 140"
    using fl_eqI[of "140" 45 "4925812092436480"] by (simp add: add_Num)
  have s6: "Num 140 + Num 12 = Num 152"
    using fl_eqI[of "152" 45 "5348024557502464"] by (simp add: add_Num)
  have s7: "Num 152 / Num 3 = Num (7130699410003285 / 140737488355328)"
    using fl_eqI[of "152 / 3" 47 "7130699410003285"] by (simp add: div_Num)
  have s8: "Num 1 * Num 10 = Num 10"
    using fl_eqI[of "10" 49 "5629499534213120"] by (simp add: mul_Num)
  have s9: "Num 100 - Num 10 = Num 90"
    using fl_eqI[of "90" 46 "6333186975989760"] by (simp add: sub_Num)
  have s10: "Num 50 + Num 75 = Num 125"
    using fl_eqI[of "125" 46 "8796093022208000"] by (simp add: add_Num)
  have s11: "Num 125 + Num 90 = Num 215"
    using fl_eqI[of "215" 45 "7564639999098880"] by (simp add: add_Num)
  have s12: "Num 215 / Num 3 = Num (5043093332732587 / 70368744177664)"
    using fl_eqI[of "215 / 3" 46 "5043093332732587"] by (simp add: div_Num)
  have s13: "Num 50 + Num (7130699410003285 / 140737488355328) = Num (3541893456942421 / 35184372088832)"
    using fl_eqI[of "14167573827769685 / 140737488355328" 46 "7083786913884842"] by (simp add: add_Num)
  have s14: "Num (3541893456942421 / 35184372088832) + Num (5043093332732587 / 70368744177664) = Num (3031720061654357 / 17592186044416)"
    using fl_eqI[of "12126880246617429 / 70368744177664" 45 "6063440123308714"] by (simp add: add_Num)
  have s15: "Num (3031720061654357 / 17592186044416) / Num 3 = Num (8084586831078285 / 140737488355328)"
    using fl_eqI[of "3031720061654357 / 52776558133248" 47 "8084586831078285"] by (simp add: div_Num)
  have s16: "Num 50 * Num 100 = Num 5000"
    using fl_eqI[of "5000" 40 "5497558138880000"] by (simp add: mul_Num)
  have s17: "Math_round (Num 5000) = Num 5000"
    by (simp add: Math_round_def floor_eq_iff)
  have s18: "Num 5000 / Num 100 = Num 50"
    using fl_eqI[of "50" 47 "7036874417766400"] by (simp add: div_Num)
  have s19: "Num (7130699410003285 / 140737488355328) * Num 100 = Num (2785429457032533 / 549755813888)"
    using fl_eqI[of "178267485250082125 / 35184372088832" 40 "5570858914065066"] by (simp add: mul_Num)
  have s20: "Math_round (Num (2785429457032533 / 549755813888)) = Num 5067"
    by (simp add: Math_round_def floor_eq_iff)
  have s21: "Num 5067 / Num 100 = Num (3565584267482235 / 70368744177664)"
    using fl_eqI[of "5067 / 100" 47 "7131168534964470"] by (simp add: div_Num)
  have s22: "Num (5043093332732587 / 70368744177664) * Num 100 = Num (7879833332394667 / 1099511627776)"
    using fl_eqI[of "126077333318314675 / 17592186044416" 40 "7879833332394667"] by (simp add: mul_Num)
  have s23: "Math_round (Num (7879833332394667 / 1099511627776)) = Num 7167"
    by (simp add: Math_round_def floor_eq_iff)
  have s24: "Num 7167 / Num 100 = Num (5043327895213179 / 70368744177664)"
    using fl_eqI[of "7167 / 100" 46 "5043327895213179"] by (simp add: div_Num)
  have s25: "Num (8084586831078285 / 140737488355328) * Num 100 = Num (3158041730889955 / 549755813888)"
    using fl_eqI[of "202114670776957125 / 35184372088832" 40 "6316083461779910"] by (simp add: mul_Num)
  have s26: "Math_round (Num (3158041730889955 / 549755813888)) = Num 5744"
    by (simp add: Math_round_def floor_eq_iff)
  have s27: "Num 5744 / Num 100 = Num (1010495166391255 / 17592186044416)"
    using fl_eqI[of "1436 / 25" 47 "8083961331130040"] by (simp add: div_Num)
  have s28: "fl (5067 / 100) = Num (3565584267482235 / 70368744177664)"
    using fl_eqI[of "5067 / 100" 47 "7131168534964470"] by simp
  have s29: "fl (7167 / 100) = Num (5043327895213179 / 70368744177664)"
    using fl_eqI[of "7167 / 100" 46 "5043327895213179"] by simp
  have s30: "fl (1436 / 25) = Num (1010495166391255 / 17592186044416)"
    using fl_eqI[of "1436 / 25" 47 "8083961331130040"] by simp
  show ?thesis
    by (simp add: calculateOverallScores_def env_summary_of_carbon_def social_summary_of_def
        gov_summary_of_def Let_def roundToDecimal_def s1 s2 s3 s4 s5 s6 s7 s8 s9 s10 s11 s12 s13 s14 s15 s16 s17 s18 s19 s20 s21 s22 s23 s24 s25 s26 s27 s28 s29 s30)
qed

text \<open>
  C10. The total score is the rounded mean of the three clamped scores as they are before
  their own rounding; there are summaries for which it differs from the rounded mean of
  the three rounded scores returned with it (carbon 5000, diversity 40, no incidents,
  training 12, board independence 50, compliance 75, one breach: 57.44 against 57.45).
\<close>

theorem totalScore_before_rounding:
  "totalScore (calculateOverallScores e s g)
     = roundToDecimal
         ((Math_min (Num 100) (Math_max (Num 0)
             (Num 100 - (environmentalSummary.totalCarbonEmissions e / Num 10000) * Num 100))
           + Math_min (Num 100) (Math_max (Num 0) ((averageDiversityRatio s
               + (Num 100 - totalHealthAndSafetyIncidents s) + averageTrainingHours s) / Num 3))
           + Math_min (Num 100) (Math_max (Num 0) ((averageBoardIndependence g
               + complianceRate g + (Num 100 - totalDataBreaches g * Num 10)) / Num 3)))
          / Num 3) 2
   \<and> (\<exists>e' s' g'.
         totalScore (calculateOverallScores e' s' g')
           \<noteq> roundToDecimal
               ((environmentalScore (calculateOverallScores e' s' g')
                 + socialScore (calculateOverallScores e' s' g')
                 + governanceScore (calculateOverallScores e' s' g')) / Num 3) 2)"
proof
  show "totalScore (calculateOverallScores e s g)
     = roundToDecimal
         ((Math_min (Num 100) (Math_max (Num 0)
             (Num 100 - (environmentalSummary.totalCarbonEmissions e / Num 10000) * Num 100))
           + Math_min (Num 100) (Math_max (Num 0) ((averageDiversityRatio s
               + (Num 100 - totalHealthAndSafetyIncidents s) + averageTrainingHours s) / Num 3))
           + Math_min (Num 100) (Math_max (Num 0) ((averageBoardIndependence g
               + complianceRate g + (Num 100 - totalDataBreaches g * Num 10)) / Num 3)))
          / Num 3) 2"
    by (simp add: calculateOverallScores_def Let_def)
next
  have m1: "Num 50 + Num (3565584267482235 / 70368744177664) = Num (7084021476365435 / 70368744177664)"
    using fl_eqI[of "7084021476365435 / 70368744177664" 46 "7084021476365435"] by (simp add: add_Num)
  have m2: "Num (7084021476365435 / 70368744177664) + Num (5043327895213179 / 70368744177664) = Num (6063674685789307 / 35184372088832)"
    using fl_eqI[of "6063674685789307 / 35184372088832" 45 "6063674685789307"] by (simp add: add_Num)
  have m3: "Num (6063674685789307 / 35184372088832) / Num 3 = Num (8084899581052409 / 140737488355328)"
    using fl_eqI[of "6063674685789307 / 105553116266496" 47 "8084899581052409"] by (simp add: div_Num)
  have m4: "Num (8084899581052409 / 140737488355328) * Num 100 = Num (6316327797697195 / 1099511627776)"
    using fl_eqI[of "202122489526310225 / 35184372088832" 40 "6316327797697195"] by (simp add: mul_Num)
  have m5: "Math_round (Num (6316327797697195 / 1099511627776)) = Num 5745"
    by (simp add: Math_round_def floor_eq_iff)
  have m6: "Num 5745 / Num 100 = Num (4042684353006797 / 70368744177664)"
    using fl_eqI[of "1149 / 20" 47 "8085368706013594"] by (simp add: div_Num)
  have m7: "fl (1149 / 20) = Num (4042684353006797 / 70368744177664)"
    using fl_eqI[of "1149 / 20" 47 "8085368706013594"] by simp
  have m8: "fl (1436 / 25) = Num (1010495166391255 / 17592186044416)"
    using fl_eqI[of "1436 / 25" 47 "8083961331130040"] by simp
  have m9: "fl (5067 / 100) = Num (3565584267482235 / 70368744177664)"
    using fl_eqI[of "5067 / 100" 47 "7131168534964470"] by simp
  have m10: "fl (7167 / 100) = Num (5043327895213179 / 70368744177664)"
    using fl_eqI[of "7167 / 100" 46 "5043327895213179"] by simp
  have "roundToDecimal ((Num 50 + fl (5067 / 100) + fl (7167 / 100)) / Num 3) 2
      = fl (5745 / 100)"
    by (simp add: roundToDecimal_def m1 m2 m3 m4 m5 m6 m7 m8 m9 m10)
  moreover have "fl (5744 / 100) \<noteq> fl (5745 / 100)" by (simp add: m1 m2 m3 m4 m5 m6 m7 m8 m9 m10)
  ultimately have "totalScore (calculateOverallScores (env_summary_of_carbon (Num 5000))
              (social_summary_of (Num 40) (Num 0) (Num 12)) (gov_summary_of (Num 50) (Num 75) (Num 1)))
      \<noteq> roundToDecimal
          ((environmentalScore (calculateOverallScores (env_summary_of_carbon (Num 5000))
              (social_summary_of (Num 40) (Num 0) (Num 12)) (gov_summary_of (Num 50) (Num 75) (Num 1)))
            + socialScore (calculateOverallScores (env_summary_of_carbon (Num 5000))
              (social_summary_of (Num 40) (Num 0) (Num 12)) (gov_summary_of (Num 50) (Num 75) (Num 1)))
            + governanceScore (calculateOverallScores (env_summary_of_carbon (Num 5000))
              (social_summary_of (Num 40) (Num 0) (Num 12)) (gov_summary_of (Num 50) (Num 75) (Num 1)))) / Num 3) 2"
    unfolding sample_scores by simp
  then show "\<exists>e' s' g'.
         totalScore (calculateOverallScores e' s' g')
           \<noteq> roundToDecimal
               ((environmentalScore (calculateOverallScores e' s' g')
                 + socialScore (calculateOverallScores e' s' g')
                 + governanceScore (calculateOverallScores e' s' g')) / Num 3) 2"
    by blast
qed

section \<open>Rounding to two decimals\<close>

lemma roundToDecimal_rounded: "rounded_2dp v (roundToDecimal v 2)"
proof (cases v)
  case (Num q)
  show ?thesis
  proof (cases "\<bar>q\<bar> \<le> 2 ^ 40")
    case True
    from roundToDecimal_near[OF True] obtain r where
      "roundToDecimal (Num q) 2 = Num r" "two_decimals (Num r)"
      "\<bar>r - q\<bar> \<le> 1 / 200 + (\<bar>q\<bar> + 1) / 2 ^ 51" by blast
    then show ?thesis by (simp add: rounded_2dp_def Num)
  next
    case False
    then show ?thesis by (simp add: rounded_2dp_def Num)
  qed
next
  case PosInf
  show ?thesis
    by (simp add: PosInf rounded_2dp_def roundToDecimal_def times_number_def divide_number_def
        Math_round_def infinity_def sign_def)
next
  case NegInf
  show ?thesis
    by (simp add: NegInf rounded_2dp_def roundToDecimal_def times_number_def divide_number_def
        Math_round_def infinity_def sign_def uminus_number_def)
next
  case NaN
  show ?thesis
    by (simp add: NaN rounded_2dp_def roundToDecimal_def times_number_def divide_number_def
        Math_round_def)
qed

lemma num_or0_Num [simp]: "num_or0 (Num x) = Num x"
  by (simp add: num_or0_def falsy_def)

section \<open>The environmental aggregate\<close>

lemma foldl_env_step:
  "foldl env_step acc rs =
     \<lparr>scope1 = foldl (+) (scope1 acc) (env_values scope1Emissions rs),
      scope2 = foldl (+) (scope2 acc) (env_values scope2Emissions rs),
      scope3 = foldl (+) (scope3 acc) (env_values scope3Emissions rs),
      renewableEnergy = foldl (+) (renewableEnergy acc) (env_values renewableEnergyPercentage rs),
      energyConsumptionT = foldl (+) (energyConsumptionT acc) (env_values energyConsumption rs),
      waterUsageT = foldl (+) (waterUsageT acc) (env_values waterUsage rs),
      wasteGeneratedT = foldl (+) (wasteGeneratedT acc) (env_values wasteGenerated rs),
      wasteRecycledT = foldl (+) (wasteRecycledT acc) (env_values wasteRecycled rs)\<rparr>"
proof (induction rs arbitrary: acc)
  case Nil
  show ?case by (simp add: env_values_def)
next
  case (Cons r rs)
  show ?case
    unfolding foldl_Cons Cons.IH
    by (simp add: env_step_def env_values_def Let_def)
qed

lemma running_sum_zeros:
  assumes "\<forall>v\<in>set vs. v = Num 0"
  shows "running_sum vs = Num 0"
proof -
  have "foldl (+) (Num 0) vs = Num 0" using assms
    by (induction vs) (simp_all add: add_Num)
  then show ?thesis by (simp add: running_sum_def)
qed

lemma environmental_totals:
  assumes "records \<noteq> []"
  shows "aggregateEnvironmentalMetrics records =
     \<lparr>totalScope1Emissions = roundToDecimal (running_sum (env_values scope1Emissions records)) 2,
      totalScope2Emissions = roundToDecimal (running_sum (env_values scope2Emissions records)) 2,
      totalScope3Emissions = roundToDecimal (running_sum (env_values scope3Emissions records)) 2,
      environmentalSummary.totalCarbonEmissions =
        roundToDecimal
          (num_or0 (running_sum (env_values scope1Emissions records))
           + num_or0 (running_sum (env_values scope2Emissions records))
           + num_or0 (running_sum (env_values scope3Emissions records))) 2,
      averageRenewableEnergyPercentage =
        roundToDecimal
          (running_sum (env_values renewableEnergyPercentage records)
           / Num (of_nat (length records))) 2,
      totalEnergyConsumption =
        roundToDecimal (running_sum (env_values energyConsumption records)) 2,
      totalWaterUsage = roundToDecimal (running_sum (env_values waterUsage records)) 2,
      wasteRecyclingRate =
        (if running_sum (env_values wasteGenerated records) = Num 0
            \<or> running_sum (env_values wasteGenerated records) = NaN
         then Num 0
         else roundToDecimal
                ((num_or0 (running_sum (env_values wasteRecycled records))
                  / running_sum (env_values wasteGenerated records)) * Num 100) 2)\<rparr>"
  using assms
  by (simp add: aggregateEnvironmentalMetrics_def Let_def foldl_env_step env_totals0_def
      running_sum_def calculateTotalEmissions_def calculateWasteRecyclingRate_def
      calculatePercentage_def falsy_def)

lemma sample_environmental_values:
  "env_values scope1Emissions emission_samples = [fl (255 / 1000), fl (31 / 100)]"
  "env_values scope2Emissions emission_samples = [Num 0, Num 0]"
  "env_values scope3Emissions emission_samples = [Num 0, Num 0]"
  "env_values renewableEnergyPercentage emission_samples = [Num 0, Num 0]"
  "env_values energyConsumption emission_samples = [Num 0, Num 0]"
  "env_values waterUsage emission_samples = [Num 0, Num 0]"
  "env_values wasteGenerated emission_samples = [Num 160, Num 0]"
  "env_values wasteRecycled emission_samples = [Num 23, Num 0]"
proof -
  have a1: "fl (51 / 200) = Num (2296835809958953 / 9007199254740992)"
    using fl_eqI[of "51 / 200" 54 "4593671619917906"] by simp
  have a2: "fl (31 / 100) = Num (5584463537939415 / 18014398509481984)"
    using fl_eqI[of "31 / 100" 54 "5584463537939415"] by simp
  have a3: "Num 0 + Num (2296835809958953 / 9007199254740992) = Num (2296835809958953 / 9007199254740992)"
    using fl_eqI[of "2296835809958953 / 9007199254740992" 54 "4593671619917906"] by (simp add: add_Num)
  have a4: "Num (2296835809958953 / 9007199254740992) + Num (5584463537939415 / 18014398509481984) = Num (1272266894732165 / 2251799813685248)"
    using fl_eqI[of "10178135157857321 / 18014398509481984" 53 "5089067578928660"] by (simp add: add_Num)
  have a5: "Num 0 + Num 0 = Num 0"
    by (simp add: add_Num)
  have a6: "Num 0 + Num 160 = Num 160"
    using fl_eqI[of "160" 45 "5629499534213120"] by (simp add: add_Num)
  have a7: "Num 160 + Num 0 = Num 160"
    using fl_eqI[of "160" 45 "5629499534213120"] by (simp add: add_Num)
  have a8: "Num 0 + Num 23 = Num 23"
    using fl_eqI[of "23" 48 "6473924464345088"] by (simp add: add_Num)
  have a9: "Num 23 + Num 0 = Num 23"
    using fl_eqI[of "23" 48 "6473924464345088"] by (simp add: add_Num)
  have a10: "Num (1272266894732165 / 2251799813685248) * Num 100 = Num (7951668092076031 / 140737488355328)"
    using fl_eqI[of "31806672368304125 / 562949953421312" 47 "7951668092076031"] by (simp add: mul_Num)
  have a11: "Math_round (Num (7951668092076031 / 140737488355328)) = Num 56"
    by (simp add: Math_round_def floor_eq_iff)
  have a12: "Num 56 / Num 100 = Num (1261007895663739 / 2251799813685248)"
    using fl_eqI[of "14 / 25" 53 "5044031582654956"] by (simp add: div_Num)
  have a13: "Num (1272266894732165 / 2251799813685248) + Num 0 = Num (1272266894732165 / 2251799813685248)"
    using fl_eqI[of "1272266894732165 / 2251799813685248" 53 "5089067578928660"] by (simp add: add_Num)
  have a14: "Num 0 * Num 100 = Num 0"
    by (simp add: mul_Num)
  have a15: "Math_round (Num 0) = Num 0"
    by (simp add: Math_round_def floor_eq_iff)
  have a16: "Num 0 / Num 100 = Num 0"
    by (simp add: div_Num)
  have a17: "Num 0 / Num 2 = Num 0"
    by (simp add: div_Num)
  have a18: "Num 23 / Num 160 = Num (2589569785738035 / 18014398509481984)"
    using fl_eqI[of "23 / 160" 55 "5179139571476070"] by (simp add: div_Num)
  have a19: "Num (2589569785738035 / 18014398509481984) * Num 100 = Num (8092405580431359 / 562949953421312)"
    using fl_eqI[of "64739244643450875 / 4503599627370496" 49 "8092405580431359"] by (simp add: mul_Num)
  have a20: "Num (8092405580431359 / 562949953421312) * Num 100 = Num (6322191859711999 / 4398046511104)"
    using fl_eqI[of "202310139510783975 / 140737488355328" 42 "6322191859711999"] by (simp add: mul_Num)
  have a21: "Math_round (Num (6322191859711999 / 4398046511104)) = Num 1437"
    by (simp add: Math_round_def floor_eq_iff)
  have a22: "Num 1437 / Num 100 = Num (8089590830664253 / 562949953421312)"
    using fl_eqI[of "1437 / 100" 49 "8089590830664253"] by (simp add: div_Num)
  have a23: "fl (14 / 25) = Num (1261007895663739 / 2251799813685248)"
    using fl_eqI[of "14 / 25" 53 "5044031582654956"] by simp
  have a24: "fl (57 / 100) = Num (5134103575202365 / 9007199254740992)"
    using fl_eqI[of "57 / 100" 53 "5134103575202365"] by simp
  have a25: "fl (1437 / 100) = Num (8089590830664253 / 562949953421312)"
    using fl_eqI[of "1437 / 100" 49 "8089590830664253"] by simp
  have a26: "fl (719 / 50) = Num (8095220330198467 / 562949953421312)"
    using fl_eqI[of "719 / 50" 49 "8095220330198467"] by simp
  show "env_values scope1Emissions emission_samples = [fl (255 / 1000), fl (31 / 100)]"
    by (simp add: env_values_def emission_samples_def emitting_def sample_record_def env_of_def
        empty_environmental_def a1 a2)
qed (simp_all add: env_values_def emission_samples_def emitting_def sample_record_def
    env_of_def empty_environmental_def)

lemma sample_environmental_summary:
  "aggregateEnvironmentalMetrics emission_samples =
     \<lparr>totalScope1Emissions = fl (56 / 100), totalScope2Emissions = Num 0,
      totalScope3Emissions = Num 0, environmentalSummary.totalCarbonEmissions = fl (56 / 100),
      averageRenewableEnergyPercentage = Num 0, totalEnergyConsumption = Num 0,
      totalWaterUsage = Num 0, wasteRecyclingRate = fl (1437 / 100)\<rparr>"
proof -
  have a1: "fl (51 / 200) = Num (2296835809958953 / 9007199254740992)"
    using fl_eqI[of "51 / 200" 54 "4593671619917906"] by simp
  have a2: "fl (31 / 100) = Num (5584463537939415 / 18014398509481984)"
    using fl_eqI[of "31 / 100" 54 "5584463537939415"] by simp
  have a3: "Num 0 + Num (2296835809958953 / 9007199254740992) = Num (2296835809958953 / 9007199254740992)"
    using fl_eqI[of "2296835809958953 / 9007199254740992" 54 "4593671619917906"] by (simp add: add_Num)
  have a4: "Num (2296835809958953 / 9007199254740992) + Num (5584463537939415 / 18014398509481984) = Num (1272266894732165 / 2251799813685248)"
    using fl_eqI[of "10178135157857321 / 18014398509481984" 53 "5089067578928660"] by (simp add: add_Num)
  have a5: "Num 0 + Num 0 = Num 0"
    by (simp add: add_Num)
  have a6: "Num 0 + Num 160 = Num 160"
    using fl_eqI[of "160" 45 "5629499534213120"] by (simp add: add_Num)
  have a7: "Num 160 + Num 0 = Num 160"
    using fl_eqI[of "160" 45 "5629499534213120"] by (simp add: add_Num)
  have a8: "Num 0 + Num 23 = Num 23"
    using fl_eqI[of "23" 48 "6473924464345088"] by (simp add: add_Num)
  have a9: "Num 23 + Num 0 = Num 23"
    using fl_eqI[of "23" 48 "6473924464345088"] by (simp add: add_Num)
  have a10: "Num (1272266894732165 / 2251799813685248) * Num 100 = Num (7951668092076031 / 140737488355328)"
    using fl_eqI[of "31806672368304125 / 562949953421312" 47 "7951668092076031"] by (simp add: mul_Num)
  have a11: "Math_round (Num (7951668092076031 / 140737488355328)) = Num 56"
    by (simp add: Math_round_def floor_eq_iff)
  have a12: "Num 56 / Num 100 = Num (1261007895663739 / 2251799813685248)"
    using fl_eqI[of "14 / 25" 53 "5044031582654956"] by (simp add: div_Num)
  have a13: "Num (1272266894732165 / 2251799813685248) + Num 0 = Num (1272266894732165 / 2251799813685248)"
    using fl_eqI[of "1272266894732165 / 2251799813685248" 53 "5089067578928660"] by (simp add: add_Num)
  have a14: "Num 0 * Num 100 = Num 0"
    by (simp add: mul_Num)
  have a15: "Math_round (Num 0) = Num 0"
    by (simp add: Math_round_def floor_eq_iff)
  have a16: "Num 0 / Num 100 = Num 0"
    by (simp add: div_Num)
  have a17: "Num 0 / Num 2 = Num 0"
    by (simp add: div_Num)
  have a18: "Num 23 / Num 160 = Num (2589569785738035 / 18014398509481984)"
    using fl_eqI[of "23 / 160" 55 "5179139571476070"] by (simp add: div_Num)
  have a19: "Num (2589569785738035 / 18014398509481984) * Num 100 = Num (8092405580431359 / 562949953421312)"
    using fl_eqI[of "64739244643450875 / 4503599627370496" 49 "8092405580431359"] by (simp add: mul_Num)
  have a20: "Num (8092405580431359 / 562949953421312) * Num 100 = Num (6322191859711999 / 4398046511104)"
    using fl_eqI[of "202310139510783975 / 140737488355328" 42 "6322191859711999"] by (simp add: mul_Num)
  have a21: "Math_round (Num (6322191859711999 / 4398046511104)) = Num 1437"
    by (simp add: Math_round_def floor_eq_iff)
  have a22: "Num 1437 / Num 100 = Num (8089590830664253 / 562949953421312)"
    using fl_eqI[of "1437 / 100" 49 "8089590830664253"] by (simp add: div_Num)
  have a23: "fl (14 / 25) = Num (1261007895663739 / 2251799813685248)"
    using fl_eqI[of "14 / 25" 53 "5044031582654956"] by simp
  have a24: "fl (57 / 100) = Num (5134103575202365 / 9007199254740992)"
    using fl_eqI[of "57 / 100" 53 "5134103575202365"] by simp
  have a25: "fl (1437 / 100) = Num (8089590830664253 / 562949953421312)"
    using fl_eqI[of "1437 / 100" 49 "8089590830664253"] by simp
  have a26: "fl (719 / 50) = Num (8095220330198467 / 562949953421312)"
    using fl_eqI[of "719 / 50" 49 "8095220330198467"] by simp
  have ne: "emission_samples \<noteq> []" by (simp add: emission_samples_def)
  have len: "length emission_samples = 2" by (simp add: emission_samples_def)
  show ?thesis
    unfolding environmental_totals[OF ne] sample_environmental_values len
    by (simp add: running_sum_def roundToDecimal_def a1 a2 a3 a4 a5 a6 a7 a8 a9 a10 a11 a12 a13 a14 a15 a16 a17 a18 a19 a20 a21 a22 a23 a24 a25 a26)
qed

text \<open>
  C1, as the code has it. For a non-empty list of records, every total is the running
  binary64 sum of the field over the records (from 0, in the order of the list, an absent,
  zero or \<^verbatim>\<open>NaN\<close> field counting 0) handed to \<open>roundToDecimal\<close>; the total of the
  carbon emissions is the rounded sum of the three unrounded totals; the average of the
  renewable energy is the rounded quotient of the running sum by the count; the recycling
  rate is 0 when the summed waste is 0 or \<^verbatim>\<open>NaN\<close> and otherwise the rounded product of
  the quotient recycled by generated with 100, so 0 when no record has generated waste.
  Every rounded output of a finite value of
  magnitude up to \<open>2 ^ 40\<close> is a number with two decimals within
  \<open>1 / 200 + (\<bar>v\<bar> + 1) / 2 ^ 51\<close> of the value \<open>v\<close> that was rounded.
\<close>

theorem aggregateEnvironmentalMetrics_running_sums:
  assumes "records \<noteq> []"
  shows
    "(let s1 = running_sum (env_values scope1Emissions records);
          s2 = running_sum (env_values scope2Emissions records);
          s3 = running_sum (env_values scope3Emissions records);
          carbon = num_or0 s1 + num_or0 s2 + num_or0 s3;
          renewable = running_sum (env_values renewableEnergyPercentage records)
                        / Num (of_nat (length records));
          energy = running_sum (env_values energyConsumption records);
          water = running_sum (env_values waterUsage records);
          generated = running_sum (env_values wasteGenerated records);
          recycled = running_sum (env_values wasteRecycled records);
          rate = (num_or0 recycled / generated) * Num 100;
          out = aggregateEnvironmentalMetrics records
      in (totalScope1Emissions out = roundToDecimal s1 2
            \<and> rounded_2dp s1 (totalScope1Emissions out))
         \<and> (totalScope2Emissions out = roundToDecimal s2 2
            \<and> rounded_2dp s2 (totalScope2Emissions out))
         \<and> (totalScope3Emissions out = roundToDecimal s3 2
            \<and> rounded_2dp s3 (totalScope3Emissions out))
         \<and> (environmentalSummary.totalCarbonEmissions out = roundToDecimal carbon 2
            \<and> rounded_2dp carbon (environmentalSummary.totalCarbonEmissions out))
         \<and> (averageRenewableEnergyPercentage out = roundToDecimal renewable 2
            \<and> rounded_2dp renewable (averageRenewableEnergyPercentage out))
         \<and> (totalEnergyConsumption out = roundToDecimal energy 2
            \<and> rounded_2dp energy (totalEnergyConsumption out))
         \<and> (totalWaterUsage out = roundToDecimal water 2
            \<and> rounded_2dp water (totalWaterUsage out))
         \<and> (generated = Num 0 \<or> generated = NaN \<longrightarrow> wasteRecyclingRate out = Num 0)
         \<and> (generated \<noteq> Num 0 \<and> generated \<noteq> NaN \<longrightarrow>
               wasteRecyclingRate out = roundToDecimal rate 2
               \<and> rounded_2dp rate (wasteRecyclingRate out))
         \<and> ((\<forall>r\<in>set records. or0 (wasteGenerated (env_of r)) = Num 0) \<longrightarrow>
               wasteRecyclingRate out = Num 0))"
proof -
  have "running_sum (env_values wasteGenerated records) = Num 0"
    if "\<forall>r\<in>set records. or0 (wasteGenerated (env_of r)) = Num 0"
    using that by (intro running_sum_zeros) (simp add: env_values_def)
  then show ?thesis
    unfolding environmental_totals[OF assms]
    by (simp add: Let_def roundToDecimal_rounded)
qed

theorem aggregateEnvironmentalMetrics_running_sums_witness:
  "emission_samples \<noteq> []
   \<and> totalScope1Emissions (aggregateEnvironmentalMetrics emission_samples) = fl (56 / 100)
   \<and> rounded_2dp (running_sum [fl (255 / 1000), fl (31 / 100)]) (fl (56 / 100))
   \<and> environmentalSummary.totalCarbonEmissions (aggregateEnvironmentalMetrics emission_samples)
       = fl (56 / 100)
   \<and> totalScope2Emissions (aggregateEnvironmentalMetrics emission_samples) = Num 0
   \<and> rounded_2dp (Num 0) (Num 0)
   \<and> wasteRecyclingRate (aggregateEnvironmentalMetrics emission_samples) = fl (1437 / 100)
   \<and> rounded_2dp ((Num 23 / Num 160) * Num 100) (fl (1437 / 100))
   \<and> wasteless_samples \<noteq> []
   \<and> list_all (\<lambda>r. or0 (wasteGenerated (env_of r)) = Num 0) wasteless_samples
   \<and> wasteRecyclingRate (aggregateEnvironmentalMetrics wasteless_samples) = Num 0"
proof -
  have b1: "Num 0 + Num 0 = Num 0"
    by (simp add: add_Num)
  have b2: "Num 0 + Num 160 = Num 160"
    using fl_eqI[of "160" 45 "5629499534213120"] by (simp add: add_Num)
  have b3: "Num 160 + Num 0 = Num 160"
    using fl_eqI[of "160" 45 "5629499534213120"] by (simp add: add_Num)
  have b4: "Num 0 + Num 23 = Num 23"
    using fl_eqI[of "23" 48 "6473924464345088"] by (simp add: add_Num)
  have b5: "Num 23 + Num 0 = Num 23"
    using fl_eqI[of "23" 48 "6473924464345088"] by (simp add: add_Num)
  let ?out = "aggregateEnvironmentalMetrics emission_samples"
  have ne: "emission_samples \<noteq> []" by (simp add: emission_samples_def)
  note t = aggregateEnvironmentalMetrics_running_sums[OF ne, unfolded Let_def]
  have sums: "running_sum [Num 0, Num 0] = Num 0" "running_sum [Num 160, Num 0] = Num 160"
    "running_sum [Num 23, Num 0] = Num 23"
    by (simp_all add: running_sum_def b1 b2 b3 b4 b5)
  have g: "running_sum (env_values wasteGenerated emission_samples) \<noteq> Num 0"
    "running_sum (env_values wasteGenerated emission_samples) \<noteq> NaN"
    by (simp_all add: sample_environmental_values sums)
  have o1: "totalScope1Emissions ?out = fl (56 / 100)"
    and o2: "totalScope2Emissions ?out = Num 0"
    and o3: "environmentalSummary.totalCarbonEmissions ?out = fl (56 / 100)"
    and o4: "wasteRecyclingRate ?out = fl (1437 / 100)"
    by (simp_all only: sample_environmental_summary environmentalSummary.select_convs)
  from t have "rounded_2dp (running_sum (env_values scope1Emissions emission_samples))
      (totalScope1Emissions ?out)" by blast
  then have w1: "rounded_2dp (running_sum [fl (255 / 1000), fl (31 / 100)]) (fl (56 / 100))"
    by (simp only: sample_environmental_values o1)
  from t have "rounded_2dp (running_sum (env_values scope2Emissions emission_samples))
      (totalScope2Emissions ?out)" by blast
  then have w2: "rounded_2dp (Num 0) (Num 0)"
    by (simp only: sample_environmental_values o2 sums)
  from t g have "rounded_2dp
      ((num_or0 (running_sum (env_values wasteRecycled emission_samples))
        / running_sum (env_values wasteGenerated emission_samples)) * Num 100)
      (wasteRecyclingRate ?out)" by blast
  then have w3: "rounded_2dp ((Num 23 / Num 160) * Num 100) (fl (1437 / 100))"
    by (simp only: sample_environmental_values o4 sums num_or0_Num)
  have ne': "wasteless_samples \<noteq> []" by (simp add: wasteless_samples_def)
  have z: "list_all (\<lambda>r. or0 (wasteGenerated (env_of r)) = Num 0) wasteless_samples"
    by (simp add: wasteless_samples_def emitting_def sample_record_def env_of_def
        empty_environmental_def)
  then have "\<forall>r\<in>set wasteless_samples. or0 (wasteGenerated (env_of r)) = Num 0"
    by (simp only: list_all_iff)
  with aggregateEnvironmentalMetrics_running_sums[OF ne', unfolded Let_def]
  have w4: "wasteRecyclingRate (aggregateEnvironmentalMetrics wasteless_samples) = Num 0"
    by blast
  show ?thesis using ne o1 o2 o3 o4 w1 w2 w3 ne' z w4 by blast
qed

text \<open>
  C1 as the specification states it does not hold: the outputs are not the exact sums
  rounded to two decimals. For two records with scope 1 emissions 0.255 and 0.31 the exact
  sum of the two stored values lies above 0.565, so that 0.57 is the hundredth nearest to
  it and 0.56 lies more than a half of a hundredth away; the total returned is 0.56. For
  waste 160 of which 23 recycled the rate is 14.375 and the rate returned is 14.37, where
  \<^verbatim>\<open>Math.round\<close> on the exact value, a tie going up, gives 14.38.
\<close>

theorem aggregateEnvironmentalMetrics_not_the_rounded_sum:
  "totalScope1Emissions (aggregateEnvironmentalMetrics emission_samples) = fl (56 / 100)
   \<and> env_values scope1Emissions emission_samples
       = [Num (2296835809958953 / 9007199254740992),
          Num (5584463537939415 / 18014398509481984)]
   \<and> \<bar>57 / 100
        - (2296835809958953 / 9007199254740992
           + 5584463537939415 / 18014398509481984)\<bar> < (1 / 200 :: rat)
   \<and> (1 / 200 :: rat)
       < \<bar>56 / 100
          - (2296835809958953 / 9007199254740992
             + 5584463537939415 / 18014398509481984)\<bar>
   \<and> fl (56 / 100) \<noteq> fl (57 / 100)
   \<and> wasteRecyclingRate (aggregateEnvironmentalMetrics emission_samples) = fl (1437 / 100)
   \<and> of_int \<lfloor>(23 / 160 * 100 :: rat) * 100 + 1 / 2\<rfloor> / 100 = (1438 / 100 :: rat)
   \<and> fl (1437 / 100) \<noteq> fl (1438 / 100)"
proof -
  have c1: "fl (51 / 200) = Num (2296835809958953 / 9007199254740992)"
    using fl_eqI[of "51 / 200" 54 "4593671619917906"] by simp
  have c2: "fl (31 / 100) = Num (5584463537939415 / 18014398509481984)"
    using fl_eqI[of "31 / 100" 54 "5584463537939415"] by simp
  have c3: "fl (14 / 25) = Num (1261007895663739 / 2251799813685248)"
    using fl_eqI[of "14 / 25" 53 "5044031582654956"] by simp
  have c4: "fl (57 / 100) = Num (5134103575202365 / 9007199254740992)"
    using fl_eqI[of "57 / 100" 53 "5134103575202365"] by simp
  have c5: "fl (1437 / 100) = Num (8089590830664253 / 562949953421312)"
    using fl_eqI[of "1437 / 100" 49 "8089590830664253"] by simp
  have c6: "fl (719 / 50) = Num (8095220330198467 / 562949953421312)"
    using fl_eqI[of "719 / 50" 49 "8095220330198467"] by simp
  have "of_int \<lfloor>(23 / 160 * 100 :: rat) * 100 + 1 / 2\<rfloor> / 100 = (1438 / 100 :: rat)"
    by (simp add: floor_eq_iff)
  then show ?thesis
    unfolding sample_environmental_summary sample_environmental_values by (simp add: c1 c2 c3 c4 c5 c6)
qed

section \<open>The range of the scores\<close>

lemma clamp_eq: "Math_min (Num 100) (Math_max (Num 0) x) = clamp x"
  by (cases x) (simp_all add: clamp_def Math_min_def Math_max_def min.commute)

lemma clamp_range:
  assumes "x \<noteq> NaN"
  shows "\<exists>r. clamp x = Num r \<and> 0 \<le> r \<and> r \<le> 100"
  using assms by (cases x) (simp_all add: clamp_def)

lemma roundToDecimal_range:
  assumes "0 \<le> r" and "r \<le> 100"
  shows "\<exists>q. roundToDecimal (Num r) 2 = Num q \<and> 0 \<le> q \<and> q \<le> 100"
proof -
  have b1: "round64 10000 = 10000" using round64_of_int[of 10000] by simp
  have b2: "round64 100 = 100" using round64_of_int[of 100] by simp
  have small: "(10000::rat) \<le> 2 ^ 1000" "(100::rat) \<le> 2 ^ 1000"
  proof -
    have "(10000::rat) \<le> 2 ^ 14" by simp
    also have "(2::rat) ^ 14 \<le> 2 ^ 1000" by (rule power_increasing) simp_all
    finally show "(10000::rat) \<le> 2 ^ 1000" .
    then show "(100::rat) \<le> 2 ^ 1000" by simp
  qed
  have "0 \<le> r * 100" "r * 100 \<le> 10000" using assms by simp_all
  from fl_range[OF this b1 small(1)] obtain p where
    p: "fl (r * 100) = Num p" "0 \<le> p" "p \<le> 10000" by blast
  define k where "k = \<lfloor>p + 1 / 2\<rfloor>"
  have "0 \<le> k" unfolding k_def using p(2) by simp
  moreover have "k \<le> 10000" unfolding k_def using p(3) by (simp add: floor_le_iff)
  ultimately have "0 \<le> (of_int k :: rat) / 100" "(of_int k :: rat) / 100 \<le> 100" by simp_all
  from fl_range[OF this b2 small(2)] obtain q where
    q: "fl (of_int k / 100) = Num q" "0 \<le> q" "q \<le> 100" by blast
  have "roundToDecimal (Num r) 2 = Num q" by (simp add: roundToDecimal_Num p(1) k_def[symmetric] q(1))
  then show ?thesis using q by blast
qed

lemma mean_range:
  assumes "0 \<le> a" "a \<le> 100" "0 \<le> b" "b \<le> 100" "0 \<le> c" "c \<le> 100"
  shows "\<exists>m. (Num a + Num b + Num c) / Num 3 = Num m \<and> 0 \<le> m \<and> m \<le> 100"
proof -
  have b1: "round64 200 = 200" using round64_of_int[of 200] by simp
  have b2: "round64 300 = 300" using round64_of_int[of 300] by simp
  have b3: "round64 100 = 100" using round64_of_int[of 100] by simp
  have big: "(512::rat) \<le> 2 ^ 1000"
  proof -
    have "(512::rat) = 2 ^ 9" by simp
    also have "(2::rat) ^ 9 \<le> 2 ^ 1000" by (rule power_increasing) simp_all
    finally show ?thesis .
  qed
  have small: "(200::rat) \<le> 2 ^ 1000" "(300::rat) \<le> 2 ^ 1000" "(100::rat) \<le> 2 ^ 1000"
    using big by simp_all
  have "0 \<le> a + b" "a + b \<le> 200" using assms by simp_all
  from fl_range[OF this b1 small(1)] obtain x where
    x: "fl (a + b) = Num x" "0 \<le> x" "x \<le> 200" by blast
  have "0 \<le> x + c" "x + c \<le> 300" using x assms by simp_all
  from fl_range[OF this b2 small(2)] obtain y where
    y: "fl (x + c) = Num y" "0 \<le> y" "y \<le> 300" by blast
  have "0 \<le> y / 3" "y / 3 \<le> 100" using y by simp_all
  from fl_range[OF this b3 small(3)] obtain m where
    m: "fl (y / 3) = Num m" "0 \<le> m" "m \<le> 100" by blast
  have "(Num a + Num b + Num c) / Num 3 = Num m"
    by (simp add: add_Num x(1) y(1) div_Num m(1))
  then show ?thesis using m by blast
qed

lemma score_in_range_clamped:
  assumes "x \<noteq> NaN"
  shows "score_in_range (roundToDecimal (clamp x) 2)"
proof -
  from clamp_range[OF assms] obtain r where r: "clamp x = Num r" "0 \<le> r" "r \<le> 100" by blast
  from roundToDecimal_range[OF r(2,3)] obtain q where
    "roundToDecimal (Num r) 2 = Num q" "0 \<le> q" "q \<le> 100" by blast
  then show ?thesis by (simp add: r(1) score_in_range_def)
qed

lemma score_in_range_mean:
  assumes "x \<noteq> NaN" "y \<noteq> NaN" "z \<noteq> NaN"
  shows "score_in_range (roundToDecimal ((clamp x + clamp y + clamp z) / Num 3) 2)"
proof -
  from clamp_range[OF assms(1)] obtain a where a: "clamp x = Num a" "0 \<le> a" "a \<le> 100" by blast
  from clamp_range[OF assms(2)] obtain b where b: "clamp y = Num b" "0 \<le> b" "b \<le> 100" by blast
  from clamp_range[OF assms(3)] obtain c where c: "clamp z = Num c" "0 \<le> c" "c \<le> 100" by blast
  from mean_range[OF a(2,3) b(2,3) c(2,3)] obtain m where
    m: "(Num a + Num b + Num c) / Num 3 = Num m" "0 \<le> m" "m \<le> 100" by blast
  from roundToDecimal_range[OF m(2,3)] obtain q where
    "roundToDecimal (Num m) 2 = Num q" "0 \<le> q" "q \<le> 100" by blast
  then show ?thesis by (simp add: a(1) b(1) c(1) m(1) score_in_range_def)
qed

lemma NaN_propagates [simp]:
  "NaN + x = NaN" "x + NaN = NaN" "NaN / x = NaN" "NaN * x = NaN" "clamp NaN = NaN"
  "roundToDecimal NaN 2 = NaN"
  by (simp_all add: plus_number_def divide_number_def times_number_def clamp_def
      roundToDecimal_def Math_round_def split: number.splits)

lemma overall_scores:
  "calculateOverallScores e s g =
     \<lparr>environmentalScore =
        roundToDecimal
          (clamp (Num 100 - (environmentalSummary.totalCarbonEmissions e / Num 10000) * Num 100))
          2,
      socialScore =
        roundToDecimal
          (clamp ((averageDiversityRatio s + (Num 100 - totalHealthAndSafetyIncidents s)
                   + averageTrainingHours s) / Num 3)) 2,
      governanceScore =
        roundToDecimal
          (clamp ((averageBoardIndependence g + complianceRate g
                   + (Num 100 - totalDataBreaches g * Num 10)) / Num 3)) 2,
      totalScore =
        roundToDecimal
          ((clamp (Num 100
                   - (environmentalSummary.totalCarbonEmissions e / Num 10000) * Num 100)
            + clamp ((averageDiversityRatio s + (Num 100 - totalHealthAndSafetyIncidents s)
                      + averageTrainingHours s) / Num 3)
            + clamp ((averageBoardIndependence g + complianceRate g
                      + (Num 100 - totalDataBreaches g * Num 10)) / Num 3)) / Num 3) 2\<rparr>"
  by (simp add: calculateOverallScores_def Let_def clamp_eq)

text \<open>
  C2, as the code has it. With every operation a binary64 one, the environmental score is
  the clamp of \<open>100 - (carbon / 10000) * 100\<close>, the social score the clamp of
  \<open>(diversity + (100 - incidents) + training) / 3\<close>, the governance score the clamp of
  \<open>(independence + compliance + (100 - breaches * 10)) / 3\<close>, each then handed to
  \<open>roundToDecimal\<close>, and the total score is \<open>roundToDecimal\<close> of the mean of the three
  clamped scores before their rounding, not clamped again. Every rounded output of a value
  \<open>v\<close> other than \<^verbatim>\<open>NaN\<close> is a number with two decimals within
  \<open>1 / 200 + (\<bar>v\<bar> + 1) / 2 ^ 51\<close> of \<open>v\<close>. A score lies between 0 and 100 when its
  unclamped value is not \<^verbatim>\<open>NaN\<close>, and is \<^verbatim>\<open>NaN\<close> otherwise; the total score lies
  between 0 and 100 when none of the three is \<^verbatim>\<open>NaN\<close>, and is \<^verbatim>\<open>NaN\<close> otherwise.
\<close>

theorem calculateOverallScores_clamped_and_rounded:
  "(let e0 = Num 100 - (environmentalSummary.totalCarbonEmissions e / Num 10000) * Num 100;
        s0 = (averageDiversityRatio s + (Num 100 - totalHealthAndSafetyIncidents s)
              + averageTrainingHours s) / Num 3;
        g0 = (averageBoardIndependence g + complianceRate g
              + (Num 100 - totalDataBreaches g * Num 10)) / Num 3;
        m = (clamp e0 + clamp s0 + clamp g0) / Num 3;
        out = calculateOverallScores e s g
    in (environmentalScore out = roundToDecimal (clamp e0) 2
          \<and> rounded_2dp (clamp e0) (environmentalScore out))
       \<and> (socialScore out = roundToDecimal (clamp s0) 2
          \<and> rounded_2dp (clamp s0) (socialScore out))
       \<and> (governanceScore out = roundToDecimal (clamp g0) 2
          \<and> rounded_2dp (clamp g0) (governanceScore out))
       \<and> (totalScore out = roundToDecimal m 2 \<and> rounded_2dp m (totalScore out))
       \<and> (e0 \<noteq> NaN \<longrightarrow> score_in_range (environmentalScore out))
       \<and> (s0 \<noteq> NaN \<longrightarrow> score_in_range (socialScore out))
       \<and> (g0 \<noteq> NaN \<longrightarrow> score_in_range (governanceScore out))
       \<and> (e0 \<noteq> NaN \<and> s0 \<noteq> NaN \<and> g0 \<noteq> NaN \<longrightarrow> score_in_range (totalScore out))
       \<and> (e0 = NaN \<longrightarrow> environmentalScore out = NaN \<and> totalScore out = NaN)
       \<and> (s0 = NaN \<longrightarrow> socialScore out = NaN \<and> totalScore out = NaN)
       \<and> (g0 = NaN \<longrightarrow> governanceScore out = NaN \<and> totalScore out = NaN))"
  unfolding overall_scores Let_def
  by (simp add: roundToDecimal_rounded score_in_range_clamped score_in_range_mean)

lemma sample_unclamped:
  "Num 100 - (Num 5000 / Num 10000) * Num 100 = Num 50"
  "(Num 40 + (Num 100 - Num 0) + Num 12) / Num 3 = Num (7130699410003285 / 140737488355328)"
  "(Num 50 + Num 75 + (Num 100 - Num 1 * Num 10)) / Num 3 = Num (5043093332732587 / 70368744177664)"
  "(Num 50 + Num (7130699410003285 / 140737488355328) + Num (5043093332732587 / 70368744177664)) / Num 3 = Num (8084586831078285 / 140737488355328)"
proof -
  have e1: "Num 5000 / Num 10000 = Num (1 / 2)"
    using fl_eqI[of "1 / 2" 53 "4503599627370496"] by (simp add: div_Num)
  have e2: "Num (1 / 2) * Num 100 = Num 50"
    using fl_eqI[of "50" 47 "7036874417766400"] by (simp add: mul_Num)
  have e3: "Num 100 - Num 50 = Num 50"
    using fl_eqI[of "50" 47 "7036874417766400"] by (simp add: sub_Num)
  have e4: "Num 100 - Num 0 = Num 100"
    using fl_eqI[of "100" 46 "7036874417766400"] by (simp add: sub_Num)
  have e5: "Num 40 + Num 100 = Num 140"
    using fl_eqI[of "140" 45 "4925812092436480"] by (simp add: add_Num)
  have e6: "Num 140 + Num 12 = Num 152"
    using fl_eqI[of "152" 45 "5348024557502464"] by (simp add: add_Num)
  have e7: "Num 152 / Num 3 = Num (7130699410003285 / 140737488355328)"
    using fl_eqI[of "152 / 3" 47 "7130699410003285"] by (simp add: div_Num)
  have e8: "Num 1 * Num 10 = Num 10"
    using fl_eqI[of "10" 49 "5629499534213120"] by (simp add: mul_Num)
  have e9: "Num 100 - Num 10 = Num 90"
    using fl_eqI[of "90" 46 "6333186975989760"] by (simp add: sub_Num)
  have e10: "Num 50 + Num 75 = Num 125"
    using fl_eqI[of "125" 46 "8796093022208000"] by (simp add: add_Num)
  have e11: "Num 125 + Num 90 = Num 215"
    using fl_eqI[of "215" 45 "7564639999098880"] by (simp add: add_Num)
  have e12: "Num 215 / Num 3 = Num (5043093332732587 / 70368744177664)"
    using fl_eqI[of "215 / 3" 46 "5043093332732587"] by (simp add: div_Num)
  have e13: "Num 50 + Num (7130699410003285 / 140737488355328) = Num (3541893456942421 / 35184372088832)"
    using fl_eqI[of "14167573827769685 / 140737488355328" 46 "7083786913884842"] by (simp add: add_Num)
  have e14: "Num (3541893456942421 / 35184372088832) + Num (5043093332732587 / 70368744177664) = Num (3031720061654357 / 17592186044416)"
    using fl_eqI[of "12126880246617429 / 70368744177664" 45 "6063440123308714"] by (simp add: add_Num)
  have e15: "Num (3031720061654357 / 17592186044416) / Num 3 = Num (8084586831078285 / 140737488355328)"
    using fl_eqI[of "3031720061654357 / 52776558133248" 47 "8084586831078285"] by (simp add: div_Num)
  show "Num 100 - (Num 5000 / Num 10000) * Num 100 = Num 50" by (simp add: e1 e2 e3 e4 e5 e6 e7 e8 e9 e10 e11 e12 e13 e14 e15)
  show "(Num 40 + (Num 100 - Num 0) + Num 12) / Num 3 = Num (7130699410003285 / 140737488355328)" by (simp add: e1 e2 e3 e4 e5 e6 e7 e8 e9 e10 e11 e12 e13 e14 e15)
  show "(Num 50 + Num 75 + (Num 100 - Num 1 * Num 10)) / Num 3 = Num (5043093332732587 / 70368744177664)"
    by (simp add: e1 e2 e3 e4 e5 e6 e7 e8 e9 e10 e11 e12 e13 e14 e15)
  show "(Num 50 + Num (7130699410003285 / 140737488355328) + Num (5043093332732587 / 70368744177664)) / Num 3 = Num (8084586831078285 / 140737488355328)" by (simp add: e1 e2 e3 e4 e5 e6 e7 e8 e9 e10 e11 e12 e13 e14 e15)
qed

theorem calculateOverallScores_clamped_and_rounded_witness:
  "calculateOverallScores (env_summary_of_carbon (Num 5000)) (social_summary_of (Num 40) (Num 0) (Num 12))
        (gov_summary_of (Num 50) (Num 75) (Num 1))
     = \<lparr>environmentalScore = Num 50, socialScore = fl (5067 / 100),
        governanceScore = fl (7167 / 100), totalScore = fl (5744 / 100)\<rparr>
   \<and> score_in_range (Num 50) \<and> score_in_range (fl (5067 / 100))
   \<and> score_in_range (fl (7167 / 100)) \<and> score_in_range (fl (5744 / 100))
   \<and> rounded_2dp (Num (7130699410003285 / 140737488355328)) (fl (5067 / 100))
   \<and> rounded_2dp (Num (5043093332732587 / 70368744177664)) (fl (7167 / 100))
   \<and> rounded_2dp (Num (8084586831078285 / 140737488355328)) (fl (5744 / 100))"
proof -
  let ?e = "env_summary_of_carbon (Num 5000)"
  let ?s = "social_summary_of (Num 40) (Num 0) (Num 12)"
  let ?g = "gov_summary_of (Num 50) (Num 75) (Num 1)"
  have fields: "environmentalSummary.totalCarbonEmissions ?e = Num 5000"
    "averageDiversityRatio ?s = Num 40" "totalHealthAndSafetyIncidents ?s = Num 0"
    "averageTrainingHours ?s = Num 12" "averageBoardIndependence ?g = Num 50"
    "complianceRate ?g = Num 75" "totalDataBreaches ?g = Num 1"
    by (simp_all add: env_summary_of_carbon_def social_summary_of_def gov_summary_of_def)
  have cl: "clamp (Num 50) = Num 50" "clamp (Num (7130699410003285 / 140737488355328)) = Num (7130699410003285 / 140737488355328)"
    "clamp (Num (5043093332732587 / 70368744177664)) = Num (5043093332732587 / 70368744177664)"
    by (simp_all add: clamp_def)
  note t = calculateOverallScores_clamped_and_rounded[of ?e ?s ?g, unfolded Let_def fields
      sample_unclamped cl sample_scores overallScore.select_convs]
  from t have r: "score_in_range (Num 50)" "score_in_range (fl (5067 / 100))"
    "score_in_range (fl (7167 / 100))" "score_in_range (fl (5744 / 100))"
    "rounded_2dp (Num (7130699410003285 / 140737488355328)) (fl (5067 / 100))"
    "rounded_2dp (Num (5043093332732587 / 70368744177664)) (fl (7167 / 100))"
    "rounded_2dp (Num (8084586831078285 / 140737488355328)) (fl (5744 / 100))"
    by blast+
  show ?thesis using r sample_scores by blast
qed

text \<open>
  C2 as the specification states it does not hold for every input summary. A record whose
  incidents and training hours are both \<^verbatim>\<open>Infinity\<close> gives a social summary with these
  two values, and for it the social score and the total score are \<^verbatim>\<open>NaN\<close>, which is
  not between 0 and 100. And the scores are not the exact values rounded: for a diversity
  ratio of 0.215 without incidents and training, the exact mean of the stored values lies
  below 33.405, so that 33.40 is the hundredth nearest to it; the score returned is 33.41.
\<close>

theorem calculateOverallScores_outside_the_range:
  "aggregateSocialMetrics [unbounded_record]
     = social_summary_of (Num 0) PosInf PosInf
   \<and> socialScore (calculateOverallScores (env_summary_of_carbon (Num 0))
        (social_summary_of (Num 0) PosInf PosInf)
        (gov_summary_of (Num 0) (Num 0) (Num 0))) = NaN
   \<and> totalScore (calculateOverallScores (env_summary_of_carbon (Num 0))
        (social_summary_of (Num 0) PosInf PosInf)
        (gov_summary_of (Num 0) (Num 0) (Num 0))) = NaN
   \<and> \<not> score_in_range NaN
   \<and> socialScore (calculateOverallScores (env_summary_of_carbon (Num 0))
        (social_summary_of (fl (215 / 1000)) (Num 0) (Num 0))
        (gov_summary_of (Num 0) (Num 0) (Num 0))) = fl (3341 / 100)
   \<and> fl (215 / 1000) = Num (7746191359077253 / 36028797018963968)
   \<and> \<bar>3340 / 100 - (7746191359077253 / 36028797018963968 + (100 - 0) + 0) / 3\<bar> < (1 / 200 :: rat)
   \<and> (1 / 200 :: rat) < \<bar>3341 / 100 - (7746191359077253 / 36028797018963968 + (100 - 0) + 0) / 3\<bar>
   \<and> fl (3340 / 100) \<noteq> fl (3341 / 100)"
proof -
  have d1: "fl (43 / 200) = Num (7746191359077253 / 36028797018963968)"
    using fl_eqI[of "43 / 200" 55 "7746191359077253"] by simp
  have d2: "Num 100 - Num 0 = Num 100"
    using fl_eqI[of "100" 46 "7036874417766400"] by (simp add: sub_Num)
  have d3: "Num (7746191359077253 / 36028797018963968) + Num 100 = Num (3526001848882299 / 35184372088832)"
    using fl_eqI[of "3610625893255474053 / 36028797018963968" 46 "7052003697764598"] by (simp add: add_Num)
  have d4: "Num (3526001848882299 / 35184372088832) + Num 0 = Num (3526001848882299 / 35184372088832)"
    using fl_eqI[of "3526001848882299 / 35184372088832" 46 "7052003697764598"] by (simp add: add_Num)
  have d5: "Num (3526001848882299 / 35184372088832) / Num 3 = Num (1175333949627433 / 35184372088832)"
    using fl_eqI[of "1175333949627433 / 35184372088832" 47 "4701335798509732"] by (simp add: div_Num)
  have d6: "Num (1175333949627433 / 35184372088832) * Num 100 = Num (6681 / 2)"
    using fl_eqI[of "29383348740685825 / 8796093022208" 41 "7345837185171456"] by (simp add: mul_Num)
  have d7: "Math_round (Num (6681 / 2)) = Num 3341"
    by (simp add: Math_round_def floor_eq_iff)
  have d8: "Num 3341 / Num 100 = Num (1175509871487877 / 35184372088832)"
    using fl_eqI[of "3341 / 100" 47 "4702039485951508"] by (simp add: div_Num)
  have d9: "fl (3341 / 100) = Num (1175509871487877 / 35184372088832)"
    using fl_eqI[of "3341 / 100" 47 "4702039485951508"] by simp
  have d10: "fl (167 / 5) = Num (4700632111067955 / 140737488355328)"
    using fl_eqI[of "167 / 5" 47 "4700632111067955"] by simp
  have half: "\<lfloor>1 / 2 :: rat\<rfloor> = 0" by (simp add: floor_eq_iff)
  have agg: "aggregateSocialMetrics [unbounded_record]
      = social_summary_of (Num 0) PosInf PosInf"
    by (simp add: half aggregateSocialMetrics_def Let_def social_step_def social_totals0_def
        unbounded_record_def sample_record_def social_of_def empty_social_def
        social_summary_of_def roundToDecimal_def plus_number_def times_number_def
        divide_number_def Math_round_def infinity_def sign_def)
  have nan: "(Num 0 + (Num 100 - PosInf) + PosInf) / Num 3 = NaN"
    by (simp add: plus_number_def minus_number_def uminus_number_def)
  have s: "socialScore (calculateOverallScores (env_summary_of_carbon (Num 0))
        (social_summary_of (Num 0) PosInf PosInf)
        (gov_summary_of (Num 0) (Num 0) (Num 0))) = NaN"
    "totalScore (calculateOverallScores (env_summary_of_carbon (Num 0))
        (social_summary_of (Num 0) PosInf PosInf)
        (gov_summary_of (Num 0) (Num 0) (Num 0))) = NaN"
    by (simp_all add: overall_scores social_summary_of_def nan)
  have r: "socialScore (calculateOverallScores (env_summary_of_carbon (Num 0))
        (social_summary_of (fl (215 / 1000)) (Num 0) (Num 0))
        (gov_summary_of (Num 0) (Num 0) (Num 0))) = fl (3341 / 100)"
    by (simp add: overall_scores social_summary_of_def clamp_def roundToDecimal_def d1 d2 d3 d4 d5 d6 d7 d8 d9 d10)
  have n: "\<not> score_in_range NaN" by (simp add: score_in_range_def js_le_def)
  show ?thesis
    unfolding agg s r using n by (simp add: d1 d2 d3 d4 d5 d6 d7 d8 d9 d10)
qed

section \<open>The governance aggregate\<close>

lemma fl_of_nat:
  assumes "n < 2 ^ 53"
  shows "fl (of_nat n) = Num (of_nat n)"
proof -
  have "int n < 2 ^ 53" using assms by (metis of_nat_less_iff of_nat_numeral of_nat_power)
  then have "\<bar>int n\<bar> < 2 ^ 53" by simp
  from fl_of_int[OF this] show ?thesis by simp
qed

lemma count_fold:
  assumes "k + length rs < 2 ^ 53"
  shows "foldl (+) (Num (of_nat k)) (map (\<lambda>r. if P r then Num 1 else Num 0) rs)
           = Num (of_nat (k + length (filter P rs)))"
  using assms
proof (induction rs arbitrary: k)
  case Nil
  show ?case by simp
next
  case (Cons r rs)
  have k: "k < 2 ^ 53" "Suc k < 2 ^ 53" using Cons.prems by simp_all
  have one: "Num (of_nat k) + Num 1 = Num (of_nat (Suc k))"
    using fl_of_nat[OF k(2)] by (simp add: add_Num add.commute)
  have zero: "Num (of_nat k) + Num 0 = Num (of_nat k)"
    using fl_of_nat[OF k(1)] by (simp add: add_Num)
  show ?case
  proof (cases "P r")
    case True
    have "Suc k + length rs < 2 ^ 53" using Cons.prems by simp
    from Cons.IH[OF this] show ?thesis using True by (simp add: one)
  next
    case False
    have "k + length rs < 2 ^ 53" using Cons.prems by simp
    from Cons.IH[OF this] show ?thesis using False by (simp add: zero)
  qed
qed

lemma nat_sum_fold:
  assumes "k + sum_list ns < 2 ^ 53"
  shows "foldl (+) (Num (of_nat k)) (map (\<lambda>n. Num (of_nat n)) ns)
           = Num (of_nat (k + sum_list ns))"
  using assms
proof (induction ns arbitrary: k)
  case Nil
  show ?case by simp
next
  case (Cons n ns)
  have "k + n < 2 ^ 53" using Cons.prems by simp
  from fl_of_nat[OF this] have step: "Num (of_nat k) + Num (of_nat n) = Num (of_nat (k + n))"
    by (simp add: add_Num)
  have "(k + n) + sum_list ns < 2 ^ 53" using Cons.prems by (simp add: add.assoc)
  from Cons.IH[OF this] show ?case by (simp add: step add.assoc)
qed

lemma running_sum_naturals:
  assumes "sum_list ns < 2 ^ 53"
  shows "running_sum (map (\<lambda>n. Num (of_nat n)) ns) = Num (of_nat (sum_list ns))"
  using nat_sum_fold[of 0 ns] assms by (simp add: running_sum_def)

lemma foldl_gov_step:
  "foldl gov_step acc rs =
     \<lparr>boardIndependenceT = foldl (+) (boardIndependenceT acc) (gov_values boardIndependence rs),
      compliant =
        foldl (+) (compliant acc)
          (map (\<lambda>r. if complianceStatus (gov_of r) = Some ''compliant'' then Num 1 else Num 0)
             rs),
      whistleblower = foldl (+) (whistleblower acc) (gov_values whistleblowerCases rs),
      dataBreachesT = foldl (+) (dataBreachesT acc) (gov_values dataBreaches rs),
      femaleDirectors =
        foldl (+) (femaleDirectors acc) (gov_values femaleDirectorsPercentage rs)\<rparr>"
proof (induction rs arbitrary: acc)
  case Nil
  show ?case by (simp add: gov_values_def)
next
  case (Cons r rs)
  show ?case
    unfolding foldl_Cons Cons.IH
    by (simp add: gov_step_def gov_values_def Let_def)
qed

lemma governance_totals:
  assumes "records \<noteq> []" and "length records < 2 ^ 53"
  shows "aggregateGovernanceMetrics records =
     \<lparr>averageBoardIndependence =
        roundToDecimal
          (running_sum (gov_values boardIndependence records)
           / Num (of_nat (length records))) 2,
      complianceRate =
        roundToDecimal
          ((Num (of_nat (length (compliant_records records))) / Num (of_nat (length records)))
           * Num 100) 2,
      totalWhistleblowerCases = running_sum (gov_values whistleblowerCases records),
      totalDataBreaches = running_sum (gov_values dataBreaches records),
      averageFemaleDirectorsPercentage =
        roundToDecimal
          (running_sum (gov_values femaleDirectorsPercentage records)
           / Num (of_nat (length records))) 2\<rparr>"
proof -
  have c: "foldl (+) (Num 0)
      (map (\<lambda>r. if complianceStatus (gov_of r) = Some ''compliant'' then Num 1 else Num 0)
         records)
      = Num (of_nat (length (compliant_records records)))"
    using count_fold[of 0 records "\<lambda>r. complianceStatus (gov_of r) = Some ''compliant''"] assms(2)
    by (simp add: compliant_records_def)
  show ?thesis
    using assms(1)
    by (simp add: aggregateGovernanceMetrics_def Let_def foldl_gov_step gov_totals0_def c
        running_sum_def calculatePercentage_def)
qed

lemma compliance_rate_near:
  assumes n: "0 < n" and cn: "c \<le> n"
  shows "\<exists>x. (Num (of_nat c) / Num (of_nat n)) * Num 100 = Num x \<and> \<bar>x\<bar> \<le> 101
           \<and> \<bar>x - 100 * of_nat c / of_nat n\<bar> \<le> 1 / 2 ^ 45"
proof -
  define u where "u = (of_nat c / of_nat n :: rat)"
  define y where "y = round64 u"
  define x where "x = round64 (y * 100)"
  note tiny = tiny_le
  have u: "0 \<le> u" "u \<le> 1" using n cn by (simp_all add: u_def)
  have "\<bar>y - u\<bar> \<le> \<bar>u\<bar> / 2 ^ 53 + 2 powi (- 1075)" unfolding y_def by (rule round64_err)
  then have y: "\<bar>y - u\<bar> \<le> 1 / 9007199254740992 + 1 / 1152921504606846976"
    using tiny u by simp
  have "\<bar>x - y * 100\<bar> \<le> \<bar>y * 100\<bar> / 2 ^ 53 + 2 powi (- 1075)"
    unfolding x_def by (rule round64_err)
  then have x: "\<bar>x - y * 100\<bar> \<le> \<bar>y\<bar> * 100 / 9007199254740992 + 1 / 1152921504606846976"
    using tiny by (simp add: abs_mult)
  have yb: "\<bar>y\<bar> \<le> 2" using y u by linarith
  have xb: "\<bar>x\<bar> \<le> 101" using x y u by linarith
  have big: "(128::rat) \<le> 2 ^ 1000"
  proof -
    have "(128::rat) = 2 ^ 7" by simp
    also have "(2::rat) ^ 7 \<le> 2 ^ 1000" by (rule power_increasing) simp_all
    finally show ?thesis .
  qed
  have f1: "fl u = Num y" unfolding y_def using yb big by (intro fl_Num) (simp add: y_def)
  have f2: "fl (y * 100) = Num x" unfolding x_def using xb big by (intro fl_Num) (simp add: x_def)
  have nz: "(of_nat n :: rat) \<noteq> 0" using n by simp
  have val: "(Num (of_nat c) / Num (of_nat n)) * Num 100 = Num x"
    using nz by (simp add: div_Num mul_Num u_def[symmetric] f1 f2)
  have "\<bar>x - 100 * u\<bar> \<le> 1 / 35184372088832" using x y u by linarith
  then have "\<bar>x - 100 * of_nat c / of_nat n\<bar> \<le> 1 / 2 ^ 45" by (simp add: u_def)
  then show ?thesis using val xb by blast
qed

lemma compliance_rate_rounded:
  assumes n: "0 < n" and cn: "c \<le> n"
  shows "\<exists>r. roundToDecimal ((Num (of_nat c) / Num (of_nat n)) * Num 100) 2 = Num r
           \<and> two_decimals (Num r)
           \<and> \<bar>r - 100 * of_nat c / of_nat n\<bar> \<le> 1 / 200 + 1 / 2 ^ 43"
proof -
  from compliance_rate_near[OF assms] obtain x where
    x: "(Num (of_nat c) / Num (of_nat n)) * Num 100 = Num x" "\<bar>x\<bar> \<le> 101"
    "\<bar>x - 100 * of_nat c / of_nat n\<bar> \<le> 1 / 2 ^ 45" by blast
  have "\<bar>x\<bar> \<le> 2 ^ 40" using x(2) by simp
  from roundToDecimal_near[OF this] obtain r where
    r: "roundToDecimal (Num x) 2 = Num r" "two_decimals (Num r)"
    "\<bar>r - x\<bar> \<le> 1 / 200 + (\<bar>x\<bar> + 1) / 2 ^ 51" by blast
  have "\<bar>r - x\<bar> \<le> 1 / 200 + \<bar>x\<bar> / 2251799813685248 + 1 / 2251799813685248"
    using r(3) by (simp add: add_divide_distrib)
  moreover have "\<bar>x - 100 * of_nat c / of_nat n\<bar> \<le> 1 / 35184372088832" using x(3) by simp
  ultimately have "\<bar>r - 100 * of_nat c / of_nat n\<bar> \<le> 1 / 200 + 1 / 8796093022208"
    using x(2) by linarith
  then have "\<bar>r - 100 * of_nat c / of_nat n\<bar> \<le> 1 / 200 + 1 / 2 ^ 43" by simp
  then show ?thesis using r(1,2) x(1) by auto
qed

lemma two_of_four: "roundToDecimal ((Num 2 / Num 4) * Num 100) 2 = Num 50"
proof -
  have h1: "Num 2 / Num 4 = Num (1 / 2)"
    using fl_eqI[of "1 / 2" 53 "4503599627370496"] by (simp add: div_Num)
  have h2: "Num (1 / 2) * Num 100 = Num 50"
    using fl_eqI[of "50" 47 "7036874417766400"] by (simp add: mul_Num)
  have h3: "Num 50 * Num 100 = Num 5000"
    using fl_eqI[of "5000" 40 "5497558138880000"] by (simp add: mul_Num)
  have h4: "Math_round (Num 5000) = Num 5000"
    by (simp add: Math_round_def floor_eq_iff)
  have h5: "Num 5000 / Num 100 = Num 50"
    using fl_eqI[of "50" 47 "7036874417766400"] by (simp add: div_Num)
  show ?thesis by (simp add: roundToDecimal_def h1 h2 h3 h4 h5)
qed

text \<open>
  C3, as the code has it. For a non-empty list of fewer than \<open>2 ^ 53\<close> records, the two
  averages are the running binary64 sum of the field over the records, divided by the
  count and handed to \<open>roundToDecimal\<close>; the compliance rate is \<open>roundToDecimal\<close> of the
  quotient of the count of the records whose status is exactly \<^verbatim>\<open>compliant\<close> by the
  count of the records, times 100, a number with two decimals within
  \<open>1 / 200 + 1 / 2 ^ 43\<close> of the exact rate, and 50 for 2 records of 4; the two totals
  are the running sums, not rounded, and are the exact sums when the values are natural
  numbers whose sum is below \<open>2 ^ 53\<close>. Every rounded output of a finite value of magnitude
  up to \<open>2 ^ 40\<close> is a number with two decimals within \<open>1 / 200 + (\<bar>v\<bar> + 1) / 2 ^ 51\<close> of
  the value \<open>v\<close> that was rounded.
\<close>

theorem aggregateGovernanceMetrics_means_and_rate:
  assumes "records \<noteq> []" and "length records < 2 ^ 53"
  shows
    "(let n = length records;
          c = length (compliant_records records);
          b = running_sum (gov_values boardIndependence records) / Num (of_nat n);
          f = running_sum (gov_values femaleDirectorsPercentage records) / Num (of_nat n);
          rate = (Num (of_nat c) / Num (of_nat n)) * Num 100;
          out = aggregateGovernanceMetrics records
      in (averageBoardIndependence out = roundToDecimal b 2
            \<and> rounded_2dp b (averageBoardIndependence out))
         \<and> (averageFemaleDirectorsPercentage out = roundToDecimal f 2
            \<and> rounded_2dp f (averageFemaleDirectorsPercentage out))
         \<and> (complianceRate out = roundToDecimal rate 2
            \<and> rounded_2dp rate (complianceRate out))
         \<and> (\<exists>r. complianceRate out = Num r \<and> two_decimals (Num r)
               \<and> \<bar>r - 100 * of_nat c / of_nat n\<bar> \<le> 1 / 200 + 1 / 2 ^ 43)
         \<and> (n = 4 \<and> c = 2 \<longrightarrow> complianceRate out = Num 50)
         \<and> totalWhistleblowerCases out = running_sum (gov_values whistleblowerCases records)
         \<and> totalDataBreaches out = running_sum (gov_values dataBreaches records)
         \<and> (\<forall>ks. gov_values whistleblowerCases records = map (\<lambda>k. Num (of_nat k)) ks
                  \<and> sum_list ks < 2 ^ 53
               \<longrightarrow> totalWhistleblowerCases out = Num (of_nat (sum_list ks)))
         \<and> (\<forall>ks. gov_values dataBreaches records = map (\<lambda>k. Num (of_nat k)) ks
                  \<and> sum_list ks < 2 ^ 53
               \<longrightarrow> totalDataBreaches out = Num (of_nat (sum_list ks))))"
proof -
  have n: "0 < length records" using assms(1) by simp
  have c: "length (compliant_records records) \<le> length records"
    by (simp add: compliant_records_def)
  note near = compliance_rate_rounded[OF n c]
  show ?thesis
    unfolding governance_totals[OF assms] Let_def
    using near by (auto simp add: roundToDecimal_rounded two_of_four running_sum_naturals)
qed

lemma sample_governance_values:
  "gov_values boardIndependence governance_samples = [Num 1, fl (101 / 100), Num 0, Num 0]"
  "gov_values femaleDirectorsPercentage governance_samples = [Num 0, Num 0, Num 0, Num 0]"
  "gov_values whistleblowerCases governance_samples = map (\<lambda>k. Num (of_nat k)) [1, 1, 1, 1]"
  "gov_values dataBreaches governance_samples = map (\<lambda>k. Num (of_nat k)) [2, 0, 0, 1]"
  "length governance_samples = 4"
  "length (compliant_records governance_samples) = 2"
proof -
  have w1: "fl (101 / 100) = Num (4548635623644201 / 4503599627370496)"
    using fl_eqI[of "101 / 100" 52 "4548635623644201"] by simp
  have w2: "Num 0 + Num 1 = Num 1"
    using fl_eqI[of "1" 52 "4503599627370496"] by (simp add: add_Num)
  have w3: "Num 1 + Num (4548635623644201 / 4503599627370496) = Num (1131529406376837 / 562949953421312)"
    using fl_eqI[of "9052235251014697 / 4503599627370496" 51 "4526117625507348"] by (simp add: add_Num)
  have w4: "Num (1131529406376837 / 562949953421312) + Num 0 = Num (1131529406376837 / 562949953421312)"
    using fl_eqI[of "1131529406376837 / 562949953421312" 51 "4526117625507348"] by (simp add: add_Num)
  have w5: "Num (1131529406376837 / 562949953421312) / Num 4 = Num (1131529406376837 / 2251799813685248)"
    using fl_eqI[of "1131529406376837 / 2251799813685248" 53 "4526117625507348"] by (simp add: div_Num)
  have w6: "Num (1131529406376837 / 2251799813685248) * Num 100 = Num (7072058789855231 / 140737488355328)"
    using fl_eqI[of "28288235159420925 / 562949953421312" 47 "7072058789855231"] by (simp add: mul_Num)
  have w7: "Math_round (Num (7072058789855231 / 140737488355328)) = Num 50"
    by (simp add: Math_round_def floor_eq_iff)
  have w8: "Num 50 / Num 100 = Num (1 / 2)"
    using fl_eqI[of "1 / 2" 53 "4503599627370496"] by (simp add: div_Num)
  have w9: "Num 0 + Num 0 = Num 0"
    by (simp add: add_Num)
  have w10: "Num 0 / Num 4 = Num 0"
    by (simp add: div_Num)
  have w11: "Num 0 * Num 100 = Num 0"
    by (simp add: mul_Num)
  have w12: "Math_round (Num 0) = Num 0"
    by (simp add: Math_round_def floor_eq_iff)
  have w13: "Num 0 / Num 100 = Num 0"
    by (simp add: div_Num)
  have w14: "Num 2 / Num 4 = Num (1 / 2)"
    using fl_eqI[of "1 / 2" 53 "4503599627370496"] by (simp add: div_Num)
  have w15: "Num (1 / 2) * Num 100 = Num 50"
    using fl_eqI[of "50" 47 "7036874417766400"] by (simp add: mul_Num)
  have w16: "Num 50 * Num 100 = Num 5000"
    using fl_eqI[of "5000" 40 "5497558138880000"] by (simp add: mul_Num)
  have w17: "Math_round (Num 5000) = Num 5000"
    by (simp add: Math_round_def floor_eq_iff)
  have w18: "Num 5000 / Num 100 = Num 50"
    using fl_eqI[of "50" 47 "7036874417766400"] by (simp add: div_Num)
  have w19: "Num 1 + Num 1 = Num 2"
    using fl_eqI[of "2" 51 "4503599627370496"] by (simp add: add_Num)
  have w20: "Num 2 + Num 1 = Num 3"
    using fl_eqI[of "3" 51 "6755399441055744"] by (simp add: add_Num)
  have w21: "Num 3 + Num 1 = Num 4"
    using fl_eqI[of "4" 50 "4503599627370496"] by (simp add: add_Num)
  have w22: "Num 0 + Num 2 = Num 2"
    using fl_eqI[of "2" 51 "4503599627370496"] by (simp add: add_Num)
  have w23: "Num 2 + Num 0 = Num 2"
    using fl_eqI[of "2" 51 "4503599627370496"] by (simp add: add_Num)
  have w24: "fl (1 / 2) = Num (1 / 2)"
    using fl_eqI[of "1 / 2" 53 "4503599627370496"] by simp
  show "gov_values boardIndependence governance_samples = [Num 1, fl (101 / 100), Num 0, Num 0]"
    by (simp add: gov_values_def governance_samples_def governed_def sample_record_def
        gov_of_def empty_governance_def w1)
qed (simp_all add: gov_values_def governance_samples_def governed_def sample_record_def
    gov_of_def empty_governance_def compliant_records_def)

theorem aggregateGovernanceMetrics_means_and_rate_witness:
  "governance_samples \<noteq> [] \<and> length governance_samples < 2 ^ 53
   \<and> length governance_samples = 4 \<and> length (compliant_records governance_samples) = 2
   \<and> complianceRate (aggregateGovernanceMetrics governance_samples) = Num 50
   \<and> averageBoardIndependence (aggregateGovernanceMetrics governance_samples) = fl (50 / 100)
   \<and> rounded_2dp (Num (1131529406376837 / 2251799813685248)) (fl (50 / 100))
   \<and> totalWhistleblowerCases (aggregateGovernanceMetrics governance_samples) = Num 4
   \<and> totalDataBreaches (aggregateGovernanceMetrics governance_samples) = Num 3"
proof -
  have w1: "fl (101 / 100) = Num (4548635623644201 / 4503599627370496)"
    using fl_eqI[of "101 / 100" 52 "4548635623644201"] by simp
  have w2: "Num 0 + Num 1 = Num 1"
    using fl_eqI[of "1" 52 "4503599627370496"] by (simp add: add_Num)
  have w3: "Num 1 + Num (4548635623644201 / 4503599627370496) = Num (1131529406376837 / 562949953421312)"
    using fl_eqI[of "9052235251014697 / 4503599627370496" 51 "4526117625507348"] by (simp add: add_Num)
  have w4: "Num (1131529406376837 / 562949953421312) + Num 0 = Num (1131529406376837 / 562949953421312)"
    using fl_eqI[of "1131529406376837 / 562949953421312" 51 "4526117625507348"] by (simp add: add_Num)
  have w5: "Num (1131529406376837 / 562949953421312) / Num 4 = Num (1131529406376837 / 2251799813685248)"
    using fl_eqI[of "1131529406376837 / 2251799813685248" 53 "4526117625507348"] by (simp add: div_Num)
  have w6: "Num (1131529406376837 / 2251799813685248) * Num 100 = Num (7072058789855231 / 140737488355328)"
    using fl_eqI[of "28288235159420925 / 562949953421312" 47 "7072058789855231"] by (simp add: mul_Num)
  have w7: "Math_round (Num (7072058789855231 / 140737488355328)) = Num 50"
    by (simp add: Math_round_def floor_eq_iff)
  have w8: "Num 50 / Num 100 = Num (1 / 2)"
    using fl_eqI[of "1 / 2" 53 "4503599627370496"] by (simp add: div_Num)
  have w9: "Num 0 + Num 0 = Num 0"
    by (simp add: add_Num)
  have w10: "Num 0 / Num 4 = Num 0"
    by (simp add: div_Num)
  have w11: "Num 0 * Num 100 = Num 0"
    by (simp add: mul_Num)
  have w12: "Math_round (Num 0) = Num 0"
    by (simp add: Math_round_def floor_eq_iff)
  have w13: "Num 0 / Num 100 = Num 0"
    by (simp add: div_Num)
  have w14: "Num 2 / Num 4 = Num (1 / 2)"
    using fl_eqI[of "1 / 2" 53 "4503599627370496"] by (simp add: div_Num)
  have w15: "Num (1 / 2) * Num 100 = Num 50"
    using fl_eqI[of "50" 47 "7036874417766400"] by (simp add: mul_Num)
  have w16: "Num 50 * Num 100 = Num 5000"
    using fl_eqI[of "5000" 40 "5497558138880000"] by (simp add: mul_Num)
  have w17: "Math_round (Num 5000) = Num 5000"
    by (simp add: Math_round_def floor_eq_iff)
  have w18: "Num 5000 / Num 100 = Num 50"
    using fl_eqI[of "50" 47 "7036874417766400"] by (simp add: div_Num)
  have w19: "Num 1 + Num 1 = Num 2"
    using fl_eqI[of "2" 51 "4503599627370496"] by (simp add: add_Num)
  have w20: "Num 2 + Num 1 = Num 3"
    using fl_eqI[of "3" 51 "6755399441055744"] by (simp add: add_Num)
  have w21: "Num 3 + Num 1 = Num 4"
    using fl_eqI[of "4" 50 "4503599627370496"] by (simp add: add_Num)
  have w22: "Num 0 + Num 2 = Num 2"
    using fl_eqI[of "2" 51 "4503599627370496"] by (simp add: add_Num)
  have w23: "Num 2 + Num 0 = Num 2"
    using fl_eqI[of "2" 51 "4503599627370496"] by (simp add: add_Num)
  have w24: "fl (1 / 2) = Num (1 / 2)"
    using fl_eqI[of "1 / 2" 53 "4503599627370496"] by simp
  let ?out = "aggregateGovernanceMetrics governance_samples"
  note v = sample_governance_values
  have ne: "governance_samples \<noteq> []" using v(5) by auto
  have len: "length governance_samples < 2 ^ 53" by (simp add: v(5))
  note t = aggregateGovernanceMetrics_means_and_rate[OF ne len, unfolded Let_def]
  have b: "running_sum (gov_values boardIndependence governance_samples)
      / Num (of_nat (length governance_samples)) = Num (1131529406376837 / 2251799813685248)"
    by (simp add: v running_sum_def w1 w2 w3 w4 w5 w6 w7 w8 w9 w10 w11 w12 w13 w14 w15 w16 w17 w18 w19 w20 w21 w22 w23 w24)
  have "roundToDecimal (Num (1131529406376837 / 2251799813685248)) 2 = fl (50 / 100)"
    by (simp add: roundToDecimal_def w1 w2 w3 w4 w5 w6 w7 w8 w9 w10 w11 w12 w13 w14 w15 w16 w17 w18 w19 w20 w21 w22 w23 w24)
  moreover from t have "averageBoardIndependence ?out
      = roundToDecimal (running_sum (gov_values boardIndependence governance_samples)
          / Num (of_nat (length governance_samples))) 2" by blast
  ultimately have o1: "averageBoardIndependence ?out = fl (50 / 100)" by (simp only: b)
  from t have "rounded_2dp (running_sum (gov_values boardIndependence governance_samples)
      / Num (of_nat (length governance_samples))) (averageBoardIndependence ?out)" by blast
  then have o2: "rounded_2dp (Num (1131529406376837 / 2251799813685248)) (fl (50 / 100))" by (simp only: b o1)
  from t v(5,6) have o3: "complianceRate ?out = Num 50" by blast
  have s: "sum_list [1, 1, 1, 1 :: nat] < 2 ^ 53" "sum_list [2, 0, 0, 1 :: nat] < 2 ^ 53"
    by simp_all
  from t v(3) s(1) have "totalWhistleblowerCases ?out = Num (of_nat (sum_list [1, 1, 1, 1]))"
    by blast
  then have o4: "totalWhistleblowerCases ?out = Num 4" by simp
  from t v(4) s(2) have "totalDataBreaches ?out = Num (of_nat (sum_list [2, 0, 0, 1]))"
    by blast
  then have o5: "totalDataBreaches ?out = Num 3" by simp
  show ?thesis using ne len v(5,6) o1 o2 o3 o4 o5 by blast
qed

text \<open>
  C3 as the specification states it does not hold: the averages and the rate are not the
  exact values rounded to two decimals. For two records with board independence 1 and
  1.01 the exact mean of the stored values lies above 1.005, so that 1.01 is the hundredth
  nearest to it; the average returned is 1. For 23 compliant records of 160 the rate is
  14.375 and the rate returned is 14.37, where \<^verbatim>\<open>Math.round\<close> on the exact value, a
  tie going up, gives 14.38.
\<close>

theorem aggregateGovernanceMetrics_not_the_rounded_mean:
  "averageBoardIndependence (aggregateGovernanceMetrics independence_samples) = Num 1
   \<and> gov_values boardIndependence independence_samples
       = [Num 1, Num (4548635623644201 / 4503599627370496)]
   \<and> \<bar>101 / 100 - (1 + 4548635623644201 / 4503599627370496) / 2\<bar>
       < (1 / 200 :: rat)
   \<and> (1 / 200 :: rat)
       < \<bar>1 - (1 + 4548635623644201 / 4503599627370496) / 2\<bar>
   \<and> fl (101 / 100) \<noteq> Num 1
   \<and> length compliance_samples = 160
   \<and> length (compliant_records compliance_samples) = 23
   \<and> complianceRate (aggregateGovernanceMetrics compliance_samples) = fl (1437 / 100)
   \<and> of_int \<lfloor>(100 * 23 / 160 :: rat) * 100 + 1 / 2\<rfloor> / 100 = (1438 / 100 :: rat)
   \<and> fl (1437 / 100) \<noteq> fl (1438 / 100)"
proof -
  have x1: "fl (101 / 100) = Num (4548635623644201 / 4503599627370496)"
    using fl_eqI[of "101 / 100" 52 "4548635623644201"] by simp
  have x2: "Num 0 + Num 1 = Num 1"
    using fl_eqI[of "1" 52 "4503599627370496"] by (simp add: add_Num)
  have x3: "Num 1 + Num (4548635623644201 / 4503599627370496) = Num (1131529406376837 / 562949953421312)"
    using fl_eqI[of "9052235251014697 / 4503599627370496" 51 "4526117625507348"] by (simp add: add_Num)
  have x4: "Num (1131529406376837 / 562949953421312) / Num 2 = Num (1131529406376837 / 1125899906842624)"
    using fl_eqI[of "1131529406376837 / 1125899906842624" 52 "4526117625507348"] by (simp add: div_Num)
  have x5: "Num (1131529406376837 / 1125899906842624) * Num 100 = Num (7072058789855231 / 70368744177664)"
    using fl_eqI[of "28288235159420925 / 281474976710656" 46 "7072058789855231"] by (simp add: mul_Num)
  have x6: "Math_round (Num (7072058789855231 / 70368744177664)) = Num 100"
    by (simp add: Math_round_def floor_eq_iff)
  have x7: "Num 100 / Num 100 = Num 1"
    using fl_eqI[of "1" 52 "4503599627370496"] by (simp add: div_Num)
  have p1: "Num 23 / Num 160 = Num (2589569785738035 / 18014398509481984)"
    using fl_eqI[of "23 / 160" 55 "5179139571476070"] by (simp add: div_Num)
  have p2: "Num (2589569785738035 / 18014398509481984) * Num 100 = Num (8092405580431359 / 562949953421312)"
    using fl_eqI[of "64739244643450875 / 4503599627370496" 49 "8092405580431359"] by (simp add: mul_Num)
  have p3: "Num (8092405580431359 / 562949953421312) * Num 100 = Num (6322191859711999 / 4398046511104)"
    using fl_eqI[of "202310139510783975 / 140737488355328" 42 "6322191859711999"] by (simp add: mul_Num)
  have p4: "Math_round (Num (6322191859711999 / 4398046511104)) = Num 1437"
    by (simp add: Math_round_def floor_eq_iff)
  have p5: "Num 1437 / Num 100 = Num (8089590830664253 / 562949953421312)"
    using fl_eqI[of "1437 / 100" 49 "8089590830664253"] by (simp add: div_Num)
  have p6: "fl (1437 / 100) = Num (8089590830664253 / 562949953421312)"
    using fl_eqI[of "1437 / 100" 49 "8089590830664253"] by simp
  have p7: "fl (719 / 50) = Num (8095220330198467 / 562949953421312)"
    using fl_eqI[of "719 / 50" 49 "8095220330198467"] by simp
  have v: "gov_values boardIndependence independence_samples = [Num 1, Num (4548635623644201 / 4503599627370496)]"
    by (simp add: gov_values_def independence_samples_def governed_def sample_record_def
        gov_of_def empty_governance_def x1)
  have l: "length independence_samples = 2" by (simp add: independence_samples_def)
  have ne: "independence_samples \<noteq> []" by (simp add: independence_samples_def)
  have o1: "averageBoardIndependence (aggregateGovernanceMetrics independence_samples) = Num 1"
    unfolding governance_totals[OF ne, unfolded l, simplified] v
    by (simp add: running_sum_def roundToDecimal_def x1 x2 x3 x4 x5 x6 x7)
  have l2: "length compliance_samples = 160" by (simp add: compliance_samples_def)
  have c2: "length (compliant_records compliance_samples) = 23"
    by (simp add: compliance_samples_def compliant_records_def governed_def sample_record_def
        gov_of_def empty_governance_def)
  have ne2: "compliance_samples \<noteq> []" using l2 by auto
  have o2: "complianceRate (aggregateGovernanceMetrics compliance_samples) = fl (1437 / 100)"
    unfolding governance_totals[OF ne2, unfolded l2 c2, simplified]
    by (simp add: roundToDecimal_def p1 p2 p3 p4 p5 p6 p7)
  have m: "of_int \<lfloor>(100 * 23 / 160 :: rat) * 100 + 1 / 2\<rfloor> / 100 = (1438 / 100 :: rat)"
    by (simp add: floor_eq_iff)
  show ?thesis
    unfolding o1 o2 v l2 c2 using m by (simp add: x1 x2 x3 x4 x5 x6 x7 p1 p2 p3 p4 p5 p6 p7)
qed

section \<open>The record store: saving and finding\<close>

lemma pre_save_fields:
  "rec_id (pre_save r) = rec_id r" "status (pre_save r) = status r"
  "organization (pre_save r) = organization r" "submittedAt (pre_save r) = submittedAt r"
  "approvedAt (pre_save r) = approvedAt r" "reviewedBy (pre_save r) = reviewedBy r"
  "reviewNotes (pre_save r) = reviewNotes r" "submittedBy (pre_save r) = submittedBy r"
  "createdAt (pre_save r) = createdAt r"
  by (simp_all add: pre_save_def split: option.splits)

lemma find_replaced:
  "find (\<lambda>r. rec_id r = i) xs = Some old \<Longrightarrow> rec_id new = i \<Longrightarrow>
   find (\<lambda>r. rec_id r = i) (map (\<lambda>r. if rec_id r = i then new else r) xs) = Some new"
  by (induction xs) (auto split: if_splits)

lemma find_Some_id: "find (\<lambda>r. rec_id r = i) xs = Some r \<Longrightarrow> rec_id r = i"
  by (induction xs) (auto split: if_splits)

lemma ESGRecord_save_found:
  assumes "ESGRecord_findById w s i = Inr (Some record)"
    and "rec_id doc = i" and "esg_valid w doc" and "\<not> db_writes_fail w"
  shows "ESGRecord_save w doc s
           = Inr (pre_save doc,
                  s\<lparr>esg_records := map (\<lambda>r. if rec_id r = i then pre_save doc else r)
                                      (esg_records s)\<rparr>)"
    and "ESGRecord_findById w
           (s\<lparr>esg_records := map (\<lambda>r. if rec_id r = i then pre_save doc else r)
                                      (esg_records s)\<rparr>) i = Inr (Some (pre_save doc))"
  using assms
  by (auto simp: ESGRecord_save_def ESGRecord_findById_def Let_def find_replaced pre_save_fields
      split: if_splits)

lemma submitESGRecord_found:
  assumes "ESGRecord_findById w s i = Inr (Some record)"
    and "role u = ADMINISTRATOR \<or> organization record = user.organization u"
  shows "submitESGRecord w u i s =
     (if status record \<noteq> ''draft'' then
        (errorResponse HTTP_BAD_REQUEST ''Only draft records can be submitted'', s)
      else
        (case ESGRecord_save w (submitted_doc w record) s of
           Inl error \<Rightarrow> (errorResponse HTTP_INTERNAL_SERVER_ERROR INTERNAL_ERROR, s)
         | Inr (saved, s1) \<Rightarrow>
             (successResponse HTTP_OK (RecordData saved) ESG_RECORD_SUBMITTED,
              snd (logESGRecordSubmitted w (user_id u) (rec_id saved) s1))))"
  using assms by (auto simp: submitESGRecord_def)

lemma approveESGRecord_found:
  assumes "ESGRecord_findById w s i = Inr (Some record)"
  shows "approveESGRecord w u i notes s =
     (if status record \<noteq> ''submitted'' \<and> status record \<noteq> ''under_review'' then
        (errorResponse HTTP_BAD_REQUEST
           ''Only submitted or under review records can be approved'', s)
      else
        (case ESGRecord_save w (approved_doc w u notes record) s of
           Inl error \<Rightarrow> (errorResponse HTTP_INTERNAL_SERVER_ERROR INTERNAL_ERROR, s)
         | Inr (saved, s1) \<Rightarrow>
             (successResponse HTTP_OK (RecordData saved) ESG_RECORD_APPROVED,
              snd (logESGRecordApproved w (user_id u) (rec_id saved) s1))))"
  using assms by (auto simp: approveESGRecord_def)

lemma createLog_frame:
  "users (snd (createLog w e s)) = users s"
  "esg_records (snd (createLog w e s)) = esg_records s"
  "reports (snd (createLog w e s)) = reports s"
  by (simp_all add: createLog_def AuditLog_create_def)

lemmas log_defs = logLogin_def logLogout_def logUserCreated_def logUserUpdated_def
  logESGRecordCreated_def logESGRecordUpdated_def logESGRecordSubmitted_def
  logESGRecordApproved_def logReportGenerated_def logUnauthorizedAccess_def

lemma log_frame_esg:
  "esg_records (snd (logLogin w a b c s)) = esg_records s"
  "esg_records (snd (logLogout w i s)) = esg_records s"
  "esg_records (snd (logUserCreated w i j s)) = esg_records s"
  "esg_records (snd (logUserUpdated w i j s)) = esg_records s"
  "esg_records (snd (logESGRecordCreated w i j s)) = esg_records s"
  "esg_records (snd (logESGRecordUpdated w i j s)) = esg_records s"
  "esg_records (snd (logESGRecordSubmitted w i j s)) = esg_records s"
  "esg_records (snd (logESGRecordApproved w i j s)) = esg_records s"
  "esg_records (snd (logReportGenerated w i j s)) = esg_records s"
  "esg_records (snd (logUnauthorizedAccess w i s)) = esg_records s"
  by (simp_all add: log_defs createLog_frame)

lemma ESGRecord_findById_log:
  "ESGRecord_findById w (snd (logESGRecordSubmitted w' a b s)) i = ESGRecord_findById w s i"
  "ESGRecord_findById w (snd (logESGRecordApproved w' a b s)) i = ESGRecord_findById w s i"
  by (simp_all add: ESGRecord_findById_def log_frame_esg)

lemma submitted_doc_fields:
  "rec_id (submitted_doc w r) = rec_id r" "status (submitted_doc w r) = ''submitted''"
  "submittedAt (submitted_doc w r) = Some (now w)"
  by (simp_all add: submitted_doc_def)

lemma approved_doc_fields:
  "rec_id (approved_doc w u n r) = rec_id r" "status (approved_doc w u n r) = ''approved''"
  "reviewedBy (approved_doc w u n r) = Some (user_id u)"
  "approvedAt (approved_doc w u n r) = Some (now w)"
  by (simp_all add: approved_doc_def Let_def)

lemma found_id: "ESGRecord_findById w s i = Inr (Some record) \<Longrightarrow> rec_id record = i"
  by (auto simp: ESGRecord_findById_def split: if_splits dest: find_Some_id)

lemma submit_succeeds:
  assumes found: "ESGRecord_findById w s i = Inr (Some record)"
    and access: "role u = ADMINISTRATOR \<or> organization record = user.organization u"
    and d: "status record = ''draft''" and v: "esg_valid w (submitted_doc w record)"
    and f: "\<not> db_writes_fail w"
  shows "code (fst (submitESGRecord w u i s)) = HTTP_OK
       \<and> ESGRecord_findById w (snd (submitESGRecord w u i s)) i
           = Inr (Some (pre_save (submitted_doc w record)))
       \<and> status (pre_save (submitted_doc w record)) = ''submitted''
       \<and> submittedAt (pre_save (submitted_doc w record)) = Some (now w)"
proof -
  note sv = ESGRecord_save_found [OF found _ v f, simplified submitted_doc_fields,
      OF found_id [OF found]]
  show ?thesis
    using d
    by (simp add: submitESGRecord_found [OF found access] sv successResponse_def
        ESGRecord_findById_log pre_save_fields submitted_doc_fields)
qed

lemma approve_succeeds:
  assumes found: "ESGRecord_findById w s i = Inr (Some record)"
    and d: "status record = ''submitted'' \<or> status record = ''under_review''"
    and va: "esg_valid w (approved_doc w v notes record)" and f: "\<not> db_writes_fail w"
  shows "code (fst (approveESGRecord w v i notes s)) = HTTP_OK
       \<and> ESGRecord_findById w (snd (approveESGRecord w v i notes s)) i
           = Inr (Some (pre_save (approved_doc w v notes record)))
       \<and> status (pre_save (approved_doc w v notes record)) = ''approved''
       \<and> reviewedBy (pre_save (approved_doc w v notes record)) = Some (user_id v)
       \<and> approvedAt (pre_save (approved_doc w v notes record)) = Some (now w)"
proof -
  note sv = ESGRecord_save_found [OF found _ va f, simplified approved_doc_fields,
      OF found_id [OF found]]
  have c: "\<not> (status record \<noteq> ''submitted'' \<and> status record \<noteq> ''under_review'')"
    using d by blast
  show ?thesis
    unfolding approveESGRecord_found [OF found] if_not_P [OF c]
    by (simp add: sv successResponse_def ESGRecord_findById_log pre_save_fields
        approved_doc_fields)
qed

lemma acme_record_valid:
  "esgRecordSchema_valid (acme_record ''draft'' x) = (x \<noteq> [])"
  "esgRecordSchema_valid (acme_record ''submitted'' x) = (x \<noteq> [])"
  "esgRecordSchema_valid (submitted_doc w (acme_record ''draft'' x)) = (x \<noteq> [])"
  "esgRecordSchema_valid (approved_doc w u None (acme_record ''submitted'' x)) = (x \<noteq> [])"
  by (simp_all add: esgRecordSchema_valid_def acme_record_def submitted_doc_def approved_doc_def
      truthy_def env_of_def social_of_def gov_of_def environmental_defaults_def
      social_defaults_def governance_defaults_def empty_environmental_def empty_social_def
      empty_governance_def default0_def at_least0_def in_range_def Let_def)

section \<open>The record lifecycle\<close>

text \<open>
  C6. For a record that exists and that the caller may reach (an administrator, or a user
  of the record's organization), \<^verbatim>\<open>submitESGRecord\<close> answers 400 and leaves the database
  as it was when the status is not draft, answers 200 only when it is draft, and, when
  it is draft and the save goes through, answers 200 and stores the record with status
  submitted and \<^verbatim>\<open>submittedAt\<close> set to the current time. For a record that exists,
  \<^verbatim>\<open>approveESGRecord\<close> answers 400 and leaves the database as it was when the status is
  neither submitted nor under review, answers 200 only in those two statuses, and, when the
  save goes through, stores the record with status approved, \<^verbatim>\<open>reviewedBy\<close> the caller
  and \<^verbatim>\<open>approvedAt\<close> the current time.
\<close>

theorem submit_and_approve_by_status:
  assumes found: "ESGRecord_findById w s i = Inr (Some record)"
    and access: "role u = ADMINISTRATOR \<or> organization record = user.organization u"
  shows "(status record \<noteq> ''draft'' \<longrightarrow>
            code (fst (submitESGRecord w u i s)) = HTTP_BAD_REQUEST
            \<and> snd (submitESGRecord w u i s) = s)
       \<and> (code (fst (submitESGRecord w u i s)) = HTTP_OK \<longrightarrow> status record = ''draft'')
       \<and> (status record = ''draft'' \<and> esg_valid w (submitted_doc w record)
            \<and> \<not> db_writes_fail w \<longrightarrow>
            code (fst (submitESGRecord w u i s)) = HTTP_OK
            \<and> ESGRecord_findById w (snd (submitESGRecord w u i s)) i
                = Inr (Some (pre_save (submitted_doc w record)))
            \<and> status (pre_save (submitted_doc w record)) = ''submitted''
            \<and> submittedAt (pre_save (submitted_doc w record)) = Some (now w))
       \<and> (status record \<noteq> ''submitted'' \<and> status record \<noteq> ''under_review'' \<longrightarrow>
            code (fst (approveESGRecord w v i notes s)) = HTTP_BAD_REQUEST
            \<and> snd (approveESGRecord w v i notes s) = s)
       \<and> (code (fst (approveESGRecord w v i notes s)) = HTTP_OK \<longrightarrow>
            status record = ''submitted'' \<or> status record = ''under_review'')
       \<and> ((status record = ''submitted'' \<or> status record = ''under_review'')
            \<and> esg_valid w (approved_doc w v notes record) \<and> \<not> db_writes_fail w \<longrightarrow>
            code (fst (approveESGRecord w v i notes s)) = HTTP_OK
            \<and> ESGRecord_findById w (snd (approveESGRecord w v i notes s)) i
                = Inr (Some (pre_save (approved_doc w v notes record)))
            \<and> status (pre_save (approved_doc w v notes record)) = ''approved''
            \<and> reviewedBy (pre_save (approved_doc w v notes record)) = Some (user_id v)
            \<and> approvedAt (pre_save (approved_doc w v notes record)) = Some (now w))"
proof -
  note sub = submitESGRecord_found [OF found access]
  note app = approveESGRecord_found [OF found]
  have s1: "status record \<noteq> ''draft'' \<longrightarrow>
            code (fst (submitESGRecord w u i s)) = HTTP_BAD_REQUEST
            \<and> snd (submitESGRecord w u i s) = s"
    by (simp add: sub errorResponse_def)
  have s2: "code (fst (submitESGRecord w u i s)) = HTTP_OK \<longrightarrow> status record = ''draft''"
    by (simp add: sub errorResponse_def)
  have a1: "status record \<noteq> ''submitted'' \<and> status record \<noteq> ''under_review'' \<longrightarrow>
            code (fst (approveESGRecord w v i notes s)) = HTTP_BAD_REQUEST
            \<and> snd (approveESGRecord w v i notes s) = s"
    by (simp add: app errorResponse_def)
  have a2: "code (fst (approveESGRecord w v i notes s)) = HTTP_OK \<longrightarrow>
            status record = ''submitted'' \<or> status record = ''under_review''"
    using a1 by fastforce
  from s1 s2 a1 a2 submit_succeeds [OF found access] approve_succeeds [OF found]
  show ?thesis by blast
qed

theorem submit_and_approve_by_status_witness:
  "ESGRecord_findById sample_world
      (database_of [] [acme_record ''draft'' ''65f0000000000000000000aa''] [])
      ''65f000000000000000000001''
     = Inr (Some (acme_record ''draft'' ''65f0000000000000000000aa''))
   \<and> (role (sample_user ''65f0000000000000000000aa'' ESG_ANALYST ''Acme'') = ADMINISTRATOR
        \<or> organization (acme_record ''draft'' ''65f0000000000000000000aa'')
            = user.organization (sample_user ''65f0000000000000000000aa'' ESG_ANALYST ''Acme''))
   \<and> code (fst (submitESGRecord sample_world
          (sample_user ''65f0000000000000000000aa'' ESG_ANALYST ''Acme'')
          ''65f000000000000000000001''
          (database_of [] [acme_record ''draft'' ''65f0000000000000000000aa''] []))) = HTTP_OK
   \<and> code (fst (approveESGRecord sample_world
          (sample_user ''65f0000000000000000000bb'' AUDITOR ''Acme'')
          ''65f000000000000000000001'' None
          (database_of [] [acme_record ''draft'' ''65f0000000000000000000aa''] [])))
       = HTTP_BAD_REQUEST"
proof -
  let ?r = "acme_record ''draft'' ''65f0000000000000000000aa''"
  let ?s = "database_of [] [?r] []"
  let ?u = "sample_user ''65f0000000000000000000aa'' ESG_ANALYST ''Acme''"
  have found: "ESGRecord_findById sample_world ?s ''65f000000000000000000001'' = Inr (Some ?r)"
    by (simp add: ESGRecord_findById_def sample_world_def database_of_def acme_record_def)
  have access: "role ?u = ADMINISTRATOR \<or> organization ?r = user.organization ?u"
    by (simp add: sample_user_def acme_record_def)
  have st: "status ?r = ''draft''" by (simp add: acme_record_def)
  have v: "esg_valid sample_world (submitted_doc sample_world ?r)"
    by (simp add: sample_world_def acme_record_valid)
  have f: "\<not> db_writes_fail sample_world" by (simp add: sample_world_def)
  note t = submit_and_approve_by_status [OF found access,
      of "sample_user ''65f0000000000000000000bb'' AUDITOR ''Acme''" None]
  from t st v f have "code (fst (submitESGRecord sample_world ?u ''65f000000000000000000001'' ?s))
      = HTTP_OK" by blast
  moreover from t st have "code (fst (approveESGRecord sample_world
          (sample_user ''65f0000000000000000000bb'' AUDITOR ''Acme'')
          ''65f000000000000000000001'' None ?s)) = HTTP_BAD_REQUEST" by simp
  ultimately show ?thesis using found access by blast
qed

lemma with_role_checkRole:
  "with_role (checkRole roles) w u s k =
     (if role u \<in> set roles then k s
      else (errorResponse HTTP_FORBIDDEN INSUFFICIENT_PERMISSIONS,
            snd (logUnauthorizedAccess w (user_id u) s)))"
  by (simp add: with_role_def checkRole_def)

lemma approve_route:
  assumes "authenticate w authHeader s = Inr u"
    and "role u = ADMINISTRATOR \<or> role u = ESG_ANALYST \<or> role u = AUDITOR"
    and "validateObjectId i = None"
  shows "handle_request w authHeader (POST_esg_id_approve i notes) s
           = approveESGRecord w u i notes s"
  using assms
  by (auto simp: handle_request_def with_auth_def anyRole_def with_role_checkRole with_check_def)

lemma sample_authenticate:
  "authenticate sample_world (Some (''Bearer '' @ i)) (database_of [sample_user i r org] rs reps)
     = (if i = [] then Inl (errorResponse HTTP_UNAUTHORIZED TOKEN_MISSING)
        else Inr (sanitizeUser (sample_user i r org)))"
  by (simp add: authenticate_def sample_world_def database_of_def User_findById_def
      sample_user_def sanitizeUser_def Let_def)

lemma sanitized_sample_user:
  "role (sanitizeUser (sample_user i r org)) = r"
  "user_id (sanitizeUser (sample_user i r org)) = i"
  "user.organization (sanitizeUser (sample_user i r org)) = org"
  by (simp_all add: sanitizeUser_def sample_user_def)

text \<open>
  C9. The approval route asks for no particular role and no organization: for any
  authenticated user whose role is one of the three the system knows, of whatever
  organization and whoever submitted the record, the request reaches the controller, and a
  record that exists with status submitted or under review is approved by that user (when
  the save goes through). The example is an analyst of another organization approving the
  record they submitted themselves.
\<close>

theorem approve_needs_no_role_or_organization:
  assumes auth: "authenticate w authHeader s = Inr u"
    and anyrole: "role u = ADMINISTRATOR \<or> role u = ESG_ANALYST \<or> role u = AUDITOR"
    and oid: "validateObjectId i = None"
    and found: "ESGRecord_findById w s i = Inr (Some record)"
    and st: "status record = ''submitted'' \<or> status record = ''under_review''"
    and valid: "esg_valid w (approved_doc w u notes record)"
    and writes: "\<not> db_writes_fail w"
  shows "handle_request w authHeader (POST_esg_id_approve i notes) s
           = approveESGRecord w u i notes s
       \<and> code (fst (handle_request w authHeader (POST_esg_id_approve i notes) s)) = HTTP_OK
       \<and> ESGRecord_findById w
             (snd (handle_request w authHeader (POST_esg_id_approve i notes) s)) i
           = Inr (Some (pre_save (approved_doc w u notes record)))
       \<and> status (pre_save (approved_doc w u notes record)) = ''approved''
       \<and> reviewedBy (pre_save (approved_doc w u notes record)) = Some (user_id u)"
  using approve_succeeds [OF found st valid writes]
  by (simp add: approve_route [OF auth anyrole oid])

theorem approve_needs_no_role_or_organization_witness:
  "authenticate sample_world (Some ''Bearer 65f0000000000000000000aa'')
      (database_of [sample_user ''65f0000000000000000000aa'' ESG_ANALYST ''Globex'']
         [acme_record ''submitted'' ''65f0000000000000000000aa''] [])
     = Inr (sanitizeUser (sample_user ''65f0000000000000000000aa'' ESG_ANALYST ''Globex''))
   \<and> submittedBy (acme_record ''submitted'' ''65f0000000000000000000aa'')
       = user_id (sanitizeUser (sample_user ''65f0000000000000000000aa'' ESG_ANALYST ''Globex''))
   \<and> organization (acme_record ''submitted'' ''65f0000000000000000000aa'') = ''Acme''
   \<and> user.organization
        (sanitizeUser (sample_user ''65f0000000000000000000aa'' ESG_ANALYST ''Globex''))
       = ''Globex''
   \<and> code (fst (handle_request sample_world (Some ''Bearer 65f0000000000000000000aa'')
         (POST_esg_id_approve ''65f000000000000000000001'' None)
         (database_of [sample_user ''65f0000000000000000000aa'' ESG_ANALYST ''Globex'']
            [acme_record ''submitted'' ''65f0000000000000000000aa''] []))) = HTTP_OK
   \<and> reviewedBy (pre_save (approved_doc sample_world
         (sanitizeUser (sample_user ''65f0000000000000000000aa'' ESG_ANALYST ''Globex''))
         None (acme_record ''submitted'' ''65f0000000000000000000aa'')))
       = Some ''65f0000000000000000000aa''"
proof -
  let ?u = "sample_user ''65f0000000000000000000aa'' ESG_ANALYST ''Globex''"
  let ?r = "acme_record ''submitted'' ''65f0000000000000000000aa''"
  let ?s = "database_of [?u] [?r] []"
  have auth: "authenticate sample_world (Some ''Bearer 65f0000000000000000000aa'') ?s
      = Inr (sanitizeUser ?u)"
    using sample_authenticate [of "''65f0000000000000000000aa''" ESG_ANALYST "''Globex''"
        "[?r]" "[]"]
    by simp
  have anyrole: "role (sanitizeUser ?u) = ADMINISTRATOR \<or> role (sanitizeUser ?u) = ESG_ANALYST
      \<or> role (sanitizeUser ?u) = AUDITOR"
    by (simp add: sanitized_sample_user)
  have oid: "validateObjectId ''65f000000000000000000001'' = None"
    by (simp add: validateObjectId_def is_hex_def)
  have found: "ESGRecord_findById sample_world ?s ''65f000000000000000000001'' = Inr (Some ?r)"
    by (simp add: ESGRecord_findById_def sample_world_def database_of_def acme_record_def)
  have st: "status ?r = ''submitted'' \<or> status ?r = ''under_review''"
    by (simp add: acme_record_def)
  have valid: "esg_valid sample_world (approved_doc sample_world (sanitizeUser ?u) None ?r)"
    by (simp add: sample_world_def acme_record_valid)
  have writes: "\<not> db_writes_fail sample_world" by (simp add: sample_world_def)
  note t = approve_needs_no_role_or_organization [OF auth anyrole oid found st valid writes]
  have sb: "submittedBy ?r = user_id (sanitizeUser ?u)"
    by (simp add: acme_record_def sanitized_sample_user)
  have o1: "organization ?r = ''Acme''" by (simp add: acme_record_def)
  have o2: "user.organization (sanitizeUser ?u) = ''Globex''"
    by (simp add: sanitized_sample_user)
  from t have "code (fst (handle_request sample_world (Some ''Bearer 65f0000000000000000000aa'')
         (POST_esg_id_approve ''65f000000000000000000001'' None) ?s)) = HTTP_OK" by blast
  moreover from t have "reviewedBy (pre_save (approved_doc sample_world (sanitizeUser ?u)
         None ?r)) = Some ''65f0000000000000000000aa''"
    by (simp add: sanitized_sample_user)
  ultimately show ?thesis using auth sb o1 o2 by blast
qed

section \<open>Report generation and report status\<close>

lemma log_frame_reports:
  "reports (snd (logReportGenerated w i j s)) = reports s"
  by (simp add: logReportGenerated_def createLog_frame)

lemma getRecordsForPeriod_eligible:
  "getRecordsForPeriod w org a b s = Inr records \<Longrightarrow> r \<in> set records \<Longrightarrow>
   organization r = org \<and> status r = ''approved'' \<and> a \<le> createdAt r \<and> createdAt r \<le> b
   \<and> r \<in> set (esg_records s)"
  by (auto simp: getRecordsForPeriod_def split: if_splits)

text \<open>
  C4. When the window of the report resolves and the eligible-record query returns the
  empty list, \<^verbatim>\<open>generateReport\<close> answers 400 and the database is as it was: no report is
  created. Whenever the collection of reports does change, the query returned a non-empty
  list of approved records of the organization inside the window, and the one report added
  references exactly those records.
\<close>

theorem generateReport_refuses_empty_period:
  "(reportDates w rtype yr qtr mon startD endD = Inr (a, b)
      \<and> getRecordsForPeriod w org a b s = Inr [] \<longrightarrow>
      code (fst (generateReport w u title org rtype yr qtr mon startD endD s)) = HTTP_BAD_REQUEST
      \<and> snd (generateReport w u title org rtype yr qtr mon startD endD s) = s)
   \<and> (reports (snd (generateReport w u title org rtype yr qtr mon startD endD s)) \<noteq> reports s
      \<longrightarrow> (\<exists>a' b' records rep.
             reportDates w rtype yr qtr mon startD endD = Inr (a', b')
             \<and> getRecordsForPeriod w org a' b' s = Inr records
             \<and> records \<noteq> []
             \<and> (\<forall>r \<in> set records. r \<in> set (esg_records s) \<and> organization r = org
                    \<and> status r = ''approved'' \<and> a' \<le> createdAt r \<and> createdAt r \<le> b')
             \<and> reports (snd (generateReport w u title org rtype yr qtr mon startD endD s))
                 = reports s @ [rep]
             \<and> includedRecords rep = map rec_id records))"
proof (intro conjI impI)
  assume "reportDates w rtype yr qtr mon startD endD = Inr (a, b)
      \<and> getRecordsForPeriod w org a b s = Inr []"
  then show "code (fst (generateReport w u title org rtype yr qtr mon startD endD s))
      = HTTP_BAD_REQUEST"
    by (simp add: generateReport_def errorResponse_def)
next
  assume "reportDates w rtype yr qtr mon startD endD = Inr (a, b)
      \<and> getRecordsForPeriod w org a b s = Inr []"
  then show "snd (generateReport w u title org rtype yr qtr mon startD endD s) = s"
    by (simp add: generateReport_def)
next
  assume changed:
    "reports (snd (generateReport w u title org rtype yr qtr mon startD endD s)) \<noteq> reports s"
  then obtain a' b' where dates: "reportDates w rtype yr qtr mon startD endD = Inr (a', b')"
    by (cases "reportDates w rtype yr qtr mon startD endD")
       (auto simp: generateReport_def)
  from changed dates obtain records where
    q: "getRecordsForPeriod w org a' b' s = Inr records"
    by (cases "getRecordsForPeriod w org a' b' s") (auto simp: generateReport_def)
  from changed dates q have ne: "records \<noteq> []"
    by (auto simp: generateReport_def)
  from changed dates q ne obtain rep where
    r: "reports (snd (generateReport w u title org rtype yr qtr mon startD endD s))
          = reports s @ [rep]" "includedRecords rep = map rec_id records"
    by (auto simp: generateReport_def Let_def Report_create_def log_frame_reports
        split: sum.splits prod.splits if_splits)
  from getRecordsForPeriod_eligible [OF q]
  have "\<forall>r \<in> set records. r \<in> set (esg_records s) \<and> organization r = org
          \<and> status r = ''approved'' \<and> a' \<le> createdAt r \<and> createdAt r \<le> b'"
    by blast
  with dates q ne r
  show "\<exists>a' b' records rep.
             reportDates w rtype yr qtr mon startD endD = Inr (a', b')
             \<and> getRecordsForPeriod w org a' b' s = Inr records
             \<and> records \<noteq> []
             \<and> (\<forall>r \<in> set records. r \<in> set (esg_records s) \<and> organization r = org
                    \<and> status r = ''approved'' \<and> a' \<le> createdAt r \<and> createdAt r \<le> b')
             \<and> reports (snd (generateReport w u title org rtype yr qtr mon startD endD s))
                 = reports s @ [rep]
             \<and> includedRecords rep = map rec_id records"
    by blast
qed

theorem generateReport_refuses_empty_period_witness:
  "reportDates sample_world ''custom'' 2024 None None (Some 600) (Some 900) = Inr (600, 900)
   \<and> getRecordsForPeriod sample_world ''Acme'' 600 900
        (database_of [] [acme_record ''approved'' ''65f0000000000000000000aa''] []) = Inr []
   \<and> code (fst (generateReport sample_world
        (sample_user ''65f0000000000000000000aa'' ESG_ANALYST ''Acme'')
        ''Late 2024'' ''Acme'' ''custom'' 2024 None None (Some 600) (Some 900)
        (database_of [] [acme_record ''approved'' ''65f0000000000000000000aa''] [])))
       = HTTP_BAD_REQUEST
   \<and> snd (generateReport sample_world
        (sample_user ''65f0000000000000000000aa'' ESG_ANALYST ''Acme'')
        ''Late 2024'' ''Acme'' ''custom'' 2024 None None (Some 600) (Some 900)
        (database_of [] [acme_record ''approved'' ''65f0000000000000000000aa''] []))
       = database_of [] [acme_record ''approved'' ''65f0000000000000000000aa''] []"
proof -
  let ?s = "database_of [] [acme_record ''approved'' ''65f0000000000000000000aa''] []"
  have d: "reportDates sample_world ''custom'' 2024 None None (Some 600) (Some 900)
      = Inr (600, 900)"
    by (simp add: reportDates_def)
  have q: "getRecordsForPeriod sample_world ''Acme'' 600 900 ?s = Inr []"
    by (simp add: getRecordsForPeriod_def sample_world_def database_of_def acme_record_def)
  from generateReport_refuses_empty_period
    [of sample_world "''custom''" 2024 None None "Some 600" "Some 900" 600 900 "''Acme''" ?s
        "sample_user ''65f0000000000000000000aa'' ESG_ANALYST ''Acme''" "''Late 2024''"] d q
  show ?thesis by blast
qed

lemma find_report_replaced:
  "find (\<lambda>r. report_id r = i) xs = Some old \<Longrightarrow> report_id new = i \<Longrightarrow>
   find (\<lambda>r. report_id r = i) (map (\<lambda>r. if report_id r = i then new else r) xs) = Some new"
  by (induction xs) (auto split: if_splits)

lemma find_report_id: "find (\<lambda>r. report_id r = i) xs = Some r \<Longrightarrow> report_id r = i"
  by (induction xs) (auto split: if_splits)

lemma restatused_fields:
  "report_id (restatused w st notes rep) = report_id rep"
  "x \<noteq> [] \<Longrightarrow> report.status (restatused w (Some x) notes rep) = x"
  "publishedAt (restatused w (Some ''published'') notes rep) = Some (now w)"
  by (simp_all add: restatused_def Let_def split: option.splits)

lemma updateReportStatus_succeeds:
  assumes found: "Report_findById w s i = Inr (Some rep)"
    and access: "role u = ADMINISTRATOR \<or> report.organization rep = user.organization u"
    and valid: "report_valid w (restatused w st notes rep)"
    and writes: "\<not> db_writes_fail w"
  shows "code (fst (updateReportStatus w u i st notes s)) = HTTP_OK
       \<and> Report_findById w (snd (updateReportStatus w u i st notes s)) i
           = Inr (Some (restatused w st notes rep))"
proof -
  have idr: "report_id rep = i"
    using found by (auto simp: Report_findById_def split: if_splits dest: find_report_id)
  have nr: "\<not> db_reads_fail w"
    using found by (auto simp: Report_findById_def split: if_splits)
  have f: "find (\<lambda>r. report_id r = i) (reports s) = Some rep"
    using found by (auto simp: Report_findById_def split: if_splits)
  have sv: "Report_save w (restatused w st notes rep) s
      = Inr (restatused w st notes rep,
             s\<lparr>reports := map (\<lambda>r. if report_id r = i then restatused w st notes rep else r)
                               (reports s)\<rparr>)"
    using valid writes by (simp add: Report_save_def restatused_fields idr)
  have after: "Report_findById w
      (s\<lparr>reports := map (\<lambda>r. if report_id r = i then restatused w st notes rep else r)
                        (reports s)\<rparr>) i = Inr (Some (restatused w st notes rep))"
    using nr find_report_replaced [OF f, of "restatused w st notes rep"]
    by (simp add: Report_findById_def restatused_fields idr)
  have body: "updateReportStatus w u i st notes s =
      (case Report_save w (restatused w st notes rep) s of
         Inl error \<Rightarrow> (errorResponse HTTP_INTERNAL_SERVER_ERROR INTERNAL_ERROR, s)
       | Inr (saved, s1) \<Rightarrow>
           (successResponse HTTP_OK (ReportData saved) ''Report updated successfully'', s1))"
    using found access by (auto simp: updateReportStatus_def)
  show ?thesis
    by (simp add: body sv after successResponse_def)
qed

lemma sample_report_found:
  "Report_findById sample_world (database_of [] [] [sample_report st])
     ''65f000000000000000000002'' = Inr (Some (sample_report st))"
  by (simp add: Report_findById_def sample_world_def database_of_def sample_report_def)

lemma sample_report_restatused_valid:
  "x \<in> set [''draft'', ''finalized'', ''published'', ''archived''] \<Longrightarrow>
   report_valid sample_world (restatused sample_world (Some x) None (sample_report st))"
  by (auto simp: sample_world_def reportSchema_valid_def restatused_def sample_report_def
      truthy_def Let_def score_in_range_def)

lemma updateReportStatus_rejected:
  assumes found: "Report_findById w s i = Inr (Some rep)"
    and access: "role u = ADMINISTRATOR \<or> report.organization rep = user.organization u"
    and rejected: "\<not> report_valid w (restatused w st notes rep) \<or> db_writes_fail w"
  shows "code (fst (updateReportStatus w u i st notes s)) = HTTP_INTERNAL_SERVER_ERROR
       \<and> snd (updateReportStatus w u i st notes s) = s"
proof -
  have sv: "Report_save w (restatused w st notes rep) s = Inl (failure_message w)"
    using rejected by (auto simp: Report_save_def)
  have body: "updateReportStatus w u i st notes s =
      (case Report_save w (restatused w st notes rep) s of
         Inl error \<Rightarrow> (errorResponse HTTP_INTERNAL_SERVER_ERROR INTERNAL_ERROR, s)
       | Inr (saved, s1) \<Rightarrow>
           (successResponse HTTP_OK (ReportData saved) ''Report updated successfully'', s1))"
    using found access by (auto simp: updateReportStatus_def)
  show ?thesis by (simp add: body sv errorResponse_def)
qed

lemma schema_admits_four_statuses:
  assumes "x \<noteq> []" and "reportSchema_valid (restatused w (Some x) notes rep)"
  shows "x \<in> set [''draft'', ''finalized'', ''published'', ''archived'']"
proof -
  have "report.status (restatused w (Some x) notes rep) = x"
    using assms(1) by (simp add: restatused_fields)
  with assms(2) show ?thesis
    by (simp add: reportSchema_valid_def del: set_simps)
qed

text \<open>
  C5, as the code has it. For a report that exists and that the caller may reach,
  \<^verbatim>\<open>updateReportStatus\<close> hands a requested status that is not empty to \<^verbatim>\<open>save\<close> without
  comparing it with the current one. When the save goes through (validation accepts the
  document and the write succeeds), the answer is 200 and the stored report has the
  requested status, whatever the current one was, with \<^verbatim>\<open>publishedAt\<close> set to the current
  time when the requested status is \<^verbatim>\<open>published\<close>. When the save is rejected, the answer is
  500 and the database is as it was. The validation of the schema accepts the four statuses
  draft, finalized, published, archived and no other.
\<close>

theorem updateReportStatus_writes_requested_status:
  assumes found: "Report_findById w s i = Inr (Some rep)"
    and access: "role u = ADMINISTRATOR \<or> report.organization rep = user.organization u"
    and given: "st \<noteq> []"
  shows "(report_valid w (restatused w (Some st) notes rep) \<and> \<not> db_writes_fail w \<longrightarrow>
            code (fst (updateReportStatus w u i (Some st) notes s)) = HTTP_OK
            \<and> Report_findById w (snd (updateReportStatus w u i (Some st) notes s)) i
                = Inr (Some (restatused w (Some st) notes rep))
            \<and> report.status (restatused w (Some st) notes rep) = st
            \<and> (st = ''published'' \<longrightarrow>
                 publishedAt (restatused w (Some st) notes rep) = Some (now w)))
       \<and> (\<not> report_valid w (restatused w (Some st) notes rep) \<or> db_writes_fail w \<longrightarrow>
            code (fst (updateReportStatus w u i (Some st) notes s))
              = HTTP_INTERNAL_SERVER_ERROR
            \<and> snd (updateReportStatus w u i (Some st) notes s) = s)
       \<and> (reportSchema_valid (restatused w (Some st) notes rep) \<longrightarrow>
            st \<in> set [''draft'', ''finalized'', ''published'', ''archived''])"
proof (intro conjI impI)
  assume ok: "report_valid w (restatused w (Some st) notes rep) \<and> \<not> db_writes_fail w"
  then have v: "report_valid w (restatused w (Some st) notes rep)"
    and f: "\<not> db_writes_fail w" by simp_all
  note t = updateReportStatus_succeeds [OF found access v f]
  from t show "code (fst (updateReportStatus w u i (Some st) notes s)) = HTTP_OK" by blast
  from t show "Report_findById w (snd (updateReportStatus w u i (Some st) notes s)) i
                = Inr (Some (restatused w (Some st) notes rep))" by blast
  from given show "report.status (restatused w (Some st) notes rep) = st"
    by (simp add: restatused_fields)
  assume "st = ''published''"
  then show "publishedAt (restatused w (Some st) notes rep) = Some (now w)"
    by (simp add: restatused_fields)
next
  assume r: "\<not> report_valid w (restatused w (Some st) notes rep) \<or> db_writes_fail w"
  from updateReportStatus_rejected [OF found access r]
  show "code (fst (updateReportStatus w u i (Some st) notes s)) = HTTP_INTERNAL_SERVER_ERROR"
    and "snd (updateReportStatus w u i (Some st) notes s) = s" by blast+
next
  assume "reportSchema_valid (restatused w (Some st) notes rep)"
  with given show "st \<in> set [''draft'', ''finalized'', ''published'', ''archived'']"
    by (rule schema_admits_four_statuses)
qed

theorem updateReportStatus_writes_requested_status_witness:
  "Report_findById sample_world (database_of [] [] [sample_report ''draft''])
     ''65f000000000000000000002'' = Inr (Some (sample_report ''draft''))
   \<and> code (fst (updateReportStatus sample_world
        (sample_user ''65f0000000000000000000aa'' ESG_ANALYST ''Acme'')
        ''65f000000000000000000002'' (Some ''published'') None
        (database_of [] [] [sample_report ''draft'']))) = HTTP_OK
   \<and> report.status (restatused sample_world (Some ''published'') None (sample_report ''draft''))
       = ''published''
   \<and> publishedAt (restatused sample_world (Some ''published'') None (sample_report ''draft''))
       = Some 1000
   \<and> code (fst (updateReportStatus sample_world
        (sample_user ''65f0000000000000000000aa'' ESG_ANALYST ''Acme'')
        ''65f000000000000000000002'' (Some ''bogus'') None
        (database_of [] [] [sample_report ''draft'']))) = HTTP_INTERNAL_SERVER_ERROR
   \<and> snd (updateReportStatus sample_world
        (sample_user ''65f0000000000000000000aa'' ESG_ANALYST ''Acme'')
        ''65f000000000000000000002'' (Some ''bogus'') None
        (database_of [] [] [sample_report ''draft'']))
       = database_of [] [] [sample_report ''draft'']"
proof -
  let ?u = "sample_user ''65f0000000000000000000aa'' ESG_ANALYST ''Acme''"
  let ?s = "database_of [] [] [sample_report ''draft'']"
  have access: "role ?u = ADMINISTRATOR
      \<or> report.organization (sample_report ''draft'') = user.organization ?u"
    by (simp add: sample_user_def sample_report_def)
  have valid: "report_valid sample_world
      (restatused sample_world (Some ''published'') None (sample_report ''draft''))"
    by (rule sample_report_restatused_valid) simp
  have invalid: "\<not> report_valid sample_world
      (restatused sample_world (Some ''bogus'') None (sample_report ''draft''))"
    by (simp add: sample_world_def reportSchema_valid_def restatused_fields)
  have writes: "\<not> db_writes_fail sample_world" by (simp add: sample_world_def)
  have n: "now sample_world = 1000" by (simp add: sample_world_def)
  note p = updateReportStatus_writes_requested_status
    [OF sample_report_found access, of "''published''" None]
  note b = updateReportStatus_writes_requested_status
    [OF sample_report_found access, of "''bogus''" None]
  from p valid writes n
  have "code (fst (updateReportStatus sample_world ?u ''65f000000000000000000002''
          (Some ''published'') None ?s)) = HTTP_OK"
    and "report.status (restatused sample_world (Some ''published'') None
          (sample_report ''draft'')) = ''published''"
    and "publishedAt (restatused sample_world (Some ''published'') None
          (sample_report ''draft'')) = Some 1000"
    by simp_all
  moreover from b invalid
  have "code (fst (updateReportStatus sample_world ?u ''65f000000000000000000002''
          (Some ''bogus'') None ?s)) = HTTP_INTERNAL_SERVER_ERROR"
    and "snd (updateReportStatus sample_world ?u ''65f000000000000000000002''
          (Some ''bogus'') None ?s) = ?s"
    by simp_all
  ultimately show ?thesis using sample_report_found [of "''draft''"] by blast
qed

text \<open>
  C5, as stated, fails: an analyst of the report's organization asks for \<^verbatim>\<open>draft\<close> on a
  published report, and the stored status becomes draft, two steps back on the chain.
\<close>

theorem report_status_moves_backward:
  "report.status (sample_report ''published'') = ''published''
   \<and> Report_findById sample_world
       (snd (updateReportStatus sample_world
               (sample_user ''65f0000000000000000000aa'' ESG_ANALYST ''Acme'')
               ''65f000000000000000000002'' (Some ''draft'') None
               (database_of [] [] [sample_report ''published''])))
       ''65f000000000000000000002''
       = Inr (Some (restatused sample_world (Some ''draft'') None (sample_report ''published'')))
   \<and> report.status (restatused sample_world (Some ''draft'') None (sample_report ''published''))
       = ''draft''
   \<and> report_status_rank ''draft'' < report_status_rank ''published''"
proof -
  have access: "role (sample_user ''65f0000000000000000000aa'' ESG_ANALYST ''Acme'') = ADMINISTRATOR
      \<or> report.organization (sample_report ''published'')
          = user.organization (sample_user ''65f0000000000000000000aa'' ESG_ANALYST ''Acme'')"
    by (simp add: sample_user_def sample_report_def)
  have valid: "report_valid sample_world
      (restatused sample_world (Some ''draft'') None (sample_report ''published''))"
    by (rule sample_report_restatused_valid) simp
  have writes: "\<not> db_writes_fail sample_world" by (simp add: sample_world_def)
  from updateReportStatus_succeeds [OF sample_report_found access valid writes]
  show ?thesis
    by (simp add: restatused_fields report_status_rank_def sample_report_def)
qed

section \<open>The total of the carbon emissions\<close>



























lemmas guards_def = adminOnly_def adminOrAnalyst_def anyRole_def







section \<open>Failures of the audit trail\<close>

lemma createLog_data: "data_of (snd (createLog w e s)) = data_of s"
  by (simp add: data_of_def createLog_frame)

lemma log_data:
  "data_of (snd (logLogin w a b c s)) = data_of s"
  "data_of (snd (logLogout w i s)) = data_of s"
  "data_of (snd (logUserCreated w i j s)) = data_of s"
  "data_of (snd (logUserUpdated w i j s)) = data_of s"
  "data_of (snd (logESGRecordCreated w i j s)) = data_of s"
  "data_of (snd (logESGRecordUpdated w i j s)) = data_of s"
  "data_of (snd (logESGRecordSubmitted w i j s)) = data_of s"
  "data_of (snd (logESGRecordApproved w i j s)) = data_of s"
  "data_of (snd (logReportGenerated w i j s)) = data_of s"
  "data_of (snd (logUnauthorizedAccess w i s)) = data_of s"
  by (simp_all add: log_defs createLog_data)

lemma observable_pair: "observable (r, s) = (r, data_of s)"
  by (simp add: observable_def)

lemma dates_ignore_audit_flag:
  "getDateRange (w\<lparr>audit_writes_fail := b\<rparr>) = getDateRange w"
  by (simp add: fun_eq_iff getDateRange_def Let_def split: option.splits)

lemma ops_ignore_audit_flag:
  "ESGRecord_findById (w\<lparr>audit_writes_fail := b\<rparr>) = ESGRecord_findById w"
  "ESGRecord_save (w\<lparr>audit_writes_fail := b\<rparr>) = ESGRecord_save w"
  "ESGRecord_create (w\<lparr>audit_writes_fail := b\<rparr>) = ESGRecord_create w"
  "ESGRecord_findByIdAndDelete (w\<lparr>audit_writes_fail := b\<rparr>) = ESGRecord_findByIdAndDelete w"
  "Report_findById (w\<lparr>audit_writes_fail := b\<rparr>) = Report_findById w"
  "Report_save (w\<lparr>audit_writes_fail := b\<rparr>) = Report_save w"
  "Report_create (w\<lparr>audit_writes_fail := b\<rparr>) = Report_create w"
  "Report_findByIdAndDelete (w\<lparr>audit_writes_fail := b\<rparr>) = Report_findByIdAndDelete w"
  "User_findById (w\<lparr>audit_writes_fail := b\<rparr>) = User_findById w"
  "User_findOne_email (w\<lparr>audit_writes_fail := b\<rparr>) = User_findOne_email w"
  "User_save (w\<lparr>audit_writes_fail := b\<rparr>) = User_save w"
  "User_create (w\<lparr>audit_writes_fail := b\<rparr>) = User_create w"
  "User_findByIdAndDelete (w\<lparr>audit_writes_fail := b\<rparr>) = User_findByIdAndDelete w"
  "getRecordsForPeriod (w\<lparr>audit_writes_fail := b\<rparr>) = getRecordsForPeriod w"
  "reportDates (w\<lparr>audit_writes_fail := b\<rparr>) = reportDates w"
  "submitted_doc (w\<lparr>audit_writes_fail := b\<rparr>) = submitted_doc w"
  "approved_doc (w\<lparr>audit_writes_fail := b\<rparr>) = approved_doc w"
  "restatused (w\<lparr>audit_writes_fail := b\<rparr>) = restatused w"
  "validate (w\<lparr>audit_writes_fail := b\<rparr>) = validate w"
  by (simp_all add: fun_eq_iff ESGRecord_findById_def ESGRecord_save_def ESGRecord_create_def
      ESGRecord_findByIdAndDelete_def Report_findById_def Report_save_def Report_create_def
      Report_findByIdAndDelete_def User_findById_def User_findOne_email_def User_save_def
      User_create_def User_findByIdAndDelete_def getRecordsForPeriod_def reportDates_def
      dates_ignore_audit_flag submitted_doc_def approved_doc_def restatused_def
      validate_def Let_def split: option.splits)

lemma authenticate_ignores_audit_flag:
  "authenticate (w\<lparr>audit_writes_fail := b\<rparr>) = authenticate w"
  by (simp add: fun_eq_iff authenticate_def ops_ignore_audit_flag Let_def
      split: option.splits sum.splits)

lemma esg_handlers_ignore_audit_failure:
  "observable (createESGRecord (w\<lparr>audit_writes_fail := b\<rparr>) u org period env soc gov s)
     = observable (createESGRecord w u org period env soc gov s)"
  "observable (updateESGRecord (w\<lparr>audit_writes_fail := b\<rparr>) u i env soc gov st notes s)
     = observable (updateESGRecord w u i env soc gov st notes s)"
  "observable (submitESGRecord (w\<lparr>audit_writes_fail := b\<rparr>) u i s)
     = observable (submitESGRecord w u i s)"
  "observable (approveESGRecord (w\<lparr>audit_writes_fail := b\<rparr>) u i notes s)
     = observable (approveESGRecord w u i notes s)"
  "observable (deleteESGRecord (w\<lparr>audit_writes_fail := b\<rparr>) i s)
     = observable (deleteESGRecord w i s)"
  by (simp_all add: createESGRecord_def updateESGRecord_def submitESGRecord_def
      approveESGRecord_def deleteESGRecord_def ops_ignore_audit_flag observable_pair log_data
      split: sum.splits option.splits prod.splits)


lemma report_handlers_ignore_audit_failure:
  "observable (generateReport (w\<lparr>audit_writes_fail := b\<rparr>) u title org rtype yr qtr mon
       startD endD s)
     = observable (generateReport w u title org rtype yr qtr mon startD endD s)"
  "observable (updateReportStatus (w\<lparr>audit_writes_fail := b\<rparr>) u i st notes s)
     = observable (updateReportStatus w u i st notes s)"
  "observable (deleteReport (w\<lparr>audit_writes_fail := b\<rparr>) i s)
     = observable (deleteReport w i s)"
  by (simp_all add: generateReport_def updateReportStatus_def deleteReport_def
      ops_ignore_audit_flag observable_pair log_data Let_def
      split: sum.splits option.splits prod.splits)


lemma account_handlers_ignore_audit_failure:
  "observable (register (w\<lparr>audit_writes_fail := b\<rparr>) nm em pw rl org s)
     = observable (register w nm em pw rl org s)"
  "observable (login (w\<lparr>audit_writes_fail := b\<rparr>) em pw s) = observable (login w em pw s)"
  "observable (updateProfile (w\<lparr>audit_writes_fail := b\<rparr>) u nmo orgo s)
     = observable (updateProfile w u nmo orgo s)"
  "observable (logout (w\<lparr>audit_writes_fail := b\<rparr>) u s) = observable (logout w u s)"
  "observable (createUser (w\<lparr>audit_writes_fail := b\<rparr>) u nm em pw rl org s)
     = observable (createUser w u nm em pw rl org s)"
  "observable (updateUser (w\<lparr>audit_writes_fail := b\<rparr>) u i nmo emo rlo orgo active s)
     = observable (updateUser w u i nmo emo rlo orgo active s)"
  "observable (deleteUser (w\<lparr>audit_writes_fail := b\<rparr>) u i s)
     = observable (deleteUser w u i s)"
  by (simp_all add: register_def login_def updateProfile_def logout_def createUser_def
      updateUser_def deleteUser_def ops_ignore_audit_flag observable_pair log_data Let_def
      split: sum.splits option.splits prod.splits)

lemma with_auth_observable:
  "(\<And>u. observable (k u) = observable (k' u)) \<Longrightarrow>
   observable (with_auth (w\<lparr>audit_writes_fail := b\<rparr>) authHeader s k)
     = observable (with_auth w authHeader s k')"
  by (simp add: with_auth_def authenticate_ignores_audit_flag split: sum.splits)

lemma with_role_observable:
  "observable (k s) = observable (k' s) \<Longrightarrow>
   observable (with_role (checkRole roles) (w\<lparr>audit_writes_fail := b\<rparr>) u s k)
     = observable (with_role (checkRole roles) w u s k')"
  by (simp add: with_role_checkRole observable_pair log_data)

lemma with_check_observable:
  "observable k = observable k' \<Longrightarrow>
   observable (with_check c s k) = observable (with_check c s k')"
  by (simp add: with_check_def split: option.splits)

lemma handle_request_ignores_audit_failure:
  "observable (handle_request (w\<lparr>audit_writes_fail := b\<rparr>) authHeader ep s)
     = observable (handle_request w authHeader ep s)"
  unfolding handle_request_def guards_def
  by (cases ep;
      simp only: endpoint.case ops_ignore_audit_flag;
      intro with_auth_observable with_role_observable with_check_observable;
      simp only: esg_handlers_ignore_audit_failure report_handlers_ignore_audit_failure
        account_handlers_ignore_audit_failure)

text \<open>
  C8. A failed audit write stays inside the audit service: \<^verbatim>\<open>createLog\<close> returns
  \<^verbatim>\<open>null\<close> and leaves the database as it was. For every request that writes, with the
  audit trail failing or working and all else equal, the response is the same and so are
  the users, the records and the reports afterwards: the failure reaches neither the
  caller nor the operation that emitted the entry.
\<close>

theorem audit_failure_leaves_the_outcome_unchanged:
  "createLog (w\<lparr>audit_writes_fail := True\<rparr>) entry s = (None, s)
   \<and> fst (handle_request (w\<lparr>audit_writes_fail := True\<rparr>) authHeader ep s)
       = fst (handle_request (w\<lparr>audit_writes_fail := False\<rparr>) authHeader ep s)
   \<and> users (snd (handle_request (w\<lparr>audit_writes_fail := True\<rparr>) authHeader ep s))
       = users (snd (handle_request (w\<lparr>audit_writes_fail := False\<rparr>) authHeader ep s))
   \<and> esg_records (snd (handle_request (w\<lparr>audit_writes_fail := True\<rparr>) authHeader ep s))
       = esg_records (snd (handle_request (w\<lparr>audit_writes_fail := False\<rparr>) authHeader ep s))
   \<and> reports (snd (handle_request (w\<lparr>audit_writes_fail := True\<rparr>) authHeader ep s))
       = reports (snd (handle_request (w\<lparr>audit_writes_fail := False\<rparr>) authHeader ep s))"
proof -
  have "observable (handle_request (w\<lparr>audit_writes_fail := True\<rparr>) authHeader ep s)
      = observable (handle_request (w\<lparr>audit_writes_fail := False\<rparr>) authHeader ep s)"
    by (simp add: handle_request_ignores_audit_failure)
  moreover have "createLog (w\<lparr>audit_writes_fail := True\<rparr>) entry s = (None, s)"
    by (simp add: createLog_def AuditLog_create_def)
  ultimately show ?thesis
    by (simp add: observable_def data_of_def)
qed

end
